theory Spec2Isabelle
  imports Complex_Main
begin

section \<open>Numbers, vectors and matrices\<close>

text \<open>
  The solver computes over the engine's \<open>decimal\<close> type (a C++ float or double).  The
  embedding idealises it as the real numbers: rounding, infinities and NaN are outside
  the model, and the cast \<open>float(...)\<close> is the identity.  The one exception is
  \<open>computeFrictionVectors\<close>, where the rounding decides a branch: it is modelled a
  second time with the rounding of \<open>decimal\<close>.  Array indices and counts
  (\<open>uint\<close>, \<open>int8\<close>) are natural numbers; no claim depends on their wrap-around.
\<close>

type_synonym decimal = real

text \<open>
  Modelled from the spec: the class \<open>Vector3\<close> (three \<open>decimal\<close> components x, y, z) and
  its operators are declared outside the solver's source file.  The operations below are
  the componentwise sum, difference and scaling, the dot product \<open>\<cdot>\<close>, the cross
  product \<open>\<times>\<close>, the Euclidean length and \<open>unit(v) = v / |v|\<close> that the specification's
  formulas use.
\<close>

datatype Vector3 = Vector3 (vx: decimal) (vy: decimal) (vz: decimal)

instantiation Vector3 :: ab_group_add
begin

definition zero_Vector3 :: Vector3 where
  "zero_Vector3 = Vector3 0 0 0"

definition plus_Vector3 :: "Vector3 \<Rightarrow> Vector3 \<Rightarrow> Vector3" where
  "plus_Vector3 a b = Vector3 (vx a + vx b) (vy a + vy b) (vz a + vz b)"

definition minus_Vector3 :: "Vector3 \<Rightarrow> Vector3 \<Rightarrow> Vector3" where
  "minus_Vector3 a b = Vector3 (vx a - vx b) (vy a - vy b) (vz a - vz b)"

definition uminus_Vector3 :: "Vector3 \<Rightarrow> Vector3" where
  "uminus_Vector3 a = Vector3 (- vx a) (- vy a) (- vz a)"

instance
proof
  fix a b c :: Vector3
  show "a + b + c = a + (b + c)" by (simp add: plus_Vector3_def)
  show "a + b = b + a" by (simp add: plus_Vector3_def)
  show "0 + a = a" by (simp add: plus_Vector3_def zero_Vector3_def)
  show "- a + a = 0" by (simp add: plus_Vector3_def uminus_Vector3_def zero_Vector3_def)
  show "a - b = a + - b" by (simp add: plus_Vector3_def minus_Vector3_def uminus_Vector3_def)
qed

end

definition scaleV :: "decimal \<Rightarrow> Vector3 \<Rightarrow> Vector3" where
  "scaleV a v = Vector3 (a * vx v) (a * vy v) (a * vz v)"

definition divV :: "Vector3 \<Rightarrow> decimal \<Rightarrow> Vector3" where
  "divV v a = Vector3 (vx v / a) (vy v / a) (vz v / a)"

definition dot :: "Vector3 \<Rightarrow> Vector3 \<Rightarrow> decimal" where
  "dot a b = vx a * vx b + vy a * vy b + vz a * vz b"

definition cross :: "Vector3 \<Rightarrow> Vector3 \<Rightarrow> Vector3" where
  "cross a b = Vector3 (vy a * vz b - vz a * vy b)
                       (vz a * vx b - vx a * vz b)
                       (vx a * vy b - vy a * vx b)"

definition lengthV :: "Vector3 \<Rightarrow> decimal" where
  "lengthV v = sqrt (dot v v)"

definition getUnit :: "Vector3 \<Rightarrow> Vector3" where
  "getUnit v = divV v (lengthV v)"

text \<open>
  \<open>v[j] *= f[j]\<close> for \<open>j = 0, 1, 2\<close>: the componentwise product that the per-axis
  velocity factor loops of \<open>solve\<close> compute.
\<close>

definition mulComponents :: "Vector3 \<Rightarrow> Vector3 \<Rightarrow> Vector3" where
  "mulComponents v f = Vector3 (vx v * vx f) (vy v * vy f) (vz v * vz f)"

text \<open>
  Modelled from the spec: the helper \<open>clamp(Vector3, decimal)\<close> is defined outside the
  solver's source file.  The specification describes the rolling-resistance clamp as a
  per-axis abs-clamp: every component is brought into \<open>[-maxLength, maxLength]\<close>.
\<close>

definition clampV :: "Vector3 \<Rightarrow> decimal \<Rightarrow> Vector3" where
  "clampV v maxLength =
     Vector3 (max (- maxLength) (min (vx v) maxLength))
             (max (- maxLength) (min (vy v) maxLength))
             (max (- maxLength) (min (vz v) maxLength))"

text \<open>
  Modelled from the spec: the class \<open>Matrix3x3\<close> (inverse inertia tensors, the rolling
  resistance matrix) is declared outside the solver's source file.  A matrix is its three
  rows; the product with a vector, the sum, the determinant and the inverse are the
  usual ones.
\<close>

datatype Matrix3x3 = Matrix3x3 (row0: Vector3) (row1: Vector3) (row2: Vector3)

definition zeroM :: Matrix3x3 where
  "zeroM = Matrix3x3 0 0 0"

definition mulMV :: "Matrix3x3 \<Rightarrow> Vector3 \<Rightarrow> Vector3" where
  "mulMV m v = Vector3 (dot (row0 m) v) (dot (row1 m) v) (dot (row2 m) v)"

definition addM :: "Matrix3x3 \<Rightarrow> Matrix3x3 \<Rightarrow> Matrix3x3" where
  "addM a b = Matrix3x3 (row0 a + row0 b) (row1 a + row1 b) (row2 a + row2 b)"

definition getDeterminant :: "Matrix3x3 \<Rightarrow> decimal" where
  "getDeterminant m = dot (row0 m) (cross (row1 m) (row2 m))"

definition getInverse :: "Matrix3x3 \<Rightarrow> Matrix3x3" where
  "getInverse m =
     (let d = getDeterminant m;
          c0 = cross (row1 m) (row2 m);
          c1 = cross (row2 m) (row0 m);
          c2 = cross (row0 m) (row1 m)
      in Matrix3x3 (Vector3 (vx c0 / d) (vx c1 / d) (vx c2 / d))
                   (Vector3 (vy c0 / d) (vy c1 / d) (vy c2 / d))
                   (Vector3 (vz c0 / d) (vz c1 / d) (vz c2 / d)))"

section \<open>The data model\<close>

text \<open>
  The body store is a structure of arrays indexed by the row of a body.  Each column is
  a map from the row index to its value, so that a write to one row followed by a read
  of another (or of the same) row behaves as the C++ array does, also when both bodies
  of a manifold are the same row.
\<close>

record RigidBodyComponents =
  mLinearVelocities :: "nat \<Rightarrow> Vector3"
  mAngularVelocities :: "nat \<Rightarrow> Vector3"
  mConstrainedLinearVelocities :: "nat \<Rightarrow> Vector3"
  mConstrainedAngularVelocities :: "nat \<Rightarrow> Vector3"
  mSplitLinearVelocities :: "nat \<Rightarrow> Vector3"
  mSplitAngularVelocities :: "nat \<Rightarrow> Vector3"
  mCentersOfMassWorld :: "nat \<Rightarrow> Vector3"
  mInverseMasses :: "nat \<Rightarrow> decimal"
  mLinearVelocitiesFactors :: "nat \<Rightarrow> Vector3"
  mAngularVelocitiesFactors :: "nat \<Rightarrow> Vector3"

text \<open>
  The external contact point and contact manifold, which outlive the solver.  Their
  fields are named as the engine names them; the fields of the external manifold carry
  the prefix \<open>ext\<close> where the solver's own manifold record has a field of the same name.
\<close>

record ContactPoint =
  mLocalPointOnShape1 :: Vector3
  mLocalPointOnShape2 :: Vector3
  mNormal :: Vector3
  mPenetrationDepth :: decimal
  mIsRestingContact :: bool
  mPenetrationImpulse :: decimal

record ContactManifold =
  bodyEntity1 :: nat
  bodyEntity2 :: nat
  colliderEntity1 :: nat
  colliderEntity2 :: nat
  contactPointsIndex :: nat
  nbContactPoints :: nat
  extFrictionVector1 :: Vector3
  extFrictionVector2 :: Vector3
  frictionImpulse1 :: decimal
  frictionImpulse2 :: decimal
  extFrictionTwistImpulse :: decimal
  extRollingResistanceImpulse :: Vector3

text \<open>
  The solver-internal records.  The back-pointers \<open>externalContact\<close> and
  \<open>externalContactManifold\<close> are indices into the external arrays.  The manifold
  record's field \<open>normal\<close> is \<open>manifoldNormal\<close> here, the point record keeps \<open>normal\<close>.
\<close>

record ContactPointSolver =
  externalContact :: nat
  normal :: Vector3
  r1 :: Vector3
  r2 :: Vector3
  penetrationDepth :: decimal
  restitutionBias :: decimal
  penetrationImpulse :: decimal
  penetrationSplitImpulse :: decimal
  inversePenetrationMass :: decimal
  i1TimesR1CrossN :: Vector3
  i2TimesR2CrossN :: Vector3
  isRestingContact :: bool

record ContactManifoldSolver =
  externalContactManifold :: nat
  rigidBodyComponentIndexBody1 :: nat
  rigidBodyComponentIndexBody2 :: nat
  massInverseBody1 :: decimal
  massInverseBody2 :: decimal
  inverseInertiaTensorBody1 :: Matrix3x3
  inverseInertiaTensorBody2 :: Matrix3x3
  nbContacts :: nat
  frictionCoefficient :: decimal
  rollingResistanceFactor :: decimal
  manifoldNormal :: Vector3
  frictionPointBody1 :: Vector3
  frictionPointBody2 :: Vector3
  r1Friction :: Vector3
  r2Friction :: Vector3
  r1CrossT1 :: Vector3
  r1CrossT2 :: Vector3
  r2CrossT1 :: Vector3
  r2CrossT2 :: Vector3
  inverseFriction1Mass :: decimal
  inverseFriction2Mass :: decimal
  inverseTwistFrictionMass :: decimal
  inverseRollingResistance :: Matrix3x3
  frictionVector1 :: Vector3
  frictionVector2 :: Vector3
  oldFrictionVector1 :: Vector3
  oldFrictionVector2 :: Vector3
  friction1Impulse :: decimal
  friction2Impulse :: decimal
  frictionTwistImpulse :: decimal
  rollingResistanceImpulse :: Vector3

text \<open>
  The solver.  \<open>mContactConstraints\<close> and \<open>mContactPoints\<close> are the frame-arena arrays:
  maps from the cell index to the record, of which the cells below
  \<open>mNbContactManifolds\<close> and \<open>mNbContactPoints\<close> are in use.  The body store and the
  external arrays, which the C++ solver holds by reference, are fields of the state,
  so that every write of the solver to them is an update of the state.
\<close>

record ContactSolverSystem =
  mTimeStep :: decimal
  mRestitutionVelocityThreshold :: decimal
  mIsSplitImpulseActive :: bool
  mContactConstraints :: "nat \<Rightarrow> ContactManifoldSolver"
  mContactPoints :: "nat \<Rightarrow> ContactPointSolver"
  mNbContactPoints :: nat
  mNbContactManifolds :: nat
  mAllContactManifolds :: "ContactManifold list"
  mAllContactPoints :: "ContactPoint list"
  mRigidBodyComponents :: RigidBodyComponents

definition BETA :: decimal where
  "BETA = 2 / 10"

definition BETA_SPLIT_IMPULSE :: decimal where
  "BETA_SPLIT_IMPULSE = 2 / 10"

definition SLOP :: decimal where
  "SLOP = 1 / 100"


section \<open>Array cells\<close>

text \<open>
  \<open>a[i] -= d\<close>, \<open>a[i] += d\<close> and \<open>a[i][j] *= f[j]\<close> (for the three axes) on a column of the
  body store.  The C++ writes the three components one after the other; they do not
  depend on each other, so the cell is updated as a whole.
\<close>

definition timesV :: "Vector3 \<Rightarrow> decimal \<Rightarrow> Vector3" where
  "timesV v a = Vector3 (vx v * a) (vy v * a) (vz v * a)"

definition subAt :: "nat \<Rightarrow> Vector3 \<Rightarrow> (nat \<Rightarrow> Vector3) \<Rightarrow> (nat \<Rightarrow> Vector3)" where
  "subAt i d col = col(i := col i - d)"

definition addAt :: "nat \<Rightarrow> Vector3 \<Rightarrow> (nat \<Rightarrow> Vector3) \<Rightarrow> (nat \<Rightarrow> Vector3)" where
  "addAt i d col = col(i := col i + d)"

definition mulAt :: "nat \<Rightarrow> Vector3 \<Rightarrow> (nat \<Rightarrow> Vector3) \<Rightarrow> (nat \<Rightarrow> Vector3)" where
  "mulAt i f col = col(i := mulComponents (col i) f)"

definition mulConstrainedByFactors :: "nat \<Rightarrow> RigidBodyComponents \<Rightarrow> RigidBodyComponents" where
  "mulConstrainedByFactors i rb =
     rb\<lparr>mConstrainedLinearVelocities :=
           mulAt i (mLinearVelocitiesFactors rb i) (mConstrainedLinearVelocities rb),
        mConstrainedAngularVelocities :=
           mulAt i (mAngularVelocitiesFactors rb i) (mConstrainedAngularVelocities rb)\<rparr>"

definition mulVelocitiesByFactors :: "nat \<Rightarrow> RigidBodyComponents \<Rightarrow> RigidBodyComponents" where
  "mulVelocitiesByFactors i rb =
     rb\<lparr>mLinearVelocities :=
           mulAt i (mLinearVelocitiesFactors rb i) (mLinearVelocities rb),
        mAngularVelocities :=
           mulAt i (mAngularVelocitiesFactors rb i) (mAngularVelocities rb)\<rparr>"

section \<open>solve\<close>

text \<open>
  The velocity difference as \<open>solve\<close> writes it out, four times with the same signs
  (contact point, split impulse, first and second friction constraint): the components
  of \<open>v2 + w2 \<times> rb - v1 - w1 \<times> ra\<close>.
\<close>

definition deltaVSolve ::
  "Vector3 \<Rightarrow> Vector3 \<Rightarrow> Vector3 \<Rightarrow> Vector3 \<Rightarrow> Vector3 \<Rightarrow> Vector3 \<Rightarrow> Vector3" where
  "deltaVSolve v1 w1 v2 w2 ra rb =
     Vector3 (vx v2 + vy w2 * vz rb - vz w2 * vy rb - vx v1 - vy w1 * vz ra + vz w1 * vy ra)
             (vy v2 + vz w2 * vx rb - vx w2 * vz rb - vy v1 - vz w1 * vx ra + vx w1 * vz ra)
             (vz v2 + vx w2 * vy rb - vy w2 * vx rb - vz v1 - vx w1 * vy ra + vy w1 * vx ra)"

text \<open>\<open>beta\<close> and the bias \<open>biasPenetrationDepth\<close> of a contact point (lines 504, 534-538).\<close>

definition beta :: "ContactSolverSystem \<Rightarrow> decimal" where
  "beta s = (if mIsSplitImpulseActive s then BETA_SPLIT_IMPULSE else BETA)"

definition biasPenetrationDepth :: "ContactSolverSystem \<Rightarrow> ContactPointSolver \<Rightarrow> decimal" where
  "biasPenetrationDepth s cp =
     (if penetrationDepth cp > SLOP
      then - (beta s / mTimeStep s) * max 0 (penetrationDepth cp - SLOP)
      else 0)"

text \<open>\<open>Jv\<close> of the penetration constraint over the constrained velocities (lines 521-531).\<close>

definition JvPenetration :: "nat \<Rightarrow> nat \<Rightarrow> ContactSolverSystem \<Rightarrow> decimal" where
  "JvPenetration c contactPointIndex s =
     (let cm = mContactConstraints s c;
          cp = mContactPoints s contactPointIndex;
          rb = mRigidBodyComponents s;
          v1 = mConstrainedLinearVelocities rb (rigidBodyComponentIndexBody1 cm);
          w1 = mConstrainedAngularVelocities rb (rigidBodyComponentIndexBody1 cm);
          v2 = mConstrainedLinearVelocities rb (rigidBodyComponentIndexBody2 cm);
          w2 = mConstrainedAngularVelocities rb (rigidBodyComponentIndexBody2 cm);
          deltaV = deltaVSolve v1 w1 v2 w2 (r1 cp) (r2 cp)
      in vx deltaV * vx (normal cp) + vy deltaV * vy (normal cp) + vz deltaV * vz (normal cp))"

text \<open>The Lagrange multiplier before the projection (lines 539-548).\<close>

definition deltaLambdaPenetration :: "nat \<Rightarrow> nat \<Rightarrow> ContactSolverSystem \<Rightarrow> decimal" where
  "deltaLambdaPenetration c contactPointIndex s =
     (let cp = mContactPoints s contactPointIndex;
          Jv = JvPenetration c contactPointIndex s;
          b = biasPenetrationDepth s cp + restitutionBias cp
      in if mIsSplitImpulseActive s
         then - (Jv + restitutionBias cp) * inversePenetrationMass cp
         else - (Jv + b) * inversePenetrationMass cp)"

text \<open>
  The penetration constraint of one contact point on the constrained velocities
  (lines 519-592): the projection of the accumulated impulse, the impulse on body 1,
  the two factor loops of body 1 (the second one on \<open>mLinearVelocities\<close> and
  \<open>mAngularVelocities\<close>), the impulse on body 2 and the factor loop of body 2, which
  multiplies the constrained velocities of body 1 again.
\<close>

definition solvePenetration :: "nat \<Rightarrow> nat \<Rightarrow> ContactSolverSystem \<Rightarrow> ContactSolverSystem" where
  "solvePenetration c contactPointIndex s =
     (let cm = mContactConstraints s c;
          cp = mContactPoints s contactPointIndex;
          i1 = rigidBodyComponentIndexBody1 cm;
          i2 = rigidBodyComponentIndexBody2 cm;
          lambdaTemp = penetrationImpulse cp;
          newImpulse = max (penetrationImpulse cp + deltaLambdaPenetration c contactPointIndex s) 0;
          deltaLambda = newImpulse - lambdaTemp;
          linearImpulse = timesV (normal cp) deltaLambda;
          s1 = s\<lparr>mContactPoints :=
                   (mContactPoints s)(contactPointIndex := cp\<lparr>penetrationImpulse := newImpulse\<rparr>)\<rparr>;
          s2 = mRigidBodyComponents_update (mConstrainedLinearVelocities_update
                 (subAt i1 (scaleV (massInverseBody1 cm) linearImpulse))) s1;
          s3 = mRigidBodyComponents_update (mConstrainedAngularVelocities_update
                 (subAt i1 (timesV (i1TimesR1CrossN cp) deltaLambda))) s2;
          s4 = mRigidBodyComponents_update (mulConstrainedByFactors i1) s3;
          s5 = mRigidBodyComponents_update (mulVelocitiesByFactors i1) s4;
          s6 = mRigidBodyComponents_update (mConstrainedLinearVelocities_update
                 (addAt i2 (scaleV (massInverseBody2 cm) linearImpulse))) s5;
          s7 = mRigidBodyComponents_update (mConstrainedAngularVelocities_update
                 (addAt i2 (timesV (i2TimesR2CrossN cp) deltaLambda))) s6;
          s8 = mRigidBodyComponents_update (mulConstrainedByFactors i2) s7
      in mRigidBodyComponents_update (mulConstrainedByFactors i1) s8)"

text \<open>\<open>JvSplit\<close> over the split velocities and the split multiplier (lines 600-616).\<close>

definition JvSplit :: "nat \<Rightarrow> nat \<Rightarrow> ContactSolverSystem \<Rightarrow> decimal" where
  "JvSplit c contactPointIndex s =
     (let cm = mContactConstraints s c;
          cp = mContactPoints s contactPointIndex;
          rb = mRigidBodyComponents s;
          v1Split = mSplitLinearVelocities rb (rigidBodyComponentIndexBody1 cm);
          w1Split = mSplitAngularVelocities rb (rigidBodyComponentIndexBody1 cm);
          v2Split = mSplitLinearVelocities rb (rigidBodyComponentIndexBody2 cm);
          w2Split = mSplitAngularVelocities rb (rigidBodyComponentIndexBody2 cm);
          deltaVSplit = deltaVSolve v1Split w1Split v2Split w2Split (r1 cp) (r2 cp)
      in vx deltaVSplit * vx (normal cp) + vy deltaVSplit * vy (normal cp) +
         vz deltaVSplit * vz (normal cp))"

definition deltaLambdaSplit :: "nat \<Rightarrow> nat \<Rightarrow> ContactSolverSystem \<Rightarrow> decimal" where
  "deltaLambdaSplit c contactPointIndex s =
     (let cp = mContactPoints s contactPointIndex
      in - (JvSplit c contactPointIndex s + biasPenetrationDepth s cp) * inversePenetrationMass cp)"

text \<open>The split impulse of one contact point (lines 596-644), on the split velocities.\<close>

definition solveSplitImpulse :: "nat \<Rightarrow> nat \<Rightarrow> ContactSolverSystem \<Rightarrow> ContactSolverSystem" where
  "solveSplitImpulse c contactPointIndex s =
     (let cm = mContactConstraints s c;
          cp = mContactPoints s contactPointIndex;
          i1 = rigidBodyComponentIndexBody1 cm;
          i2 = rigidBodyComponentIndexBody2 cm;
          lambdaTempSplit = penetrationSplitImpulse cp;
          newImpulse = max (penetrationSplitImpulse cp + deltaLambdaSplit c contactPointIndex s) 0;
          dLambdaSplit = newImpulse - lambdaTempSplit;
          linearImpulse = timesV (normal cp) dLambdaSplit;
          s1 = s\<lparr>mContactPoints :=
                   (mContactPoints s)(contactPointIndex := cp\<lparr>penetrationSplitImpulse := newImpulse\<rparr>)\<rparr>;
          s2 = mRigidBodyComponents_update (mSplitLinearVelocities_update
                 (subAt i1 (scaleV (massInverseBody1 cm) linearImpulse))) s1;
          s3 = mRigidBodyComponents_update (mSplitAngularVelocities_update
                 (subAt i1 (timesV (i1TimesR1CrossN cp) dLambdaSplit))) s2;
          s4 = mRigidBodyComponents_update (mSplitLinearVelocities_update
                 (addAt i2 (scaleV (massInverseBody2 cm) linearImpulse))) s3
      in mRigidBodyComponents_update (mSplitAngularVelocities_update
                 (addAt i2 (timesV (i2TimesR2CrossN cp) dLambdaSplit))) s4)"

text \<open>One turn of the loop over the contact points of manifold \<open>c\<close> (lines 517-647).\<close>

definition solveContactPoint :: "nat \<Rightarrow> nat \<Rightarrow> ContactSolverSystem \<Rightarrow> ContactSolverSystem" where
  "solveContactPoint c contactPointIndex s =
     (let s1 = solvePenetration c contactPointIndex s
      in if mIsSplitImpulseActive s1 then solveSplitImpulse c contactPointIndex s1 else s1)"

text \<open>
  The loop over the contact points: the number of turns left, the running
  \<open>contactPointIndex\<close>, \<open>sumPenetrationImpulse\<close> and the state.  The sum takes the
  impulse of the point after its penetration constraint; the split impulse does not
  change it.  The loop bound \<open>nbContacts\<close> is read once: no turn writes it.
\<close>

fun solveContactPoints ::
  "nat \<Rightarrow> nat \<Rightarrow> nat \<Rightarrow> decimal \<Rightarrow> ContactSolverSystem \<Rightarrow> nat \<times> decimal \<times> ContactSolverSystem" where
  "solveContactPoints c 0 contactPointIndex sumPenetrationImpulse s =
     (contactPointIndex, sumPenetrationImpulse, s)"
| "solveContactPoints c (Suc n) contactPointIndex sumPenetrationImpulse s =
     (let s1 = solveContactPoint c contactPointIndex s
      in solveContactPoints c n (contactPointIndex + 1)
           (sumPenetrationImpulse + penetrationImpulse (mContactPoints s1 contactPointIndex)) s1)"

text \<open>The first friction constraint at the centre of the manifold (lines 649-697).\<close>

definition JvFriction :: "nat \<Rightarrow> Vector3 \<Rightarrow> ContactSolverSystem \<Rightarrow> decimal" where
  "JvFriction c t s =
     (let cm = mContactConstraints s c;
          rb = mRigidBodyComponents s;
          v1 = mConstrainedLinearVelocities rb (rigidBodyComponentIndexBody1 cm);
          w1 = mConstrainedAngularVelocities rb (rigidBodyComponentIndexBody1 cm);
          v2 = mConstrainedLinearVelocities rb (rigidBodyComponentIndexBody2 cm);
          w2 = mConstrainedAngularVelocities rb (rigidBodyComponentIndexBody2 cm);
          deltaV = deltaVSolve v1 w1 v2 w2 (r1Friction cm) (r2Friction cm)
      in vx deltaV * vx t + vy deltaV * vy t + vz deltaV * vz t)"

definition applyFrictionImpulse ::
  "ContactManifoldSolver \<Rightarrow> Vector3 \<Rightarrow> Vector3 \<Rightarrow> Vector3 \<Rightarrow> ContactSolverSystem \<Rightarrow> ContactSolverSystem" where
  "applyFrictionImpulse cm angularImpulseBody1 linearImpulseBody2 angularImpulseBody2 s =
     (let i1 = rigidBodyComponentIndexBody1 cm;
          i2 = rigidBodyComponentIndexBody2 cm;
          s1 = mRigidBodyComponents_update (mConstrainedLinearVelocities_update
                 (subAt i1 (scaleV (massInverseBody1 cm) linearImpulseBody2))) s;
          s2 = mRigidBodyComponents_update (mConstrainedAngularVelocities_update
                 (addAt i1 (mulMV (inverseInertiaTensorBody1 cm) angularImpulseBody1))) s1;
          s3 = mRigidBodyComponents_update (mConstrainedLinearVelocities_update
                 (addAt i2 (scaleV (massInverseBody2 cm) linearImpulseBody2))) s2
      in mRigidBodyComponents_update (mConstrainedAngularVelocities_update
                 (addAt i2 (mulMV (inverseInertiaTensorBody2 cm) angularImpulseBody2))) s3)"

definition solveFriction1 :: "nat \<Rightarrow> decimal \<Rightarrow> ContactSolverSystem \<Rightarrow> ContactSolverSystem" where
  "solveFriction1 c sumPenetrationImpulse s =
     (let cm = mContactConstraints s c;
          Jv = JvFriction c (frictionVector1 cm) s;
          deltaLambda0 = - Jv * inverseFriction1Mass cm;
          frictionLimit = frictionCoefficient cm * sumPenetrationImpulse;
          lambdaTemp = friction1Impulse cm;
          newImpulse = max (- frictionLimit) (min (friction1Impulse cm + deltaLambda0) frictionLimit);
          deltaLambda = newImpulse - lambdaTemp;
          s1 = s\<lparr>mContactConstraints :=
                   (mContactConstraints s)(c := cm\<lparr>friction1Impulse := newImpulse\<rparr>)\<rparr>
      in applyFrictionImpulse cm
           (timesV (- r1CrossT1 cm) deltaLambda)
           (timesV (frictionVector1 cm) deltaLambda)
           (timesV (r2CrossT1 cm) deltaLambda) s1)"

text \<open>The second friction constraint (lines 699-744).\<close>

definition solveFriction2 :: "nat \<Rightarrow> decimal \<Rightarrow> ContactSolverSystem \<Rightarrow> ContactSolverSystem" where
  "solveFriction2 c sumPenetrationImpulse s =
     (let cm = mContactConstraints s c;
          Jv = JvFriction c (frictionVector2 cm) s;
          deltaLambda0 = - Jv * inverseFriction2Mass cm;
          frictionLimit = frictionCoefficient cm * sumPenetrationImpulse;
          lambdaTemp = friction2Impulse cm;
          newImpulse = max (- frictionLimit) (min (friction2Impulse cm + deltaLambda0) frictionLimit);
          deltaLambda = newImpulse - lambdaTemp;
          s1 = s\<lparr>mContactConstraints :=
                   (mContactConstraints s)(c := cm\<lparr>friction2Impulse := newImpulse\<rparr>)\<rparr>
      in applyFrictionImpulse cm
           (timesV (- r1CrossT2 cm) deltaLambda)
           (timesV (frictionVector2 cm) deltaLambda)
           (timesV (r2CrossT2 cm) deltaLambda) s1)"

text \<open>The twist friction constraint (lines 746-770).\<close>

definition solveTwistFriction :: "nat \<Rightarrow> decimal \<Rightarrow> ContactSolverSystem \<Rightarrow> ContactSolverSystem" where
  "solveTwistFriction c sumPenetrationImpulse s =
     (let cm = mContactConstraints s c;
          i1 = rigidBodyComponentIndexBody1 cm;
          i2 = rigidBodyComponentIndexBody2 cm;
          rb = mRigidBodyComponents s;
          deltaV = mConstrainedAngularVelocities rb i2 - mConstrainedAngularVelocities rb i1;
          Jv = vx deltaV * vx (manifoldNormal cm) + vy deltaV * vy (manifoldNormal cm) +
               vz deltaV * vz (manifoldNormal cm);
          deltaLambda0 = - Jv * inverseTwistFrictionMass cm;
          frictionLimit = frictionCoefficient cm * sumPenetrationImpulse;
          lambdaTemp = frictionTwistImpulse cm;
          newImpulse = max (- frictionLimit) (min (frictionTwistImpulse cm + deltaLambda0) frictionLimit);
          deltaLambda = newImpulse - lambdaTemp;
          angularImpulseBody2 = timesV (manifoldNormal cm) deltaLambda;
          s1 = s\<lparr>mContactConstraints :=
                   (mContactConstraints s)(c := cm\<lparr>frictionTwistImpulse := newImpulse\<rparr>)\<rparr>;
          s2 = mRigidBodyComponents_update (mConstrainedAngularVelocities_update
                 (subAt i1 (mulMV (inverseInertiaTensorBody1 cm) angularImpulseBody2))) s1
      in mRigidBodyComponents_update (mConstrainedAngularVelocities_update
                 (addAt i2 (mulMV (inverseInertiaTensorBody2 cm) angularImpulseBody2))) s2)"

text \<open>The rolling resistance constraint (lines 772-792), with its guard.\<close>

definition solveRollingResistance :: "nat \<Rightarrow> decimal \<Rightarrow> ContactSolverSystem \<Rightarrow> ContactSolverSystem" where
  "solveRollingResistance c sumPenetrationImpulse s =
     (let cm = mContactConstraints s c;
          i1 = rigidBodyComponentIndexBody1 cm;
          i2 = rigidBodyComponentIndexBody2 cm;
          rb = mRigidBodyComponents s
      in if rollingResistanceFactor cm > 0
         then
           (let JvRolling = mConstrainedAngularVelocities rb i2 - mConstrainedAngularVelocities rb i1;
                deltaLambdaRolling0 = mulMV (inverseRollingResistance cm) (- JvRolling);
                rollingLimit = rollingResistanceFactor cm * sumPenetrationImpulse;
                lambdaTempRolling = rollingResistanceImpulse cm;
                newImpulse = clampV (rollingResistanceImpulse cm + deltaLambdaRolling0) rollingLimit;
                deltaLambdaRolling = newImpulse - lambdaTempRolling;
                s1 = s\<lparr>mContactConstraints :=
                         (mContactConstraints s)(c := cm\<lparr>rollingResistanceImpulse := newImpulse\<rparr>)\<rparr>;
                s2 = mRigidBodyComponents_update (mConstrainedAngularVelocities_update
                       (subAt i1 (mulMV (inverseInertiaTensorBody1 cm) deltaLambdaRolling))) s1
            in mRigidBodyComponents_update (mConstrainedAngularVelocities_update
                       (addAt i2 (mulMV (inverseInertiaTensorBody2 cm) deltaLambdaRolling))) s2)
         else s)"

text \<open>One turn of the loop over the manifolds (lines 507-793).\<close>

definition solveManifold :: "nat \<Rightarrow> nat \<Rightarrow> ContactSolverSystem \<Rightarrow> nat \<times> ContactSolverSystem" where
  "solveManifold c contactPointIndex s =
     (case solveContactPoints c (nbContacts (mContactConstraints s c)) contactPointIndex 0 s of
        (contactPointIndex', sumPenetrationImpulse, s1) \<Rightarrow>
          (contactPointIndex',
           solveRollingResistance c sumPenetrationImpulse
             (solveTwistFriction c sumPenetrationImpulse
               (solveFriction2 c sumPenetrationImpulse
                 (solveFriction1 c sumPenetrationImpulse s1)))))"

fun solveManifolds :: "nat \<Rightarrow> nat \<Rightarrow> nat \<Rightarrow> ContactSolverSystem \<Rightarrow> ContactSolverSystem" where
  "solveManifolds 0 c contactPointIndex s = s"
| "solveManifolds (Suc n) c contactPointIndex s =
     (case solveManifold c contactPointIndex s of
        (contactPointIndex', s1) \<Rightarrow> solveManifolds n (c + 1) contactPointIndex' s1)"

definition solve :: "ContactSolverSystem \<Rightarrow> ContactSolverSystem" where
  "solve s = solveManifolds (mNbContactManifolds s) 0 0 s"

section \<open>init\<close>

text \<open>
  The collaborators that \<open>init\<close> reads and that are defined outside the solver's
  source file, named after the calls of the source: the island table
  (\<open>getNbIslands\<close>, \<open>contactManifoldsIndices\<close>, \<open>nbContactManifolds\<close>), the row of an
  entity in the body store, the type of a body, the world-space inverse inertia tensor
  of a body, the local-to-world transform of a collider applied to a point, the
  material of a collider, the constant \<open>MACHINE_EPSILON\<close> and the helper
  \<open>Vector3::getOneUnitOrthogonalVector\<close>.  They are parameters of the model.  The
  island table and the external manifolds hold indices of existing cells of the
  external arrays (the engine asserts it); the model reads such a cell with \<open>!\<close>.
\<close>

datatype BodyType = STATIC | KINEMATIC | DYNAMIC

record Collaborators =
  getNbIslands :: nat
  contactManifoldsIndices :: "nat \<Rightarrow> nat"
  nbContactManifolds :: "nat \<Rightarrow> nat"
  getEntityIndex :: "nat \<Rightarrow> nat"
  getType :: "nat \<Rightarrow> BodyType"
  getWorldInertiaTensorInverse :: "nat \<Rightarrow> Matrix3x3"
  getLocalToWorldTransform :: "nat \<Rightarrow> Vector3 \<Rightarrow> Vector3"
  getBounciness :: "nat \<Rightarrow> decimal"
  getFrictionCoefficient :: "nat \<Rightarrow> decimal"
  getRollingResistance :: "nat \<Rightarrow> decimal"
  MACHINE_EPSILON :: decimal
  getOneUnitOrthogonalVector :: "Vector3 \<Rightarrow> Vector3"

text \<open>
  Modelled from the spec: the helper \<open>approxEqual\<close> is defined outside the solver's source
  file; \<open>det(R) \<approx> 0\<close> is equality up to the machine epsilon.
\<close>

definition approxEqual :: "decimal \<Rightarrow> decimal \<Rightarrow> decimal \<Rightarrow> bool" where
  "approxEqual a b eps = (\<bar>a - b\<bar> < eps)"

text \<open>The mixed material factors (lines 796-816).\<close>

definition computeMixedRestitutionFactor :: "Collaborators \<Rightarrow> nat \<Rightarrow> nat \<Rightarrow> decimal" where
  "computeMixedRestitutionFactor env collider1 collider2 =
     (let restitution1 = getBounciness env collider1;
          restitution2 = getBounciness env collider2
      in if restitution1 > restitution2 then restitution1 else restitution2)"

definition computeMixedFrictionCoefficient :: "Collaborators \<Rightarrow> nat \<Rightarrow> nat \<Rightarrow> decimal" where
  "computeMixedFrictionCoefficient env collider1 collider2 =
     sqrt (getFrictionCoefficient env collider1 * getFrictionCoefficient env collider2)"

definition computeMixedRollingResistance :: "Collaborators \<Rightarrow> nat \<Rightarrow> nat \<Rightarrow> decimal" where
  "computeMixedRollingResistance env collider1 collider2 =
     (1 / 2) * (getRollingResistance env collider1 + getRollingResistance env collider2)"

text \<open>
  The records that the placement \<open>new (...) ContactManifoldSolver()\<close> and
  \<open>new (...) ContactPointSolver()\<close> construct: value-initialised, every field zero.
\<close>

definition newContactManifoldSolver :: ContactManifoldSolver where
  "newContactManifoldSolver =
     \<lparr>externalContactManifold = 0,
      rigidBodyComponentIndexBody1 = 0, rigidBodyComponentIndexBody2 = 0,
      massInverseBody1 = 0, massInverseBody2 = 0,
      inverseInertiaTensorBody1 = zeroM, inverseInertiaTensorBody2 = zeroM,
      nbContacts = 0, frictionCoefficient = 0, rollingResistanceFactor = 0,
      manifoldNormal = 0, frictionPointBody1 = 0, frictionPointBody2 = 0,
      r1Friction = 0, r2Friction = 0,
      r1CrossT1 = 0, r1CrossT2 = 0, r2CrossT1 = 0, r2CrossT2 = 0,
      inverseFriction1Mass = 0, inverseFriction2Mass = 0, inverseTwistFrictionMass = 0,
      inverseRollingResistance = zeroM,
      frictionVector1 = 0, frictionVector2 = 0,
      oldFrictionVector1 = 0, oldFrictionVector2 = 0,
      friction1Impulse = 0, friction2Impulse = 0, frictionTwistImpulse = 0,
      rollingResistanceImpulse = 0\<rparr>"

definition newContactPointSolver :: ContactPointSolver where
  "newContactPointSolver =
     \<lparr>externalContact = 0, normal = 0, r1 = 0, r2 = 0,
      penetrationDepth = 0, restitutionBias = 0, penetrationImpulse = 0,
      penetrationSplitImpulse = 0, inversePenetrationMass = 0,
      i1TimesR1CrossN = 0, i2TimesR2CrossN = 0, isRestingContact = False\<rparr>"

text \<open>
  The velocity difference as \<open>initializeForIsland\<close> writes it out, twice with the same
  signs (lines 204-209 for a contact point, lines 294-305 for the friction point).
\<close>

definition deltaVInit ::
  "Vector3 \<Rightarrow> Vector3 \<Rightarrow> Vector3 \<Rightarrow> Vector3 \<Rightarrow> Vector3 \<Rightarrow> Vector3 \<Rightarrow> Vector3" where
  "deltaVInit v1 w1 v2 w2 ra rb =
     Vector3 (vx v2 + vy w2 * vz rb - vz w2 * vy rb - vx v1 - vy w1 * vz ra - vz w1 * vy ra)
             (vy v2 + vz w2 * vx rb - vx w2 * vz rb - vy v1 - vz w1 * vx ra - vx w1 * vz ra)
             (vz v2 + vx w2 * vy rb - vy w2 * vx rb - vz v1 - vx w1 * vy ra - vy w1 * vx ra)"

text \<open>
  The restitution bias of a contact point (lines 235-247) from the velocity difference,
  the normal, the mixed restitution factor and the threshold.
\<close>

definition computeRestitutionBias :: "Vector3 \<Rightarrow> Vector3 \<Rightarrow> decimal \<Rightarrow> decimal \<Rightarrow> decimal" where
  "computeRestitutionBias deltaV n restitutionFactor threshold =
     (let deltaVDotN = vx deltaV * vx n + vy deltaV * vy n + vz deltaV * vz n
      in if deltaVDotN < - threshold then restitutionFactor * deltaVDotN else 0)"

text \<open>
  The solver record of the external contact point with index \<open>c\<close> (lines 174-193 and
  202-247), built for the manifold record \<open>cm\<close> under construction and the external
  manifold \<open>ext\<close>.
\<close>

definition initContactPointSolver ::
  "Collaborators \<Rightarrow> ContactManifold \<Rightarrow> ContactManifoldSolver \<Rightarrow> nat \<Rightarrow> ContactSolverSystem
     \<Rightarrow> ContactPointSolver" where
  "initContactPointSolver env ext cm c s =
     (let extContact = mAllContactPoints s ! c;
          bodies = mRigidBodyComponents s;
          i1 = rigidBodyComponentIndexBody1 cm;
          i2 = rigidBodyComponentIndexBody2 cm;
          x1 = mCentersOfMassWorld bodies i1;
          x2 = mCentersOfMassWorld bodies i2;
          v1 = mLinearVelocities bodies i1;
          w1 = mAngularVelocities bodies i1;
          v2 = mLinearVelocities bodies i2;
          w2 = mAngularVelocities bodies i2;
          p1 = getLocalToWorldTransform env (colliderEntity1 ext) (mLocalPointOnShape1 extContact);
          p2 = getLocalToWorldTransform env (colliderEntity2 ext) (mLocalPointOnShape2 extContact);
          n = mNormal extContact;
          ra = Vector3 (vx p1 - vx x1) (vy p1 - vy x1) (vz p1 - vz x1);
          rb = Vector3 (vx p2 - vx x2) (vy p2 - vy x2) (vz p2 - vz x2);
          deltaV = deltaVInit v1 w1 v2 w2 ra rb;
          r1CrossN = cross ra n;
          r2CrossN = cross rb n;
          i1r1n = mulMV (inverseInertiaTensorBody1 cm) r1CrossN;
          i2r2n = mulMV (inverseInertiaTensorBody2 cm) r2CrossN;
          massPenetration = massInverseBody1 cm + massInverseBody2 cm +
                            dot (cross i1r1n ra) n + dot (cross i2r2n rb) n;
          restitutionFactor =
            computeMixedRestitutionFactor env (colliderEntity1 ext) (colliderEntity2 ext)
      in \<lparr>externalContact = c,
          normal = n,
          r1 = ra,
          r2 = rb,
          penetrationDepth = mPenetrationDepth extContact,
          restitutionBias =
            computeRestitutionBias deltaV n restitutionFactor (mRestitutionVelocityThreshold s),
          penetrationImpulse = mPenetrationImpulse extContact,
          penetrationSplitImpulse = 0,
          inversePenetrationMass = (if massPenetration > 0 then 1 / massPenetration else 0),
          i1TimesR1CrossN = i1r1n,
          i2TimesR2CrossN = i2r2n,
          isRestingContact = mIsRestingContact extContact\<rparr>)"

text \<open>
  One turn of the loop over the contact points of a manifold (lines 172-254).  The
  manifold record under construction is the cell \<open>mContactConstraints[mNbContactManifolds]\<close>;
  it is threaded as \<open>cm\<close> and stored when the manifold is complete.  The turn builds the
  point record in the cell \<open>mContactPoints[mNbContactPoints]\<close>, marks the external
  contact as resting, adds the world points and the normal to the sums of the manifold
  and increments \<open>mNbContactPoints\<close>.
\<close>

definition initContactPoint ::
  "Collaborators \<Rightarrow> ContactManifold \<Rightarrow> nat \<Rightarrow> ContactManifoldSolver \<times> ContactSolverSystem
     \<Rightarrow> ContactManifoldSolver \<times> ContactSolverSystem" where
  "initContactPoint env ext c st =
     (let cm = fst st;
          s = snd st;
          extContact = mAllContactPoints s ! c;
          p1 = getLocalToWorldTransform env (colliderEntity1 ext) (mLocalPointOnShape1 extContact);
          p2 = getLocalToWorldTransform env (colliderEntity2 ext) (mLocalPointOnShape2 extContact);
          cp = initContactPointSolver env ext cm c s
      in (cm\<lparr>frictionPointBody1 := frictionPointBody1 cm + p1,
             frictionPointBody2 := frictionPointBody2 cm + p2,
             manifoldNormal := manifoldNormal cm + normal cp\<rparr>,
          s\<lparr>mAllContactPoints := (mAllContactPoints s)[c := extContact\<lparr>mIsRestingContact := True\<rparr>],
            mContactPoints := (mContactPoints s)(mNbContactPoints s := cp),
            mNbContactPoints := mNbContactPoints s + 1\<rparr>))"

fun initContactPoints ::
  "Collaborators \<Rightarrow> ContactManifold \<Rightarrow> nat \<Rightarrow> nat \<Rightarrow> ContactManifoldSolver \<times> ContactSolverSystem
     \<Rightarrow> ContactManifoldSolver \<times> ContactSolverSystem" where
  "initContactPoints env ext 0 c st = st"
| "initContactPoints env ext (Suc n) c st =
     initContactPoints env ext n (c + 1) (initContactPoint env ext c st)"

text \<open>
  \<open>computeFrictionVectors\<close> (lines 847-876), over the real numbers.  In the type
  \<open>decimal\<close> the difference \<open>deltaVelocity - (deltaVelocity \<cdot> n) n\<close> is rounded, and its
  length, compared with \<open>MACHINE_EPSILON\<close>, decides the branch: the section on
  \<open>computeFrictionVectors\<close> in the arithmetic of the type \<open>decimal\<close> has the same function
  with the rounding after every operation.  No theorem about \<open>init\<close>, \<open>warmStart\<close> or
  \<open>solve\<close> depends on the friction vectors that this function computes.
\<close>

definition computeFrictionVectors ::
  "Collaborators \<Rightarrow> Vector3 \<Rightarrow> ContactManifoldSolver \<Rightarrow> ContactManifoldSolver" where
  "computeFrictionVectors env deltaVelocity contact =
     (let deltaVDotNormal = dot deltaVelocity (manifoldNormal contact);
          normalVelocity = scaleV deltaVDotNormal (manifoldNormal contact);
          tangentVelocity = Vector3 (vx deltaVelocity - vx normalVelocity)
                                    (vy deltaVelocity - vy normalVelocity)
                                    (vz deltaVelocity - vz normalVelocity);
          lengthTangentVelocity = lengthV tangentVelocity;
          contact1 =
            (if lengthTangentVelocity > MACHINE_EPSILON env
             then contact\<lparr>frictionVector1 := divV tangentVelocity lengthTangentVelocity\<rparr>
             else contact\<lparr>frictionVector1 := getOneUnitOrthogonalVector env (manifoldNormal contact)\<rparr>)
      in contact1\<lparr>frictionVector2 :=
                    getUnit (cross (manifoldNormal contact1) (frictionVector1 contact1))\<rparr>)"

text \<open>
  The rolling resistance matrix of a manifold (lines 272-288).
\<close>

definition computeInverseRollingResistance ::
  "Collaborators \<Rightarrow> ContactManifold \<Rightarrow> ContactManifoldSolver \<Rightarrow> Matrix3x3" where
  "computeInverseRollingResistance env ext cm =
     (let isBody1DynamicType = (getType env (bodyEntity1 ext) = DYNAMIC);
          isBody2DynamicType = (getType env (bodyEntity2 ext) = DYNAMIC)
      in if rollingResistanceFactor cm > 0 \<and> (isBody1DynamicType \<or> isBody2DynamicType)
         then
           (let m = addM (inverseInertiaTensorBody1 cm) (inverseInertiaTensorBody2 cm);
                det = getDeterminant m
            in if approxEqual det 0 (MACHINE_EPSILON env) then zeroM else getInverse m)
         else zeroM)"

text \<open>
  The friction data of a manifold after \<open>computeFrictionVectors\<close> (lines 310-332): the
  cross products of the friction levers with the tangent basis and the three inverse
  effective masses.
\<close>

definition computeFrictionMasses :: "ContactManifoldSolver \<Rightarrow> ContactManifoldSolver" where
  "computeFrictionMasses cm =
     (let r1xt1 = cross (r1Friction cm) (frictionVector1 cm);
          r1xt2 = cross (r1Friction cm) (frictionVector2 cm);
          r2xt1 = cross (r2Friction cm) (frictionVector1 cm);
          r2xt2 = cross (r2Friction cm) (frictionVector2 cm);
          friction1Mass = massInverseBody1 cm + massInverseBody2 cm +
            dot (cross (mulMV (inverseInertiaTensorBody1 cm) r1xt1) (r1Friction cm)) (frictionVector1 cm) +
            dot (cross (mulMV (inverseInertiaTensorBody2 cm) r2xt1) (r2Friction cm)) (frictionVector1 cm);
          friction2Mass = massInverseBody1 cm + massInverseBody2 cm +
            dot (cross (mulMV (inverseInertiaTensorBody1 cm) r1xt2) (r1Friction cm)) (frictionVector2 cm) +
            dot (cross (mulMV (inverseInertiaTensorBody2 cm) r2xt2) (r2Friction cm)) (frictionVector2 cm);
          frictionTwistMass =
            dot (manifoldNormal cm) (mulMV (inverseInertiaTensorBody1 cm) (manifoldNormal cm)) +
            dot (manifoldNormal cm) (mulMV (inverseInertiaTensorBody2 cm) (manifoldNormal cm))
      in cm\<lparr>r1CrossT1 := r1xt1, r1CrossT2 := r1xt2, r2CrossT1 := r2xt1, r2CrossT2 := r2xt2,
            inverseFriction1Mass := (if friction1Mass > 0 then 1 / friction1Mass else 0),
            inverseFriction2Mass := (if friction2Mass > 0 then 1 / friction2Mass else 0),
            inverseTwistFrictionMass := (if frictionTwistMass > 0 then 1 / frictionTwistMass else 0)\<rparr>)"

text \<open>
  The part of the loop body after the loop over the contact points (lines 256-332):
  the friction points and levers, the seeds of the accumulated impulses, the rolling
  resistance matrix, the normalised normal, the tangent basis and the friction masses.
  The accumulated \<open>rollingResistanceImpulse\<close> is not seeded: it stays as constructed.
\<close>

definition finishManifold ::
  "Collaborators \<Rightarrow> ContactManifold \<Rightarrow> ContactSolverSystem \<Rightarrow> ContactManifoldSolver
     \<Rightarrow> ContactManifoldSolver" where
  "finishManifold env ext s cm =
     (let rb = mRigidBodyComponents s;
          i1 = rigidBodyComponentIndexBody1 cm;
          i2 = rigidBodyComponentIndexBody2 cm;
          x1 = mCentersOfMassWorld rb i1;
          x2 = mCentersOfMassWorld rb i2;
          v1 = mLinearVelocities rb i1;
          w1 = mAngularVelocities rb i1;
          v2 = mLinearVelocities rb i2;
          w2 = mAngularVelocities rb i2;
          fp1 = divV (frictionPointBody1 cm) (real (nbContacts cm));
          fp2 = divV (frictionPointBody2 cm) (real (nbContacts cm));
          r1F = Vector3 (vx fp1 - vx x1) (vy fp1 - vy x1) (vz fp1 - vz x1);
          r2F = Vector3 (vx fp2 - vx x2) (vy fp2 - vy x2) (vz fp2 - vz x2);
          cm1 = cm\<lparr>frictionPointBody1 := fp1,
                   frictionPointBody2 := fp2,
                   r1Friction := r1F,
                   r2Friction := r2F,
                   oldFrictionVector1 := extFrictionVector1 ext,
                   oldFrictionVector2 := extFrictionVector2 ext,
                   friction1Impulse := frictionImpulse1 ext,
                   friction2Impulse := frictionImpulse2 ext,
                   frictionTwistImpulse := extFrictionTwistImpulse ext,
                   inverseRollingResistance := computeInverseRollingResistance env ext cm,
                   manifoldNormal := getUnit (manifoldNormal cm)\<rparr>;
          deltaVFrictionPoint = deltaVInit v1 w1 v2 w2 r1F r2F
      in computeFrictionMasses (computeFrictionVectors env deltaVFrictionPoint cm1))"

text \<open>
  The manifold record as the loop body sets it up before the loop over the contact
  points (lines 124-160), for the external manifold with index \<open>m\<close>.
\<close>

definition initContactManifoldSolver ::
  "Collaborators \<Rightarrow> nat \<Rightarrow> ContactSolverSystem \<Rightarrow> ContactManifoldSolver" where
  "initContactManifoldSolver env m s =
     (let ext = mAllContactManifolds s ! m;
          rigidBodyIndex1 = getEntityIndex env (bodyEntity1 ext);
          rigidBodyIndex2 = getEntityIndex env (bodyEntity2 ext);
          bodies = mRigidBodyComponents s
      in newContactManifoldSolver
           \<lparr>rigidBodyComponentIndexBody1 := rigidBodyIndex1,
            rigidBodyComponentIndexBody2 := rigidBodyIndex2,
            inverseInertiaTensorBody1 := getWorldInertiaTensorInverse env (bodyEntity1 ext),
            inverseInertiaTensorBody2 := getWorldInertiaTensorInverse env (bodyEntity2 ext),
            massInverseBody1 := mInverseMasses bodies rigidBodyIndex1,
            massInverseBody2 := mInverseMasses bodies rigidBodyIndex2,
            nbContacts := nbContactPoints ext,
            frictionCoefficient :=
              computeMixedFrictionCoefficient env (colliderEntity1 ext) (colliderEntity2 ext),
            rollingResistanceFactor :=
              computeMixedRollingResistance env (colliderEntity1 ext) (colliderEntity2 ext),
            externalContactManifold := m,
            manifoldNormal := 0,
            frictionPointBody1 := 0,
            frictionPointBody2 := 0\<rparr>)"

text \<open>
  One turn of the loop over the manifolds of an island (lines 122-335), for the
  external manifold with index \<open>m\<close>.
\<close>

definition initManifold :: "Collaborators \<Rightarrow> nat \<Rightarrow> ContactSolverSystem \<Rightarrow> ContactSolverSystem" where
  "initManifold env m s =
     (let ext = mAllContactManifolds s ! m;
          st = initContactPoints env ext (nbContactPoints ext) (contactPointsIndex ext)
                 (initContactManifoldSolver env m s, s);
          s1 = snd st;
          cm = finishManifold env ext s1 (fst st)
      in s1\<lparr>mContactConstraints := (mContactConstraints s1)(mNbContactManifolds s1 := cm),
            mNbContactManifolds := mNbContactManifolds s1 + 1\<rparr>)"

fun initManifolds :: "Collaborators \<Rightarrow> nat \<Rightarrow> nat \<Rightarrow> ContactSolverSystem \<Rightarrow> ContactSolverSystem" where
  "initManifolds env 0 m s = s"
| "initManifolds env (Suc n) m s = initManifolds env n (m + 1) (initManifold env m s)"

definition initializeForIsland :: "Collaborators \<Rightarrow> nat \<Rightarrow> ContactSolverSystem \<Rightarrow> ContactSolverSystem" where
  "initializeForIsland env islandIndex s =
     initManifolds env (nbContactManifolds env islandIndex)
       (contactManifoldsIndices env islandIndex) s"

fun initIslands :: "Collaborators \<Rightarrow> nat \<Rightarrow> nat \<Rightarrow> ContactSolverSystem \<Rightarrow> ContactSolverSystem" where
  "initIslands env 0 i s = s"
| "initIslands env (Suc n) i s =
     initIslands env n (i + 1)
       (if nbContactManifolds env i > 0 then initializeForIsland env i s else s)"

section \<open>warmStart\<close>

text \<open>
  One turn of the loop over the contact points of manifold \<open>c\<close> (lines 353-391): a
  resting contact point applies its accumulated penetration impulse to the constrained
  velocities, a new one gets the impulse zero.
\<close>

definition warmStartContactPoint :: "nat \<Rightarrow> nat \<Rightarrow> ContactSolverSystem \<Rightarrow> ContactSolverSystem" where
  "warmStartContactPoint c contactPointIndex s =
     (let cm = mContactConstraints s c;
          cp = mContactPoints s contactPointIndex;
          i1 = rigidBodyComponentIndexBody1 cm;
          i2 = rigidBodyComponentIndexBody2 cm
      in if isRestingContact cp
         then
           (let impulsePenetration = timesV (normal cp) (penetrationImpulse cp);
                s1 = mRigidBodyComponents_update (mConstrainedLinearVelocities_update
                       (subAt i1 (scaleV (massInverseBody1 cm) impulsePenetration))) s;
                s2 = mRigidBodyComponents_update (mConstrainedAngularVelocities_update
                       (subAt i1 (timesV (i1TimesR1CrossN cp) (penetrationImpulse cp)))) s1;
                s3 = mRigidBodyComponents_update (mConstrainedLinearVelocities_update
                       (addAt i2 (scaleV (massInverseBody2 cm) impulsePenetration))) s2
            in mRigidBodyComponents_update (mConstrainedAngularVelocities_update
                       (addAt i2 (timesV (i2TimesR2CrossN cp) (penetrationImpulse cp)))) s3)
         else s\<lparr>mContactPoints :=
                  (mContactPoints s)(contactPointIndex := cp\<lparr>penetrationImpulse := 0\<rparr>)\<rparr>)"

text \<open>
  The loop over the contact points: the number of turns left, the running
  \<open>contactPointIndex\<close>, the flag \<open>atLeastOneRestingContactPoint\<close> and the state.
\<close>

fun warmStartContactPoints ::
  "nat \<Rightarrow> nat \<Rightarrow> nat \<Rightarrow> bool \<Rightarrow> ContactSolverSystem \<Rightarrow> nat \<times> bool \<times> ContactSolverSystem" where
  "warmStartContactPoints c 0 contactPointIndex atLeastOneRestingContactPoint s =
     (contactPointIndex, atLeastOneRestingContactPoint, s)"
| "warmStartContactPoints c (Suc n) contactPointIndex atLeastOneRestingContactPoint s =
     warmStartContactPoints c n (contactPointIndex + 1)
       (if isRestingContact (mContactPoints s contactPointIndex) then True
        else atLeastOneRestingContactPoint)
       (warmStartContactPoint c contactPointIndex s)"

text \<open>
  The projection of the old friction impulse of manifold \<open>c\<close> onto the new tangent
  basis (lines 397-406).
\<close>

definition projectOldFrictionImpulse :: "ContactManifoldSolver \<Rightarrow> ContactManifoldSolver" where
  "projectOldFrictionImpulse cm =
     (let oldFrictionImpulse =
            Vector3 (friction1Impulse cm * vx (oldFrictionVector1 cm) +
                       friction2Impulse cm * vx (oldFrictionVector2 cm))
                    (friction1Impulse cm * vy (oldFrictionVector1 cm) +
                       friction2Impulse cm * vy (oldFrictionVector2 cm))
                    (friction1Impulse cm * vz (oldFrictionVector1 cm) +
                       friction2Impulse cm * vz (oldFrictionVector2 cm))
      in cm\<lparr>friction1Impulse := dot oldFrictionImpulse (frictionVector1 cm),
            friction2Impulse := dot oldFrictionImpulse (frictionVector2 cm)\<rparr>)"

text \<open>
  The manifold part of a turn when a contact point was resting (lines 395-483): the
  projection, then the two friction impulses, the twist impulse and the rolling
  resistance impulse on the constrained velocities.
\<close>

definition warmStartFriction :: "nat \<Rightarrow> ContactSolverSystem \<Rightarrow> ContactSolverSystem" where
  "warmStartFriction c s =
     (let cm = projectOldFrictionImpulse (mContactConstraints s c);
          i1 = rigidBodyComponentIndexBody1 cm;
          i2 = rigidBodyComponentIndexBody2 cm;
          s1 = s\<lparr>mContactConstraints := (mContactConstraints s)(c := cm)\<rparr>;
          s2 = applyFrictionImpulse cm
                 (timesV (- r1CrossT1 cm) (friction1Impulse cm))
                 (timesV (frictionVector1 cm) (friction1Impulse cm))
                 (timesV (r2CrossT1 cm) (friction1Impulse cm)) s1;
          s3 = applyFrictionImpulse cm
                 (timesV (- r1CrossT2 cm) (friction2Impulse cm))
                 (timesV (frictionVector2 cm) (friction2Impulse cm))
                 (timesV (r2CrossT2 cm) (friction2Impulse cm)) s2;
          s4 = mRigidBodyComponents_update (mConstrainedAngularVelocities_update
                 (addAt i1 (mulMV (inverseInertiaTensorBody1 cm)
                    (timesV (- manifoldNormal cm) (frictionTwistImpulse cm))))) s3;
          s5 = mRigidBodyComponents_update (mConstrainedAngularVelocities_update
                 (addAt i2 (mulMV (inverseInertiaTensorBody2 cm)
                    (timesV (manifoldNormal cm) (frictionTwistImpulse cm))))) s4;
          s6 = mRigidBodyComponents_update (mConstrainedAngularVelocities_update
                 (subAt i1 (mulMV (inverseInertiaTensorBody1 cm) (rollingResistanceImpulse cm)))) s5
      in mRigidBodyComponents_update (mConstrainedAngularVelocities_update
                 (addAt i2 (mulMV (inverseInertiaTensorBody2 cm) (rollingResistanceImpulse cm)))) s6)"

text \<open>The manifold part of a turn when no contact point was resting (lines 484-491).\<close>

definition warmStartNewManifold :: "nat \<Rightarrow> ContactSolverSystem \<Rightarrow> ContactSolverSystem" where
  "warmStartNewManifold c s =
     s\<lparr>mContactConstraints := (mContactConstraints s)
         (c := (mContactConstraints s c)
            \<lparr>friction1Impulse := 0, friction2Impulse := 0, frictionTwistImpulse := 0,
             rollingResistanceImpulse := 0\<rparr>)\<rparr>"

definition warmStartManifold :: "nat \<Rightarrow> nat \<Rightarrow> ContactSolverSystem \<Rightarrow> nat \<times> ContactSolverSystem" where
  "warmStartManifold c contactPointIndex s =
     (case warmStartContactPoints c (nbContacts (mContactConstraints s c)) contactPointIndex False s of
        (contactPointIndex', atLeastOneRestingContactPoint, s1) \<Rightarrow>
          (contactPointIndex',
           if atLeastOneRestingContactPoint then warmStartFriction c s1
           else warmStartNewManifold c s1))"

fun warmStartManifolds :: "nat \<Rightarrow> nat \<Rightarrow> nat \<Rightarrow> ContactSolverSystem \<Rightarrow> ContactSolverSystem" where
  "warmStartManifolds 0 c contactPointIndex s = s"
| "warmStartManifolds (Suc n) c contactPointIndex s =
     (case warmStartManifold c contactPointIndex s of
        (contactPointIndex', s1) \<Rightarrow> warmStartManifolds n (c + 1) contactPointIndex' s1)"

definition warmStart :: "ContactSolverSystem \<Rightarrow> ContactSolverSystem" where
  "warmStart s = warmStartManifolds (mNbContactManifolds s) 0 0 s"

text \<open>
  \<open>init\<close> (lines 64-102).  The two arena pointers are set to null and, past the early
  return, to fresh blocks; a fresh block has arbitrary contents and every cell is
  constructed before it is read, so the cell maps are left as they are.
\<close>

definition init ::
  "Collaborators \<Rightarrow> ContactManifold list \<Rightarrow> ContactPoint list \<Rightarrow> decimal \<Rightarrow> ContactSolverSystem
     \<Rightarrow> ContactSolverSystem" where
  "init env contactManifolds contactPoints timeStep s =
     (let s0 = s\<lparr>mAllContactManifolds := contactManifolds,
                 mAllContactPoints := contactPoints,
                 mTimeStep := timeStep,
                 mNbContactManifolds := 0,
                 mNbContactPoints := 0\<rparr>
      in if length contactManifolds = 0 \<or> length contactPoints = 0 then s0
         else warmStart (initIslands env (getNbIslands env) 0 s0))"

section \<open>storeImpulses\<close>

text \<open>
  \<open>storeImpulses\<close> (lines 820-843) writes through the back-pointers into the external
  arrays.
\<close>

fun storeContactPoints :: "nat \<Rightarrow> nat \<Rightarrow> ContactSolverSystem \<Rightarrow> nat \<times> ContactSolverSystem" where
  "storeContactPoints 0 contactPointIndex s = (contactPointIndex, s)"
| "storeContactPoints (Suc n) contactPointIndex s =
     (let cp = mContactPoints s contactPointIndex;
          e = externalContact cp
      in storeContactPoints n (contactPointIndex + 1)
           (s\<lparr>mAllContactPoints := (mAllContactPoints s)
                 [e := (mAllContactPoints s ! e)\<lparr>mPenetrationImpulse := penetrationImpulse cp\<rparr>]\<rparr>))"

definition storeManifold :: "nat \<Rightarrow> nat \<Rightarrow> ContactSolverSystem \<Rightarrow> nat \<times> ContactSolverSystem" where
  "storeManifold c contactPointIndex s =
     (case storeContactPoints (nbContacts (mContactConstraints s c)) contactPointIndex s of
        (contactPointIndex', s1) \<Rightarrow>
          (let cm = mContactConstraints s1 c;
               e = externalContactManifold cm
           in (contactPointIndex',
               s1\<lparr>mAllContactManifolds := (mAllContactManifolds s1)
                     [e := (mAllContactManifolds s1 ! e)
                        \<lparr>frictionImpulse1 := friction1Impulse cm,
                         frictionImpulse2 := friction2Impulse cm,
                         extFrictionTwistImpulse := frictionTwistImpulse cm,
                         extRollingResistanceImpulse := rollingResistanceImpulse cm,
                         extFrictionVector1 := frictionVector1 cm,
                         extFrictionVector2 := frictionVector2 cm\<rparr>]\<rparr>)))"

fun storeManifolds :: "nat \<Rightarrow> nat \<Rightarrow> nat \<Rightarrow> ContactSolverSystem \<Rightarrow> ContactSolverSystem" where
  "storeManifolds 0 c contactPointIndex s = s"
| "storeManifolds (Suc n) c contactPointIndex s =
     (case storeManifold c contactPointIndex s of
        (contactPointIndex', s1) \<Rightarrow> storeManifolds n (c + 1) contactPointIndex' s1)"

definition storeImpulses :: "ContactSolverSystem \<Rightarrow> ContactSolverSystem" where
  "storeImpulses s = storeManifolds (mNbContactManifolds s) 0 0 s"

section \<open>Quantities of the specification\<close>

text \<open>
  The contact points of manifold \<open>c\<close> are the cells \<open>firstContactPoint s c\<close> up to
  \<open>firstContactPoint s c + nbContacts\<close> of \<open>mContactPoints\<close>: the running index of the
  loops starts at 0 and grows by one for every contact point of every manifold.
  \<open>sumPenetrationImpulse s c\<close> is the sum of the accumulated penetration impulses of
  these points in the state \<open>s\<close>.
\<close>

definition firstContactPoint :: "ContactSolverSystem \<Rightarrow> nat \<Rightarrow> nat" where
  "firstContactPoint s c = (\<Sum>k<c. nbContacts (mContactConstraints s k))"

definition sumPenetrationImpulse :: "ContactSolverSystem \<Rightarrow> nat \<Rightarrow> decimal" where
  "sumPenetrationImpulse s c =
     (\<Sum>p = firstContactPoint s c..<firstContactPoint s c + nbContacts (mContactConstraints s c).
        penetrationImpulse (mContactPoints s p))"

text \<open>
  What \<open>warmStart\<close> makes of a manifold record, by whether one of the contact points of
  the manifold is resting: the projection of the old friction impulses, or the four
  accumulated impulses set to zero.
\<close>

definition warmStartedManifold :: "bool \<Rightarrow> ContactManifoldSolver \<Rightarrow> ContactManifoldSolver" where
  "warmStartedManifold atLeastOneRestingContactPoint cm =
     (if atLeastOneRestingContactPoint then projectOldFrictionImpulse cm
      else cm\<lparr>friction1Impulse := 0, friction2Impulse := 0, frictionTwistImpulse := 0,
              rollingResistanceImpulse := 0\<rparr>)"

text \<open>
  The relative point velocity as the specification writes it:
  \<open>\<Delta>v = v2 + w2 \<times> r2 - v1 - w1 \<times> r1\<close>.
\<close>

definition relativePointVelocity ::
  "Vector3 \<Rightarrow> Vector3 \<Rightarrow> Vector3 \<Rightarrow> Vector3 \<Rightarrow> Vector3 \<Rightarrow> Vector3 \<Rightarrow> Vector3" where
  "relativePointVelocity v1 w1 v2 w2 ra rb = v2 + cross w2 rb - v1 - cross w1 ra"

text \<open>
  What \<open>init\<close> establishes and \<open>solve\<close> keeps: the cells of \<open>mContactPoints\<close> in use are
  those of the manifolds in use, and no friction coefficient is negative.
\<close>

definition built :: "ContactSolverSystem \<Rightarrow> bool" where
  "built s =
     (mNbContactPoints s = firstContactPoint s (mNbContactManifolds s) \<and>
      (\<forall>c < mNbContactManifolds s. 0 \<le> frictionCoefficient (mContactConstraints s c)))"

section \<open>A solver state with one manifold and one contact point\<close>

text \<open>
  Body 0 is a static plane, body 1 a unit mass falling onto it with velocity
  \<open>(0, -5, 0)\<close>; the contact normal is \<open>(0, 1, 0)\<close>, from body 0 to body 1.
\<close>

definition exampleBodies :: RigidBodyComponents where
  "exampleBodies =
     \<lparr>mLinearVelocities = (\<lambda>i. if i = 1 then Vector3 0 (- 5) 0 else 0),
      mAngularVelocities = (\<lambda>i. 0),
      mConstrainedLinearVelocities = (\<lambda>i. if i = 1 then Vector3 0 (- 5) 0 else 0),
      mConstrainedAngularVelocities = (\<lambda>i. 0),
      mSplitLinearVelocities = (\<lambda>i. 0),
      mSplitAngularVelocities = (\<lambda>i. 0),
      mCentersOfMassWorld = (\<lambda>i. if i = 1 then Vector3 0 1 0 else 0),
      mInverseMasses = (\<lambda>i. if i = 1 then 1 else 0),
      mLinearVelocitiesFactors = (\<lambda>i. Vector3 1 1 1),
      mAngularVelocitiesFactors = (\<lambda>i. Vector3 1 1 1)\<rparr>"

definition exampleManifoldSolver :: ContactManifoldSolver where
  "exampleManifoldSolver =
     newContactManifoldSolver
       \<lparr>rigidBodyComponentIndexBody1 := 0,
        rigidBodyComponentIndexBody2 := 1,
        massInverseBody2 := 1,
        nbContacts := 1,
        frictionCoefficient := 1 / 2,
        rollingResistanceFactor := 1 / 2,
        manifoldNormal := Vector3 0 1 0,
        r2Friction := Vector3 0 (- 1) 0,
        inverseFriction1Mass := 1,
        inverseFriction2Mass := 1,
        frictionVector1 := Vector3 1 0 0,
        frictionVector2 := Vector3 0 0 (- 1),
        oldFrictionVector1 := Vector3 0 0 1,
        oldFrictionVector2 := Vector3 1 0 0,
        friction1Impulse := 2,
        friction2Impulse := 3,
        frictionTwistImpulse := 1,
        rollingResistanceImpulse := Vector3 1 0 0\<rparr>"

definition examplePointSolver :: ContactPointSolver where
  "examplePointSolver =
     newContactPointSolver
       \<lparr>normal := Vector3 0 1 0,
        r2 := Vector3 0 (- 1) 0,
        penetrationDepth := 3 / 100,
        inversePenetrationMass := 1,
        isRestingContact := True,
        penetrationImpulse := 1\<rparr>"

definition exampleContactPoint :: ContactPoint where
  "exampleContactPoint =
     \<lparr>mLocalPointOnShape1 = 0,
      mLocalPointOnShape2 = Vector3 0 (- 1) 0,
      mNormal = Vector3 0 1 0,
      mPenetrationDepth = 3 / 100,
      mIsRestingContact = True,
      mPenetrationImpulse = 1\<rparr>"

definition exampleContactManifold :: ContactManifold where
  "exampleContactManifold =
     \<lparr>bodyEntity1 = 0, bodyEntity2 = 1, colliderEntity1 = 0, colliderEntity2 = 1,
      contactPointsIndex = 0, nbContactPoints = 1,
      extFrictionVector1 = Vector3 0 0 1, extFrictionVector2 = Vector3 1 0 0,
      frictionImpulse1 = 2, frictionImpulse2 = 3,
      extFrictionTwistImpulse = 1, extRollingResistanceImpulse = Vector3 1 0 0\<rparr>"

definition exampleSolver :: ContactSolverSystem where
  "exampleSolver =
     \<lparr>mTimeStep = 1 / 60,
      mRestitutionVelocityThreshold = 1,
      mIsSplitImpulseActive = True,
      mContactConstraints = (\<lambda>c. exampleManifoldSolver),
      mContactPoints = (\<lambda>p. examplePointSolver),
      mNbContactPoints = 1,
      mNbContactManifolds = 1,
      mAllContactManifolds = [exampleContactManifold],
      mAllContactPoints = [exampleContactPoint],
      mRigidBodyComponents = exampleBodies\<rparr>"

section \<open>A solver state with per-axis velocity factors\<close>

text \<open>
  Two bodies of unit mass; body 0 moves with the velocity \<open>(4, 0, 0)\<close> and turns with
  \<open>(3, 0, 0)\<close>, its linear velocity factor is \<open>(1/2, 1, 1)\<close> and its angular velocity
  factor \<open>(0, 1, 1)\<close>.  The bodies sit at \<open>(0, -1, 0)\<close> and \<open>(0, 1, 0)\<close> and touch at the
  origin; the contact normal \<open>(0, 1, 0)\<close> is orthogonal to the motion of the contact
  point, so that the penetration constraint applies no impulse.  The materials have no
  friction and no rolling resistance, and the inverse inertia tensors are zero.
\<close>

definition factorExampleBodies :: RigidBodyComponents where
  "factorExampleBodies =
     \<lparr>mLinearVelocities = (\<lambda>i. if i = 0 then Vector3 4 0 0 else 0),
      mAngularVelocities = (\<lambda>i. if i = 0 then Vector3 3 0 0 else 0),
      mConstrainedLinearVelocities = (\<lambda>i. if i = 0 then Vector3 4 0 0 else 0),
      mConstrainedAngularVelocities = (\<lambda>i. if i = 0 then Vector3 3 0 0 else 0),
      mSplitLinearVelocities = (\<lambda>i. 0),
      mSplitAngularVelocities = (\<lambda>i. 0),
      mCentersOfMassWorld = (\<lambda>i. if i = 0 then Vector3 0 (- 1) 0 else Vector3 0 1 0),
      mInverseMasses = (\<lambda>i. 1),
      mLinearVelocitiesFactors = (\<lambda>i. if i = 0 then Vector3 (1 / 2) 1 1 else Vector3 1 1 1),
      mAngularVelocitiesFactors = (\<lambda>i. if i = 0 then Vector3 0 1 1 else Vector3 1 1 1)\<rparr>"

definition factorExampleSolver :: ContactSolverSystem where
  "factorExampleSolver =
     \<lparr>mTimeStep = 1 / 60,
      mRestitutionVelocityThreshold = 1,
      mIsSplitImpulseActive = True,
      mContactConstraints = (\<lambda>c. newContactManifoldSolver
         \<lparr>rigidBodyComponentIndexBody1 := 0,
          rigidBodyComponentIndexBody2 := 1,
          massInverseBody1 := 1,
          massInverseBody2 := 1,
          nbContacts := 1,
          manifoldNormal := Vector3 0 1 0,
          r1Friction := Vector3 0 1 0,
          r2Friction := Vector3 0 (- 1) 0,
          inverseFriction1Mass := 1 / 2,
          inverseFriction2Mass := 1 / 2,
          frictionVector1 := Vector3 1 0 0,
          frictionVector2 := Vector3 0 0 (- 1)\<rparr>),
      mContactPoints = (\<lambda>p. newContactPointSolver
         \<lparr>normal := Vector3 0 1 0,
          r1 := Vector3 0 1 0,
          r2 := Vector3 0 (- 1) 0,
          inversePenetrationMass := 1 / 2\<rparr>),
      mNbContactPoints = 1,
      mNbContactManifolds = 1,
      mAllContactManifolds = [exampleContactManifold],
      mAllContactPoints = [exampleContactPoint],
      mRigidBodyComponents = factorExampleBodies\<rparr>"

section \<open>A solver state with a resting and a new contact point\<close>

text \<open>
  The manifold of \<open>exampleSolver\<close> with two contact points: point 0 is resting, point 1
  is new.
\<close>

definition warmExampleSolver :: ContactSolverSystem where
  "warmExampleSolver =
     exampleSolver
       \<lparr>mContactConstraints := (\<lambda>c. exampleManifoldSolver\<lparr>nbContacts := 2\<rparr>),
        mContactPoints := (\<lambda>p. if p = 0 then examplePointSolver
                                 else examplePointSolver\<lparr>isRestingContact := False\<rparr>),
        mNbContactPoints := 2,
        mAllContactPoints := [exampleContactPoint, exampleContactPoint\<lparr>mIsRestingContact := False\<rparr>]\<rparr>"

section \<open>Collaborators for the examples\<close>

text \<open>
  One island with one manifold; entities are their own rows in the body store; the
  colliders sit at the origin of the world, so that a local point is its world point.
  \<open>exampleOrthogonal\<close> is a helper that returns a unit vector orthogonal to a non-zero
  vector.
\<close>

definition exampleOrthogonal :: "Vector3 \<Rightarrow> Vector3" where
  "exampleOrthogonal n =
     (let a = (if vx n \<noteq> 0 \<or> vy n \<noteq> 0 then Vector3 (- vy n) (vx n) 0
               else Vector3 0 (- vz n) (vy n))
      in divV a (lengthV a))"

definition exampleCollaborators :: Collaborators where
  "exampleCollaborators =
     \<lparr>getNbIslands = 1,
      contactManifoldsIndices = (\<lambda>i. 0),
      nbContactManifolds = (\<lambda>i. 1),
      getEntityIndex = (\<lambda>e. e),
      getType = (\<lambda>e. if e = 1 then DYNAMIC else STATIC),
      getWorldInertiaTensorInverse = (\<lambda>e. zeroM),
      getLocalToWorldTransform = (\<lambda>e p. p),
      getBounciness = (\<lambda>e. 1 / 2),
      getFrictionCoefficient = (\<lambda>e. 1 / 2),
      getRollingResistance = (\<lambda>e. 0),
      MACHINE_EPSILON = 1 / 1000000,
      getOneUnitOrthogonalVector = exampleOrthogonal\<rparr>"

section \<open>A contact with a spinning body\<close>

text \<open>
  Body 0 spins about the z axis with the angular velocity \<open>(0, 0, 2)\<close> around the
  origin; the contact point \<open>(0, 1, 0)\<close> on it moves with \<open>(-2, 0, 0)\<close>, away from body 1,
  which rests at \<open>(2, 1, 0)\<close>.  The contact normal is \<open>(1, 0, 0)\<close>, from body 0 to
  body 1: the relative velocity along the normal is \<open>+2\<close>, a separating contact.
\<close>

definition signExampleBodies :: RigidBodyComponents where
  "signExampleBodies =
     \<lparr>mLinearVelocities = (\<lambda>i. 0),
      mAngularVelocities = (\<lambda>i. if i = 0 then Vector3 0 0 2 else 0),
      mConstrainedLinearVelocities = (\<lambda>i. 0),
      mConstrainedAngularVelocities = (\<lambda>i. if i = 0 then Vector3 0 0 2 else 0),
      mSplitLinearVelocities = (\<lambda>i. 0),
      mSplitAngularVelocities = (\<lambda>i. 0),
      mCentersOfMassWorld = (\<lambda>i. if i = 1 then Vector3 2 1 0 else 0),
      mInverseMasses = (\<lambda>i. 1),
      mLinearVelocitiesFactors = (\<lambda>i. Vector3 1 1 1),
      mAngularVelocitiesFactors = (\<lambda>i. Vector3 1 1 1)\<rparr>"

definition signExampleContactPoint :: ContactPoint where
  "signExampleContactPoint =
     \<lparr>mLocalPointOnShape1 = Vector3 0 1 0,
      mLocalPointOnShape2 = Vector3 0 1 0,
      mNormal = Vector3 1 0 0,
      mPenetrationDepth = 0,
      mIsRestingContact = False,
      mPenetrationImpulse = 0\<rparr>"

definition signExampleSolver :: ContactSolverSystem where
  "signExampleSolver = exampleSolver\<lparr>mRigidBodyComponents := signExampleBodies\<rparr>"

section \<open>A rolling ball on a plane\<close>






section \<open>computeFrictionVectors in the arithmetic of the type decimal\<close>

text \<open>
  Modelled from the spec: the type \<open>decimal\<close> is declared outside the solver's source
  file, and the specification states the properties of the tangent basis up to the
  tolerance \<open>10\<^sup>-\<^sup>5\<close> of a floating-point type.  It is taken as a binary format of
  IEEE 754: \<open>float\<close> with a significand of 24 bits or \<open>double\<close> with 53 bits.
  \<open>roundDecimal p\<close> is the rounding of a real number to the nearest number with a
  significand of \<open>p\<close> bits, a tie going to the even significand (the default rounding).
  The exponent is not bounded: there is no overflow and no underflow.  The machine
  epsilon of the format is \<open>2\<close> to the power \<open>1 - p\<close>.
\<close>

definition roundToEven :: "real \<Rightarrow> int" where
  "roundToEven x =
     (let f = \<lfloor>x\<rfloor>; r = x - of_int f
      in if r < 1 / 2 then f else if 1 / 2 < r then f + 1 else if even f then f else f + 1)"

definition roundDecimal :: "nat \<Rightarrow> real \<Rightarrow> decimal" where
  "roundDecimal p x =
     (if x = 0 then 0
      else (let e = \<lfloor>log 2 \<bar>x\<bar>\<rfloor> + 1 - int p
            in of_int (roundToEven (x / 2 powi e)) * 2 powi e))"

text \<open>
  Modelled from the spec: the operations of \<open>Vector3\<close> that \<open>computeFrictionVectors\<close>
  calls, with the result of every multiplication, addition, subtraction, division and
  square root rounded by \<open>fl\<close>: a sum of products takes the products first and adds
  them from left to right, without a fused multiply-add.  The unit vector of the zero
  vector is the zero vector.
\<close>

definition dotFl :: "(real \<Rightarrow> decimal) \<Rightarrow> Vector3 \<Rightarrow> Vector3 \<Rightarrow> decimal" where
  "dotFl fl a b = fl (fl (fl (vx a * vx b) + fl (vy a * vy b)) + fl (vz a * vz b))"

definition lengthVFl :: "(real \<Rightarrow> decimal) \<Rightarrow> Vector3 \<Rightarrow> decimal" where
  "lengthVFl fl v = fl (sqrt (dotFl fl v v))"

definition scaleVFl :: "(real \<Rightarrow> decimal) \<Rightarrow> decimal \<Rightarrow> Vector3 \<Rightarrow> Vector3" where
  "scaleVFl fl a v = Vector3 (fl (a * vx v)) (fl (a * vy v)) (fl (a * vz v))"

definition divVFl :: "(real \<Rightarrow> decimal) \<Rightarrow> Vector3 \<Rightarrow> decimal \<Rightarrow> Vector3" where
  "divVFl fl v a = Vector3 (fl (vx v / a)) (fl (vy v / a)) (fl (vz v / a))"

definition crossFl :: "(real \<Rightarrow> decimal) \<Rightarrow> Vector3 \<Rightarrow> Vector3 \<Rightarrow> Vector3" where
  "crossFl fl a b =
     Vector3 (fl (fl (vy a * vz b) - fl (vz a * vy b)))
             (fl (fl (vz a * vx b) - fl (vx a * vz b)))
             (fl (fl (vx a * vy b) - fl (vy a * vx b)))"

definition getUnitFl :: "(real \<Rightarrow> decimal) \<Rightarrow> Vector3 \<Rightarrow> Vector3" where
  "getUnitFl fl v = divVFl fl v (lengthVFl fl v)"

text \<open>
  \<open>computeFrictionVectors\<close> (lines 847-876) with the rounding \<open>fl\<close> after every
  operation: statement by statement the function \<open>computeFrictionVectors\<close> of the
  section on \<open>init\<close>, which is the case without rounding.
\<close>

definition computeFrictionVectorsRounded ::
  "(real \<Rightarrow> decimal) \<Rightarrow> Collaborators \<Rightarrow> Vector3 \<Rightarrow> ContactManifoldSolver
     \<Rightarrow> ContactManifoldSolver" where
  "computeFrictionVectorsRounded fl env deltaVelocity contact =
     (let deltaVDotNormal = dotFl fl deltaVelocity (manifoldNormal contact);
          normalVelocity = scaleVFl fl deltaVDotNormal (manifoldNormal contact);
          tangentVelocity = Vector3 (fl (vx deltaVelocity - vx normalVelocity))
                                    (fl (vy deltaVelocity - vy normalVelocity))
                                    (fl (vz deltaVelocity - vz normalVelocity));
          lengthTangentVelocity = lengthVFl fl tangentVelocity;
          contact1 =
            (if lengthTangentVelocity > MACHINE_EPSILON env
             then contact\<lparr>frictionVector1 := divVFl fl tangentVelocity lengthTangentVelocity\<rparr>
             else contact\<lparr>frictionVector1 := getOneUnitOrthogonalVector env (manifoldNormal contact)\<rparr>)
      in contact1\<lparr>frictionVector2 :=
                    getUnitFl fl (crossFl fl (manifoldNormal contact1) (frictionVector1 contact1))\<rparr>)"

text \<open>
  A head-on contact in the format with \<open>p\<close> bits.  The manifold has one contact point
  whose normal is the vector \<open>(1/3, 2/3, 2/3)\<close> rounded to the format; its length
  rounds to 1, so that normalising leaves it as it is.  Body 1 is at rest, body 2
  approaches it along the normal with the velocity \<open>(-5, -10, -10)\<close>, and no body
  rotates: \<open>init\<close> calls \<open>computeFrictionVectors\<close> with this velocity and a manifold
  record with this normal.  \<open>MACHINE_EPSILON\<close> is the machine epsilon of the format.
\<close>

definition headOnNormal :: "nat \<Rightarrow> Vector3" where
  "headOnNormal p = Vector3 (roundDecimal p (1 / 3)) (roundDecimal p (2 / 3)) (roundDecimal p (2 / 3))"

definition headOnVelocity :: Vector3 where
  "headOnVelocity = Vector3 (- 5) (- 10) (- 10)"

definition headOnManifold :: "nat \<Rightarrow> ContactManifoldSolver" where
  "headOnManifold p = newContactManifoldSolver\<lparr>manifoldNormal := headOnNormal p\<rparr>"

definition headOnCollaborators :: "nat \<Rightarrow> Collaborators" where
  "headOnCollaborators p = exampleCollaborators\<lparr>MACHINE_EPSILON := 2 powi (1 - int p)\<rparr>"

section \<open>Properties of solve\<close>

lemmas vec_simps = zero_Vector3_def plus_Vector3_def minus_Vector3_def uminus_Vector3_def
  scaleV_def timesV_def divV_def dot_def cross_def mulComponents_def mulMV_def zeroM_def

subsection \<open>One contact point\<close>

lemma solvePenetration_frame:
  "mContactConstraints (solvePenetration c i s) = mContactConstraints s"
  "mNbContactManifolds (solvePenetration c i s) = mNbContactManifolds s"
  "mNbContactPoints (solvePenetration c i s) = mNbContactPoints s"
  "mIsSplitImpulseActive (solvePenetration c i s) = mIsSplitImpulseActive s"
  "mTimeStep (solvePenetration c i s) = mTimeStep s"
  "mAllContactManifolds (solvePenetration c i s) = mAllContactManifolds s"
  "mAllContactPoints (solvePenetration c i s) = mAllContactPoints s"
  by (simp_all add: solvePenetration_def Let_def)

lemma solvePenetration_points:
  "mContactPoints (solvePenetration c i s) =
     (mContactPoints s)(i := (mContactPoints s i)
        \<lparr>penetrationImpulse := max (penetrationImpulse (mContactPoints s i) + deltaLambdaPenetration c i s) 0\<rparr>)"
  by (simp add: solvePenetration_def Let_def)

lemma solveSplitImpulse_frame:
  "mContactConstraints (solveSplitImpulse c i s) = mContactConstraints s"
  "mNbContactManifolds (solveSplitImpulse c i s) = mNbContactManifolds s"
  "mNbContactPoints (solveSplitImpulse c i s) = mNbContactPoints s"
  "mIsSplitImpulseActive (solveSplitImpulse c i s) = mIsSplitImpulseActive s"
  "mTimeStep (solveSplitImpulse c i s) = mTimeStep s"
  "mAllContactManifolds (solveSplitImpulse c i s) = mAllContactManifolds s"
  "mAllContactPoints (solveSplitImpulse c i s) = mAllContactPoints s"
  by (simp_all add: solveSplitImpulse_def Let_def)

lemma solveSplitImpulse_points:
  "mContactPoints (solveSplitImpulse c i s) =
     (mContactPoints s)(i := (mContactPoints s i)
        \<lparr>penetrationSplitImpulse := max (penetrationSplitImpulse (mContactPoints s i) + deltaLambdaSplit c i s) 0\<rparr>)"
  by (simp add: solveSplitImpulse_def Let_def)

lemma solveContactPoint_frame:
  "mContactConstraints (solveContactPoint c i s) = mContactConstraints s"
  "mNbContactManifolds (solveContactPoint c i s) = mNbContactManifolds s"
  "mNbContactPoints (solveContactPoint c i s) = mNbContactPoints s"
  "mIsSplitImpulseActive (solveContactPoint c i s) = mIsSplitImpulseActive s"
  "mTimeStep (solveContactPoint c i s) = mTimeStep s"
  "mAllContactManifolds (solveContactPoint c i s) = mAllContactManifolds s"
  "mAllContactPoints (solveContactPoint c i s) = mAllContactPoints s"
  by (simp_all add: solveContactPoint_def Let_def solvePenetration_frame solveSplitImpulse_frame)

lemma solveContactPoint_other:
  "p \<noteq> i \<Longrightarrow> mContactPoints (solveContactPoint c i s) p = mContactPoints s p"
  by (simp add: solveContactPoint_def Let_def solvePenetration_points solveSplitImpulse_points)

lemma solveContactPoint_nonneg:
  "0 \<le> penetrationImpulse (mContactPoints (solveContactPoint c i s) i)"
  by (simp add: solveContactPoint_def Let_def solvePenetration_points solveSplitImpulse_points)

lemma solveContactPoint_split_nonneg:
  "mIsSplitImpulseActive s \<Longrightarrow>
     0 \<le> penetrationSplitImpulse (mContactPoints (solveContactPoint c i s) i)"
  by (simp add: solveContactPoint_def Let_def solvePenetration_frame solveSplitImpulse_points)

subsection \<open>The loop over the contact points\<close>

lemma solveContactPoints_fst:
  "fst (solveContactPoints c n i sm s) = i + n"
  by (induction n arbitrary: i sm s) (simp_all add: Let_def)

lemma solveContactPoints_frame:
  "mContactConstraints (snd (snd (solveContactPoints c n i sm s))) = mContactConstraints s"
  "mNbContactManifolds (snd (snd (solveContactPoints c n i sm s))) = mNbContactManifolds s"
  "mNbContactPoints (snd (snd (solveContactPoints c n i sm s))) = mNbContactPoints s"
  "mIsSplitImpulseActive (snd (snd (solveContactPoints c n i sm s))) = mIsSplitImpulseActive s"
  "mTimeStep (snd (snd (solveContactPoints c n i sm s))) = mTimeStep s"
  "mAllContactManifolds (snd (snd (solveContactPoints c n i sm s))) = mAllContactManifolds s"
  "mAllContactPoints (snd (snd (solveContactPoints c n i sm s))) = mAllContactPoints s"
  by (induction n arbitrary: i sm s; simp add: Let_def solveContactPoint_frame)+

lemma solveContactPoints_other:
  "p < i \<or> i + n \<le> p \<Longrightarrow>
     mContactPoints (snd (snd (solveContactPoints c n i sm s))) p = mContactPoints s p"
proof (induction n arbitrary: i sm s)
  case 0
  then show ?case by simp
next
  case (Suc n)
  have "p \<noteq> i" using Suc.prems by auto
  moreover have "p < i + 1 \<or> i + 1 + n \<le> p" using Suc.prems by auto
  ultimately show ?case
    using Suc.IH [of "i + 1"] by (simp add: Let_def solveContactPoint_other)
qed

lemma solveContactPoints_nonneg:
  "i \<le> p \<Longrightarrow> p < i + n \<Longrightarrow>
     0 \<le> penetrationImpulse (mContactPoints (snd (snd (solveContactPoints c n i sm s))) p)"
proof (induction n arbitrary: i sm s)
  case 0
  then show ?case by simp
next
  case (Suc n)
  show ?case
  proof (cases "p = i")
    case True
    then show ?thesis
      by (simp add: Let_def solveContactPoints_other solveContactPoint_nonneg)
  next
    case False
    then have "i + 1 \<le> p" "p < i + 1 + n" using Suc.prems by auto
    then show ?thesis using Suc.IH [of "i + 1"] by (simp add: Let_def)
  qed
qed

lemma solveContactPoints_split_nonneg:
  "mIsSplitImpulseActive s \<Longrightarrow> i \<le> p \<Longrightarrow> p < i + n \<Longrightarrow>
     0 \<le> penetrationSplitImpulse (mContactPoints (snd (snd (solveContactPoints c n i sm s))) p)"
proof (induction n arbitrary: i sm s)
  case 0
  then show ?case by simp
next
  case (Suc n)
  show ?case
  proof (cases "p = i")
    case True
    then show ?thesis using Suc.prems(1)
      by (simp add: Let_def solveContactPoints_other solveContactPoint_split_nonneg)
  next
    case False
    then have "i + 1 \<le> p" "p < i + 1 + n" using Suc.prems by auto
    then show ?thesis using Suc.IH [of "solveContactPoint c i s" "i + 1"] Suc.prems(1)
      by (simp add: Let_def solveContactPoint_frame)
  qed
qed

lemma solveContactPoints_sum:
  "fst (snd (solveContactPoints c n i sm s)) =
     sm + (\<Sum>p = i..<i + n. penetrationImpulse (mContactPoints (snd (snd (solveContactPoints c n i sm s))) p))"
proof (induction n arbitrary: i sm s)
  case 0
  then show ?case by simp
next
  case (Suc n)
  let ?s1 = "solveContactPoint c i s"
  let ?r = "solveContactPoints c n (i + 1) (sm + penetrationImpulse (mContactPoints ?s1 i)) ?s1"
  have keep: "mContactPoints (snd (snd ?r)) i = mContactPoints ?s1 i"
    by (simp add: solveContactPoints_other)
  have "(\<Sum>p = i..<i + Suc n. penetrationImpulse (mContactPoints (snd (snd ?r)) p)) =
        penetrationImpulse (mContactPoints (snd (snd ?r)) i) +
        (\<Sum>p = i + 1..<i + 1 + n. penetrationImpulse (mContactPoints (snd (snd ?r)) p))"
    by (simp add: sum.atLeast_Suc_lessThan)
  then show ?case using Suc.IH [of "i + 1" "sm + penetrationImpulse (mContactPoints ?s1 i)" ?s1] keep
    by (simp add: Let_def)
qed


subsection \<open>The friction constraints\<close>

lemma applyFrictionImpulse_frame:
  "mContactConstraints (applyFrictionImpulse cm a l b s) = mContactConstraints s"
  "mContactPoints (applyFrictionImpulse cm a l b s) = mContactPoints s"
  "mNbContactManifolds (applyFrictionImpulse cm a l b s) = mNbContactManifolds s"
  "mNbContactPoints (applyFrictionImpulse cm a l b s) = mNbContactPoints s"
  "mIsSplitImpulseActive (applyFrictionImpulse cm a l b s) = mIsSplitImpulseActive s"
  "mTimeStep (applyFrictionImpulse cm a l b s) = mTimeStep s"
  "mAllContactManifolds (applyFrictionImpulse cm a l b s) = mAllContactManifolds s"
  "mAllContactPoints (applyFrictionImpulse cm a l b s) = mAllContactPoints s"
  by (simp_all add: applyFrictionImpulse_def Let_def)

lemma solveFriction1_frame:
  "mContactPoints (solveFriction1 c sm s) = mContactPoints s"
  "mNbContactManifolds (solveFriction1 c sm s) = mNbContactManifolds s"
  "mNbContactPoints (solveFriction1 c sm s) = mNbContactPoints s"
  "mIsSplitImpulseActive (solveFriction1 c sm s) = mIsSplitImpulseActive s"
  "mTimeStep (solveFriction1 c sm s) = mTimeStep s"
  "mAllContactManifolds (solveFriction1 c sm s) = mAllContactManifolds s"
  "mAllContactPoints (solveFriction1 c sm s) = mAllContactPoints s"
  by (simp_all add: solveFriction1_def Let_def applyFrictionImpulse_frame)

lemma solveFriction1_constraints:
  "mContactConstraints (solveFriction1 c sm s) =
     (mContactConstraints s)(c := (mContactConstraints s c)
       \<lparr>friction1Impulse :=
          max (- (frictionCoefficient (mContactConstraints s c) * sm))
              (min (friction1Impulse (mContactConstraints s c) +
                    - JvFriction c (frictionVector1 (mContactConstraints s c)) s *
                      inverseFriction1Mass (mContactConstraints s c))
                   (frictionCoefficient (mContactConstraints s c) * sm))\<rparr>)"
  by (simp add: solveFriction1_def Let_def applyFrictionImpulse_frame)

lemma solveFriction2_frame:
  "mContactPoints (solveFriction2 c sm s) = mContactPoints s"
  "mNbContactManifolds (solveFriction2 c sm s) = mNbContactManifolds s"
  "mNbContactPoints (solveFriction2 c sm s) = mNbContactPoints s"
  "mIsSplitImpulseActive (solveFriction2 c sm s) = mIsSplitImpulseActive s"
  "mTimeStep (solveFriction2 c sm s) = mTimeStep s"
  "mAllContactManifolds (solveFriction2 c sm s) = mAllContactManifolds s"
  "mAllContactPoints (solveFriction2 c sm s) = mAllContactPoints s"
  by (simp_all add: solveFriction2_def Let_def applyFrictionImpulse_frame)

lemma solveFriction2_constraints:
  "mContactConstraints (solveFriction2 c sm s) =
     (mContactConstraints s)(c := (mContactConstraints s c)
       \<lparr>friction2Impulse :=
          max (- (frictionCoefficient (mContactConstraints s c) * sm))
              (min (friction2Impulse (mContactConstraints s c) +
                    - JvFriction c (frictionVector2 (mContactConstraints s c)) s *
                      inverseFriction2Mass (mContactConstraints s c))
                   (frictionCoefficient (mContactConstraints s c) * sm))\<rparr>)"
  by (simp add: solveFriction2_def Let_def applyFrictionImpulse_frame)

lemma solveTwistFriction_frame:
  "mContactPoints (solveTwistFriction c sm s) = mContactPoints s"
  "mNbContactManifolds (solveTwistFriction c sm s) = mNbContactManifolds s"
  "mNbContactPoints (solveTwistFriction c sm s) = mNbContactPoints s"
  "mIsSplitImpulseActive (solveTwistFriction c sm s) = mIsSplitImpulseActive s"
  "mTimeStep (solveTwistFriction c sm s) = mTimeStep s"
  "mAllContactManifolds (solveTwistFriction c sm s) = mAllContactManifolds s"
  "mAllContactPoints (solveTwistFriction c sm s) = mAllContactPoints s"
  by (simp_all add: solveTwistFriction_def Let_def)

lemma solveTwistFriction_constraints:
  "mContactConstraints (solveTwistFriction c sm s) =
     (mContactConstraints s)(c := (mContactConstraints s c)
       \<lparr>frictionTwistImpulse := frictionTwistImpulse (mContactConstraints (solveTwistFriction c sm s) c)\<rparr>)"
  by (simp add: solveTwistFriction_def Let_def)

lemma solveTwistFriction_bound:
  "0 \<le> frictionCoefficient (mContactConstraints s c) * sm \<Longrightarrow>
   \<bar>frictionTwistImpulse (mContactConstraints (solveTwistFriction c sm s) c)\<bar>
     \<le> frictionCoefficient (mContactConstraints s c) * sm"
  by (simp add: solveTwistFriction_def Let_def)

lemma solveRollingResistance_frame:
  "mContactPoints (solveRollingResistance c sm s) = mContactPoints s"
  "mNbContactManifolds (solveRollingResistance c sm s) = mNbContactManifolds s"
  "mNbContactPoints (solveRollingResistance c sm s) = mNbContactPoints s"
  "mIsSplitImpulseActive (solveRollingResistance c sm s) = mIsSplitImpulseActive s"
  "mTimeStep (solveRollingResistance c sm s) = mTimeStep s"
  "mAllContactManifolds (solveRollingResistance c sm s) = mAllContactManifolds s"
  "mAllContactPoints (solveRollingResistance c sm s) = mAllContactPoints s"
  by (simp_all add: solveRollingResistance_def Let_def)

lemma solveRollingResistance_constraints:
  "mContactConstraints (solveRollingResistance c sm s) =
     (mContactConstraints s)(c := (mContactConstraints s c)
       \<lparr>rollingResistanceImpulse :=
          rollingResistanceImpulse (mContactConstraints (solveRollingResistance c sm s) c)\<rparr>)"
  by (simp add: solveRollingResistance_def Let_def)


lemma abs_clamp_le:
  fixes a l :: real
  shows "0 \<le> l \<Longrightarrow> \<bar>max (- l) (min a l)\<bar> \<le> l"
  by (simp add: max_def min_def abs_if)





lemma solveFriction1_bound:
  "0 \<le> frictionCoefficient (mContactConstraints s c) * sm \<Longrightarrow>
   \<bar>friction1Impulse (mContactConstraints (solveFriction1 c sm s) c)\<bar>
     \<le> frictionCoefficient (mContactConstraints s c) * sm"
  by (simp add: solveFriction1_constraints abs_clamp_le)

lemma solveFriction2_bound:
  "0 \<le> frictionCoefficient (mContactConstraints s c) * sm \<Longrightarrow>
   \<bar>friction2Impulse (mContactConstraints (solveFriction2 c sm s) c)\<bar>
     \<le> frictionCoefficient (mContactConstraints s c) * sm"
  by (simp add: solveFriction2_constraints abs_clamp_le)


text \<open>The fields of the manifold records that the friction constraints keep.\<close>

lemma solveFriction1_keeps:
  "nbContacts (mContactConstraints (solveFriction1 c sm s) k) = nbContacts (mContactConstraints s k)"
  "frictionCoefficient (mContactConstraints (solveFriction1 c sm s) k) = frictionCoefficient (mContactConstraints s k)"
  "rollingResistanceFactor (mContactConstraints (solveFriction1 c sm s) k) = rollingResistanceFactor (mContactConstraints s k)"
  "friction2Impulse (mContactConstraints (solveFriction1 c sm s) k) = friction2Impulse (mContactConstraints s k)"
  "frictionTwistImpulse (mContactConstraints (solveFriction1 c sm s) k) = frictionTwistImpulse (mContactConstraints s k)"
  "rollingResistanceImpulse (mContactConstraints (solveFriction1 c sm s) k) = rollingResistanceImpulse (mContactConstraints s k)"
  "k \<noteq> c \<Longrightarrow> mContactConstraints (solveFriction1 c sm s) k = mContactConstraints s k"
  by (simp_all add: solveFriction1_constraints)

lemma solveFriction2_keeps:
  "nbContacts (mContactConstraints (solveFriction2 c sm s) k) = nbContacts (mContactConstraints s k)"
  "frictionCoefficient (mContactConstraints (solveFriction2 c sm s) k) = frictionCoefficient (mContactConstraints s k)"
  "rollingResistanceFactor (mContactConstraints (solveFriction2 c sm s) k) = rollingResistanceFactor (mContactConstraints s k)"
  "friction1Impulse (mContactConstraints (solveFriction2 c sm s) k) = friction1Impulse (mContactConstraints s k)"
  "frictionTwistImpulse (mContactConstraints (solveFriction2 c sm s) k) = frictionTwistImpulse (mContactConstraints s k)"
  "rollingResistanceImpulse (mContactConstraints (solveFriction2 c sm s) k) = rollingResistanceImpulse (mContactConstraints s k)"
  "k \<noteq> c \<Longrightarrow> mContactConstraints (solveFriction2 c sm s) k = mContactConstraints s k"
  by (simp_all add: solveFriction2_constraints)

lemma solveTwistFriction_keeps:
  "nbContacts (mContactConstraints (solveTwistFriction c sm s) k) = nbContacts (mContactConstraints s k)"
  "frictionCoefficient (mContactConstraints (solveTwistFriction c sm s) k) = frictionCoefficient (mContactConstraints s k)"
  "rollingResistanceFactor (mContactConstraints (solveTwistFriction c sm s) k) = rollingResistanceFactor (mContactConstraints s k)"
  "friction1Impulse (mContactConstraints (solveTwistFriction c sm s) k) = friction1Impulse (mContactConstraints s k)"
  "friction2Impulse (mContactConstraints (solveTwistFriction c sm s) k) = friction2Impulse (mContactConstraints s k)"
  "rollingResistanceImpulse (mContactConstraints (solveTwistFriction c sm s) k) = rollingResistanceImpulse (mContactConstraints s k)"
  "k \<noteq> c \<Longrightarrow> mContactConstraints (solveTwistFriction c sm s) k = mContactConstraints s k"
  by (simp_all add: solveTwistFriction_def Let_def)

lemma solveRollingResistance_keeps:
  "nbContacts (mContactConstraints (solveRollingResistance c sm s) k) = nbContacts (mContactConstraints s k)"
  "frictionCoefficient (mContactConstraints (solveRollingResistance c sm s) k) = frictionCoefficient (mContactConstraints s k)"
  "rollingResistanceFactor (mContactConstraints (solveRollingResistance c sm s) k) = rollingResistanceFactor (mContactConstraints s k)"
  "friction1Impulse (mContactConstraints (solveRollingResistance c sm s) k) = friction1Impulse (mContactConstraints s k)"
  "friction2Impulse (mContactConstraints (solveRollingResistance c sm s) k) = friction2Impulse (mContactConstraints s k)"
  "frictionTwistImpulse (mContactConstraints (solveRollingResistance c sm s) k) = frictionTwistImpulse (mContactConstraints s k)"
  "k \<noteq> c \<Longrightarrow> mContactConstraints (solveRollingResistance c sm s) k = mContactConstraints s k"
  by (simp_all add: solveRollingResistance_def Let_def)

subsection \<open>The friction constraints without friction\<close>






subsection \<open>One manifold\<close>

lemma solveManifold_fst:
  "fst (solveManifold c i s) = i + nbContacts (mContactConstraints s c)"
  by (simp add: solveManifold_def case_prod_beta solveContactPoints_fst)

lemma solveManifold_snd:
  "snd (solveManifold c i s) =
     (let r = solveContactPoints c (nbContacts (mContactConstraints s c)) i 0 s;
          sm = fst (snd r)
      in solveRollingResistance c sm (solveTwistFriction c sm
           (solveFriction2 c sm (solveFriction1 c sm (snd (snd r))))))"
  by (simp add: solveManifold_def Let_def case_prod_beta)

lemma solveManifold_frame:
  "mNbContactManifolds (snd (solveManifold c i s)) = mNbContactManifolds s"
  "mNbContactPoints (snd (solveManifold c i s)) = mNbContactPoints s"
  "mIsSplitImpulseActive (snd (solveManifold c i s)) = mIsSplitImpulseActive s"
  "mTimeStep (snd (solveManifold c i s)) = mTimeStep s"
  "mAllContactManifolds (snd (solveManifold c i s)) = mAllContactManifolds s"
  "mAllContactPoints (snd (solveManifold c i s)) = mAllContactPoints s"
  by (simp_all add: solveManifold_snd Let_def solveRollingResistance_frame
        solveTwistFriction_frame solveFriction2_frame solveFriction1_frame
        solveContactPoints_frame)

lemma solveManifold_points:
  "mContactPoints (snd (solveManifold c i s)) =
     mContactPoints (snd (snd (solveContactPoints c (nbContacts (mContactConstraints s c)) i 0 s)))"
  by (simp add: solveManifold_snd Let_def solveRollingResistance_frame
        solveTwistFriction_frame solveFriction2_frame solveFriction1_frame)

lemma solveManifold_keeps:
  "nbContacts (mContactConstraints (snd (solveManifold c i s)) k) = nbContacts (mContactConstraints s k)"
  "frictionCoefficient (mContactConstraints (snd (solveManifold c i s)) k) = frictionCoefficient (mContactConstraints s k)"
  "rollingResistanceFactor (mContactConstraints (snd (solveManifold c i s)) k) = rollingResistanceFactor (mContactConstraints s k)"
  "k \<noteq> c \<Longrightarrow> mContactConstraints (snd (solveManifold c i s)) k = mContactConstraints s k"
  by (simp_all add: solveManifold_snd Let_def solveRollingResistance_keeps
        solveTwistFriction_keeps solveFriction2_keeps solveFriction1_keeps
        solveContactPoints_frame)

lemma solveManifold_other_points:
  "p < i \<or> i + nbContacts (mContactConstraints s c) \<le> p \<Longrightarrow>
     mContactPoints (snd (solveManifold c i s)) p = mContactPoints s p"
  by (simp add: solveManifold_points solveContactPoints_other)

lemma solveManifold_nonneg:
  "i \<le> p \<Longrightarrow> p < i + nbContacts (mContactConstraints s c) \<Longrightarrow>
     0 \<le> penetrationImpulse (mContactPoints (snd (solveManifold c i s)) p)"
  by (simp add: solveManifold_points solveContactPoints_nonneg)

lemma solveManifold_split_nonneg:
  "mIsSplitImpulseActive s \<Longrightarrow> i \<le> p \<Longrightarrow> p < i + nbContacts (mContactConstraints s c) \<Longrightarrow>
     0 \<le> penetrationSplitImpulse (mContactPoints (snd (solveManifold c i s)) p)"
  by (simp add: solveManifold_points solveContactPoints_split_nonneg)

lemma solveManifold_sum:
  "fst (snd (solveContactPoints c (nbContacts (mContactConstraints s c)) i 0 s)) =
     (\<Sum>p = i..<i + nbContacts (mContactConstraints s c).
        penetrationImpulse (mContactPoints (snd (solveManifold c i s)) p))"
  using solveContactPoints_sum [of c "nbContacts (mContactConstraints s c)" i 0 s]
  by (simp add: solveManifold_points)

lemma solveManifold_sum_nonneg:
  "0 \<le> (\<Sum>p = i..<i + nbContacts (mContactConstraints s c).
        penetrationImpulse (mContactPoints (snd (solveManifold c i s)) p))"
  by (rule sum_nonneg) (simp add: solveManifold_nonneg)

lemma solveManifold_friction_bound:
  fixes s :: ContactSolverSystem and c i :: nat
  assumes "0 \<le> frictionCoefficient (mContactConstraints s c)"
  defines "s' \<equiv> snd (solveManifold c i s)"
  defines "L \<equiv> frictionCoefficient (mContactConstraints s c) *
                 (\<Sum>p = i..<i + nbContacts (mContactConstraints s c).
                    penetrationImpulse (mContactPoints s' p))"
  shows "\<bar>friction1Impulse (mContactConstraints s' c)\<bar> \<le> L"
    and "\<bar>friction2Impulse (mContactConstraints s' c)\<bar> \<le> L"
    and "\<bar>frictionTwistImpulse (mContactConstraints s' c)\<bar> \<le> L"
proof -
  let ?r = "solveContactPoints c (nbContacts (mContactConstraints s c)) i 0 s"
  let ?sm = "fst (snd ?r)"
  let ?s1 = "snd (snd ?r)"
  have sm: "?sm = (\<Sum>p = i..<i + nbContacts (mContactConstraints s c).
                    penetrationImpulse (mContactPoints s' p))"
    unfolding s'_def by (rule solveManifold_sum)
  have sm0: "0 \<le> ?sm" unfolding sm s'_def by (rule solveManifold_sum_nonneg)
  have L: "L = frictionCoefficient (mContactConstraints s c) * ?sm"
    by (simp add: L_def sm)
  have Lnn: "0 \<le> frictionCoefficient (mContactConstraints s c) * ?sm"
    using assms(1) sm0 by simp
  have mu1: "frictionCoefficient (mContactConstraints ?s1 c) = frictionCoefficient (mContactConstraints s c)"
    by (simp add: solveContactPoints_frame)
  show "\<bar>friction1Impulse (mContactConstraints s' c)\<bar> \<le> L"
    using solveFriction1_bound [of ?s1 c ?sm] Lnn
    by (simp add: s'_def L solveManifold_snd Let_def solveRollingResistance_keeps
        solveTwistFriction_keeps solveFriction2_keeps mu1)
  show "\<bar>friction2Impulse (mContactConstraints s' c)\<bar> \<le> L"
    using solveFriction2_bound [of "solveFriction1 c ?sm ?s1" c ?sm] Lnn
    by (simp add: s'_def L solveManifold_snd Let_def solveRollingResistance_keeps
        solveTwistFriction_keeps solveFriction1_keeps mu1)
  show "\<bar>frictionTwistImpulse (mContactConstraints s' c)\<bar> \<le> L"
    using solveTwistFriction_bound [of "solveFriction2 c ?sm (solveFriction1 c ?sm ?s1)" c ?sm] Lnn
    by (simp add: s'_def L solveManifold_snd Let_def solveRollingResistance_keeps
        solveFriction2_keeps solveFriction1_keeps mu1)
qed




subsection \<open>The loop over the manifolds\<close>

lemma solveManifolds_frame:
  "mNbContactManifolds (solveManifolds n c i s) = mNbContactManifolds s"
  "mNbContactPoints (solveManifolds n c i s) = mNbContactPoints s"
  "mIsSplitImpulseActive (solveManifolds n c i s) = mIsSplitImpulseActive s"
  "mTimeStep (solveManifolds n c i s) = mTimeStep s"
  "mAllContactManifolds (solveManifolds n c i s) = mAllContactManifolds s"
  "mAllContactPoints (solveManifolds n c i s) = mAllContactPoints s"
  by (induction n arbitrary: c i s; simp add: case_prod_beta solveManifold_frame)+

lemma solveManifolds_keeps:
  "nbContacts (mContactConstraints (solveManifolds n c i s) k) = nbContacts (mContactConstraints s k)"
  "frictionCoefficient (mContactConstraints (solveManifolds n c i s) k) = frictionCoefficient (mContactConstraints s k)"
  "rollingResistanceFactor (mContactConstraints (solveManifolds n c i s) k) = rollingResistanceFactor (mContactConstraints s k)"
  by (induction n arbitrary: c i s; simp add: case_prod_beta solveManifold_keeps)+

lemma solveManifolds_before:
  "k < c \<Longrightarrow> mContactConstraints (solveManifolds n c i s) k = mContactConstraints s k"
  by (induction n arbitrary: c i s) (simp_all add: case_prod_beta solveManifold_keeps)

lemma solveManifolds_points_before:
  "p < i \<Longrightarrow> mContactPoints (solveManifolds n c i s) p = mContactPoints s p"
  by (induction n arbitrary: c i s)
     (simp_all add: case_prod_beta solveManifold_fst solveManifold_other_points)

lemma solveManifolds_nonneg:
  "i \<le> p \<Longrightarrow> p < i + (\<Sum>k = c..<c + n. nbContacts (mContactConstraints s k)) \<Longrightarrow>
     0 \<le> penetrationImpulse (mContactPoints (solveManifolds n c i s) p)"
proof (induction n arbitrary: c i s)
  case 0
  then show ?case by simp
next
  case (Suc n)
  let ?s1 = "snd (solveManifold c i s)"
  let ?i1 = "i + nbContacts (mContactConstraints s c)"
  have unfold: "solveManifolds (Suc n) c i s = solveManifolds n (c + 1) ?i1 ?s1"
    by (simp add: case_prod_beta solveManifold_fst)
  have split: "(\<Sum>k = c..<c + Suc n. nbContacts (mContactConstraints s k)) =
      nbContacts (mContactConstraints s c) +
      (\<Sum>k = c + 1..<c + 1 + n. nbContacts (mContactConstraints ?s1 k))"
    by (simp add: sum.atLeast_Suc_lessThan solveManifold_keeps)
  show ?case
  proof (cases "p < ?i1")
    case True
    then show ?thesis using Suc.prems(1)
      by (simp only: unfold solveManifolds_points_before) (simp add: solveManifold_nonneg)
  next
    case False
    then have "?i1 \<le> p" by simp
    moreover have "p < ?i1 + (\<Sum>k = c + 1..<c + 1 + n. nbContacts (mContactConstraints ?s1 k))"
      using Suc.prems(2) split by simp
    ultimately show ?thesis
      by (simp only: unfold) (rule Suc.IH)
  qed
qed

lemma solveManifolds_split_nonneg:
  "mIsSplitImpulseActive s \<Longrightarrow> i \<le> p \<Longrightarrow>
   p < i + (\<Sum>k = c..<c + n. nbContacts (mContactConstraints s k)) \<Longrightarrow>
     0 \<le> penetrationSplitImpulse (mContactPoints (solveManifolds n c i s) p)"
proof (induction n arbitrary: c i s)
  case 0
  then show ?case by simp
next
  case (Suc n)
  let ?s1 = "snd (solveManifold c i s)"
  let ?i1 = "i + nbContacts (mContactConstraints s c)"
  have unfold: "solveManifolds (Suc n) c i s = solveManifolds n (c + 1) ?i1 ?s1"
    by (simp add: case_prod_beta solveManifold_fst)
  have split: "(\<Sum>k = c..<c + Suc n. nbContacts (mContactConstraints s k)) =
      nbContacts (mContactConstraints s c) +
      (\<Sum>k = c + 1..<c + 1 + n. nbContacts (mContactConstraints ?s1 k))"
    by (simp add: sum.atLeast_Suc_lessThan solveManifold_keeps)
  have act: "mIsSplitImpulseActive ?s1" using Suc.prems(1) by (simp add: solveManifold_frame)
  show ?case
  proof (cases "p < ?i1")
    case True
    then show ?thesis using Suc.prems(1,2)
      by (simp only: unfold solveManifolds_points_before) (simp add: solveManifold_split_nonneg)
  next
    case False
    then have "?i1 \<le> p" by simp
    moreover have "p < ?i1 + (\<Sum>k = c + 1..<c + 1 + n. nbContacts (mContactConstraints ?s1 k))"
      using Suc.prems(3) split by simp
    ultimately show ?thesis using act
      by (simp only: unfold) (rule Suc.IH)
  qed
qed

lemma solveManifolds_friction_bound:
  "c \<le> k \<Longrightarrow> k < c + n \<Longrightarrow> 0 \<le> frictionCoefficient (mContactConstraints s k) \<Longrightarrow>
   \<bar>friction1Impulse (mContactConstraints (solveManifolds n c i s) k)\<bar> \<le>
     frictionCoefficient (mContactConstraints s k) *
       (\<Sum>p = i + (\<Sum>j = c..<k. nbContacts (mContactConstraints s j))..<
             i + (\<Sum>j = c..<k. nbContacts (mContactConstraints s j)) + nbContacts (mContactConstraints s k).
          penetrationImpulse (mContactPoints (solveManifolds n c i s) p)) \<and>
   \<bar>friction2Impulse (mContactConstraints (solveManifolds n c i s) k)\<bar> \<le>
     frictionCoefficient (mContactConstraints s k) *
       (\<Sum>p = i + (\<Sum>j = c..<k. nbContacts (mContactConstraints s j))..<
             i + (\<Sum>j = c..<k. nbContacts (mContactConstraints s j)) + nbContacts (mContactConstraints s k).
          penetrationImpulse (mContactPoints (solveManifolds n c i s) p)) \<and>
   \<bar>frictionTwistImpulse (mContactConstraints (solveManifolds n c i s) k)\<bar> \<le>
     frictionCoefficient (mContactConstraints s k) *
       (\<Sum>p = i + (\<Sum>j = c..<k. nbContacts (mContactConstraints s j))..<
             i + (\<Sum>j = c..<k. nbContacts (mContactConstraints s j)) + nbContacts (mContactConstraints s k).
          penetrationImpulse (mContactPoints (solveManifolds n c i s) p))"
proof (induction n arbitrary: c i s)
  case 0
  then show ?case by simp
next
  case (Suc n)
  let ?s1 = "snd (solveManifold c i s)"
  let ?i1 = "i + nbContacts (mContactConstraints s c)"
  let ?s' = "solveManifolds n (Suc c) ?i1 ?s1"
  have unfold: "solveManifolds (Suc n) c i s = ?s'"
    by (simp add: case_prod_beta solveManifold_fst)
  show ?case
  proof (cases "k = c")
    case True
    have rec: "mContactConstraints ?s' c = mContactConstraints ?s1 c"
      by (simp add: solveManifolds_before)
    have pts: "(\<Sum>p = i..<?i1. penetrationImpulse (mContactPoints ?s' p)) =
               (\<Sum>p = i..<?i1. penetrationImpulse (mContactPoints ?s1 p))"
      by (rule sum.cong) (simp_all add: solveManifolds_points_before)
    show ?thesis
      using solveManifold_friction_bound [of s c i] Suc.prems(3)
      by (simp only: unfold True) (simp add: rec pts)
  next
    case False
    then have k: "Suc c \<le> k" "k < Suc c + n" using Suc.prems by auto
    have mu: "frictionCoefficient (mContactConstraints ?s1 k) = frictionCoefficient (mContactConstraints s k)"
      by (simp add: solveManifold_keeps)
    have nb: "\<And>j. nbContacts (mContactConstraints ?s1 j) = nbContacts (mContactConstraints s j)"
      by (simp add: solveManifold_keeps)
    have start: "?i1 + (\<Sum>j = Suc c..<k. nbContacts (mContactConstraints s j)) =
                 i + (\<Sum>j = c..<k. nbContacts (mContactConstraints s j))"
      using k(1) by (simp add: sum.atLeast_Suc_lessThan)
    show ?thesis
      using Suc.IH [where c = "Suc c" and i = ?i1 and s = ?s1, OF k] Suc.prems(3)
      by (simp only: unfold mu nb start)
  qed
qed



lemma firstContactPoint_solve:
  "firstContactPoint (solve s) c = firstContactPoint s c"
  by (simp add: firstContactPoint_def solve_def solveManifolds_keeps)

lemma firstContactPoint_sum:
  "firstContactPoint s c = (\<Sum>j = 0..<c. nbContacts (mContactConstraints s j))"
  by (simp add: firstContactPoint_def lessThan_atLeast0)

subsection \<open>The columns of the body store\<close>

lemma solvePenetration_velocities:
  "mLinearVelocities (mRigidBodyComponents (solvePenetration c i s)) =
     mulAt (rigidBodyComponentIndexBody1 (mContactConstraints s c))
       (mLinearVelocitiesFactors (mRigidBodyComponents s) (rigidBodyComponentIndexBody1 (mContactConstraints s c)))
       (mLinearVelocities (mRigidBodyComponents s))"
  "mAngularVelocities (mRigidBodyComponents (solvePenetration c i s)) =
     mulAt (rigidBodyComponentIndexBody1 (mContactConstraints s c))
       (mAngularVelocitiesFactors (mRigidBodyComponents s) (rigidBodyComponentIndexBody1 (mContactConstraints s c)))
       (mAngularVelocities (mRigidBodyComponents s))"
  by (simp_all add: solvePenetration_def Let_def mulConstrainedByFactors_def mulVelocitiesByFactors_def)


lemma solveSplitImpulse_velocities:
  "mLinearVelocities (mRigidBodyComponents (solveSplitImpulse c i s)) = mLinearVelocities (mRigidBodyComponents s)"
  "mAngularVelocities (mRigidBodyComponents (solveSplitImpulse c i s)) = mAngularVelocities (mRigidBodyComponents s)"
  "mConstrainedLinearVelocities (mRigidBodyComponents (solveSplitImpulse c i s)) =
     mConstrainedLinearVelocities (mRigidBodyComponents s)"
  "mConstrainedAngularVelocities (mRigidBodyComponents (solveSplitImpulse c i s)) =
     mConstrainedAngularVelocities (mRigidBodyComponents s)"
  by (simp_all add: solveSplitImpulse_def Let_def)

lemma applyFrictionImpulse_velocities:
  "mLinearVelocities (mRigidBodyComponents (applyFrictionImpulse cm a l b s)) = mLinearVelocities (mRigidBodyComponents s)"
  "mAngularVelocities (mRigidBodyComponents (applyFrictionImpulse cm a l b s)) = mAngularVelocities (mRigidBodyComponents s)"
  by (simp_all add: applyFrictionImpulse_def Let_def)

lemma solveFriction_velocities:
  "mLinearVelocities (mRigidBodyComponents (solveFriction1 c sm s)) = mLinearVelocities (mRigidBodyComponents s)"
  "mAngularVelocities (mRigidBodyComponents (solveFriction1 c sm s)) = mAngularVelocities (mRigidBodyComponents s)"
  "mLinearVelocities (mRigidBodyComponents (solveFriction2 c sm s)) = mLinearVelocities (mRigidBodyComponents s)"
  "mAngularVelocities (mRigidBodyComponents (solveFriction2 c sm s)) = mAngularVelocities (mRigidBodyComponents s)"
  "mLinearVelocities (mRigidBodyComponents (solveTwistFriction c sm s)) = mLinearVelocities (mRigidBodyComponents s)"
  "mAngularVelocities (mRigidBodyComponents (solveTwistFriction c sm s)) = mAngularVelocities (mRigidBodyComponents s)"
  "mLinearVelocities (mRigidBodyComponents (solveRollingResistance c sm s)) = mLinearVelocities (mRigidBodyComponents s)"
  "mAngularVelocities (mRigidBodyComponents (solveRollingResistance c sm s)) = mAngularVelocities (mRigidBodyComponents s)"
  by (simp_all add: solveFriction1_def solveFriction2_def solveTwistFriction_def
        solveRollingResistance_def Let_def applyFrictionImpulse_velocities)

lemma solveContactPoint_velocities:
  "mLinearVelocities (mRigidBodyComponents (solveContactPoint c i s)) =
     mulAt (rigidBodyComponentIndexBody1 (mContactConstraints s c))
       (mLinearVelocitiesFactors (mRigidBodyComponents s) (rigidBodyComponentIndexBody1 (mContactConstraints s c)))
       (mLinearVelocities (mRigidBodyComponents s))"
  "mAngularVelocities (mRigidBodyComponents (solveContactPoint c i s)) =
     mulAt (rigidBodyComponentIndexBody1 (mContactConstraints s c))
       (mAngularVelocitiesFactors (mRigidBodyComponents s) (rigidBodyComponentIndexBody1 (mContactConstraints s c)))
       (mAngularVelocities (mRigidBodyComponents s))"
  by (simp_all add: solveContactPoint_def Let_def solveSplitImpulse_velocities solvePenetration_velocities)

lemma solveManifold_velocities:
  "mLinearVelocities (mRigidBodyComponents (snd (solveManifold c i s))) =
   mLinearVelocities (mRigidBodyComponents
     (snd (snd (solveContactPoints c (nbContacts (mContactConstraints s c)) i 0 s))))"
  "mAngularVelocities (mRigidBodyComponents (snd (solveManifold c i s))) =
   mAngularVelocities (mRigidBodyComponents
     (snd (snd (solveContactPoints c (nbContacts (mContactConstraints s c)) i 0 s))))"
  by (simp_all add: solveManifold_snd Let_def solveFriction_velocities)

lemma solve_one_point:
  assumes "mNbContactManifolds s = 1" and "nbContacts (mContactConstraints s 0) = 1"
  shows "mLinearVelocities (mRigidBodyComponents (solve s)) =
           mLinearVelocities (mRigidBodyComponents (solveContactPoint 0 0 s))"
    and "mAngularVelocities (mRigidBodyComponents (solve s)) =
           mAngularVelocities (mRigidBodyComponents (solveContactPoint 0 0 s))"
  using assms
  by (simp_all add: solve_def case_prod_beta solveManifold_velocities Let_def)


subsection \<open>The constrained velocities of body 1 after the penetration constraint\<close>

lemma solvePenetration_body1:
  fixes s :: ContactSolverSystem and c i :: nat
  assumes "rigidBodyComponentIndexBody1 (mContactConstraints s c) \<noteq>
           rigidBodyComponentIndexBody2 (mContactConstraints s c)"
  defines "cm \<equiv> mContactConstraints s c"
  defines "cp \<equiv> mContactPoints s i"
  defines "i1 \<equiv> rigidBodyComponentIndexBody1 (mContactConstraints s c)"
  defines "deltaLambda \<equiv> max (penetrationImpulse cp + deltaLambdaPenetration c i s) 0 - penetrationImpulse cp"
  shows "mConstrainedLinearVelocities (mRigidBodyComponents (solvePenetration c i s)) i1 =
           mulComponents (mulComponents
             (mConstrainedLinearVelocities (mRigidBodyComponents s) i1 -
                scaleV (massInverseBody1 cm) (timesV (normal cp) deltaLambda))
             (mLinearVelocitiesFactors (mRigidBodyComponents s) i1))
             (mLinearVelocitiesFactors (mRigidBodyComponents s) i1)"
    and "mConstrainedAngularVelocities (mRigidBodyComponents (solvePenetration c i s)) i1 =
           mulComponents (mulComponents
             (mConstrainedAngularVelocities (mRigidBodyComponents s) i1 -
                timesV (i1TimesR1CrossN cp) deltaLambda)
             (mAngularVelocitiesFactors (mRigidBodyComponents s) i1))
             (mAngularVelocitiesFactors (mRigidBodyComponents s) i1)"
  using assms(1)
  by (simp_all add: solvePenetration_def Let_def mulConstrainedByFactors_def mulVelocitiesByFactors_def
        subAt_def addAt_def mulAt_def cm_def cp_def i1_def deltaLambda_def)


lemma factorExample_deltaLambda: "deltaLambdaPenetration 0 0 factorExampleSolver = 0"
  by (simp add: factorExampleSolver_def factorExampleBodies_def deltaLambdaPenetration_def JvPenetration_def
     biasPenetrationDepth_def beta_def deltaVSolve_def newContactManifoldSolver_def newContactPointSolver_def vec_simps Let_def)

subsection \<open>The multipliers of a contact point\<close>








lemma solveSplitImpulse_split_columns:
  "mSplitLinearVelocities (mRigidBodyComponents (solveSplitImpulse c i s)) =
     addAt (rigidBodyComponentIndexBody2 (mContactConstraints s c))
       (scaleV (massInverseBody2 (mContactConstraints s c))
          (timesV (normal (mContactPoints s i))
             (max (penetrationSplitImpulse (mContactPoints s i) + deltaLambdaSplit c i s) 0 -
              penetrationSplitImpulse (mContactPoints s i))))
       (subAt (rigidBodyComponentIndexBody1 (mContactConstraints s c))
          (scaleV (massInverseBody1 (mContactConstraints s c))
             (timesV (normal (mContactPoints s i))
                (max (penetrationSplitImpulse (mContactPoints s i) + deltaLambdaSplit c i s) 0 -
                 penetrationSplitImpulse (mContactPoints s i))))
          (mSplitLinearVelocities (mRigidBodyComponents s)))"
  by (simp add: solveSplitImpulse_def Let_def)

subsection \<open>The sum of a manifold in the pass of solve\<close>



section \<open>Properties of warmStart\<close>

subsection \<open>One contact point\<close>

lemma warmStartContactPoint_frame:
  "mContactConstraints (warmStartContactPoint c i s) = mContactConstraints s"
  "mNbContactManifolds (warmStartContactPoint c i s) = mNbContactManifolds s"
  "mNbContactPoints (warmStartContactPoint c i s) = mNbContactPoints s"
  "mAllContactManifolds (warmStartContactPoint c i s) = mAllContactManifolds s"
  "mAllContactPoints (warmStartContactPoint c i s) = mAllContactPoints s"
  by (simp_all add: warmStartContactPoint_def Let_def)

lemma warmStartContactPoint_points:
  "mContactPoints (warmStartContactPoint c i s) =
     (if isRestingContact (mContactPoints s i) then mContactPoints s
      else (mContactPoints s)(i := (mContactPoints s i)\<lparr>penetrationImpulse := 0\<rparr>))"
  by (simp add: warmStartContactPoint_def Let_def)

lemma warmStartContactPoint_resting:
  "isRestingContact (mContactPoints (warmStartContactPoint c i s) p) =
   isRestingContact (mContactPoints s p)"
  by (simp add: warmStartContactPoint_points)

lemma warmStartContactPoint_other:
  "p \<noteq> i \<Longrightarrow> mContactPoints (warmStartContactPoint c i s) p = mContactPoints s p"
  by (simp add: warmStartContactPoint_points)

lemma warmStartContactPoint_impulse:
  "penetrationImpulse (mContactPoints (warmStartContactPoint c i s) i) =
     (if isRestingContact (mContactPoints s i) then penetrationImpulse (mContactPoints s i) else 0)"
  by (simp add: warmStartContactPoint_points)

subsection \<open>The loop over the contact points\<close>

lemma warmStartContactPoints_fst:
  "fst (warmStartContactPoints c n i f s) = i + n"
  by (induction n arbitrary: i f s) simp_all

lemma warmStartContactPoints_frame:
  "mContactConstraints (snd (snd (warmStartContactPoints c n i f s))) = mContactConstraints s"
  "mNbContactManifolds (snd (snd (warmStartContactPoints c n i f s))) = mNbContactManifolds s"
  "mNbContactPoints (snd (snd (warmStartContactPoints c n i f s))) = mNbContactPoints s"
  "mAllContactManifolds (snd (snd (warmStartContactPoints c n i f s))) = mAllContactManifolds s"
  "mAllContactPoints (snd (snd (warmStartContactPoints c n i f s))) = mAllContactPoints s"
  by (induction n arbitrary: i f s; simp add: warmStartContactPoint_frame)+

lemma warmStartContactPoints_resting:
  "isRestingContact (mContactPoints (snd (snd (warmStartContactPoints c n i f s))) p) =
   isRestingContact (mContactPoints s p)"
  by (induction n arbitrary: i f s) (simp_all add: warmStartContactPoint_resting)

lemma warmStartContactPoints_other:
  "p < i \<or> i + n \<le> p \<Longrightarrow>
     mContactPoints (snd (snd (warmStartContactPoints c n i f s))) p = mContactPoints s p"
proof (induction n arbitrary: i f s)
  case 0
  then show ?case by simp
next
  case (Suc n)
  have "p \<noteq> i" using Suc.prems by auto
  moreover have "p < Suc i \<or> Suc i + n \<le> p" using Suc.prems by auto
  ultimately show ?case
    using Suc.IH [where i = "Suc i"] by (simp add: warmStartContactPoint_other)
qed

lemma warmStartContactPoints_impulse:
  "i \<le> p \<Longrightarrow> p < i + n \<Longrightarrow>
     penetrationImpulse (mContactPoints (snd (snd (warmStartContactPoints c n i f s))) p) =
       (if isRestingContact (mContactPoints s p) then penetrationImpulse (mContactPoints s p) else 0)"
proof (induction n arbitrary: i f s)
  case 0
  then show ?case by simp
next
  case (Suc n)
  show ?case
  proof (cases "p = i")
    case True
    then show ?thesis
      by (simp add: warmStartContactPoints_other warmStartContactPoint_impulse)
  next
    case False
    then have "Suc i \<le> p" "p < Suc i + n" using Suc.prems by auto
    then show ?thesis
      using Suc.IH [where i = "Suc i" and s = "warmStartContactPoint c i s"] False
      by (simp add: warmStartContactPoint_resting warmStartContactPoint_other)
  qed
qed

lemma warmStartContactPoints_flag:
  "fst (snd (warmStartContactPoints c n i f s)) =
     (f \<or> (\<exists>p\<in>{i..<i + n}. isRestingContact (mContactPoints s p)))"
proof (induction n arbitrary: i f s)
  case 0
  then show ?case by simp
next
  case (Suc n)
  have set: "{i..<i + Suc n} = insert i {Suc i..<Suc i + n}" by auto
  show ?case
    using Suc.IH [where i = "Suc i" and s = "warmStartContactPoint c i s"]
    by (simp only: warmStartContactPoints.simps set) (auto simp: warmStartContactPoint_resting)
qed

subsection \<open>The manifold part\<close>

lemma warmStartFriction_frame:
  "mContactPoints (warmStartFriction c s) = mContactPoints s"
  "mNbContactManifolds (warmStartFriction c s) = mNbContactManifolds s"
  "mNbContactPoints (warmStartFriction c s) = mNbContactPoints s"
  "mAllContactManifolds (warmStartFriction c s) = mAllContactManifolds s"
  "mAllContactPoints (warmStartFriction c s) = mAllContactPoints s"
  by (simp_all add: warmStartFriction_def Let_def applyFrictionImpulse_frame)

lemma warmStartFriction_constraints:
  "mContactConstraints (warmStartFriction c s) =
     (mContactConstraints s)(c := projectOldFrictionImpulse (mContactConstraints s c))"
  by (simp add: warmStartFriction_def Let_def applyFrictionImpulse_frame)

lemma warmStartNewManifold_frame:
  "mContactPoints (warmStartNewManifold c s) = mContactPoints s"
  "mNbContactManifolds (warmStartNewManifold c s) = mNbContactManifolds s"
  "mNbContactPoints (warmStartNewManifold c s) = mNbContactPoints s"
  "mAllContactManifolds (warmStartNewManifold c s) = mAllContactManifolds s"
  "mAllContactPoints (warmStartNewManifold c s) = mAllContactPoints s"
  by (simp_all add: warmStartNewManifold_def)

lemma warmStartedManifold_nbContacts:
  "nbContacts (warmStartedManifold f cm) = nbContacts cm"
  by (simp add: warmStartedManifold_def projectOldFrictionImpulse_def Let_def)

subsection \<open>One manifold\<close>

lemma warmStartManifold_fst:
  "fst (warmStartManifold c i s) = i + nbContacts (mContactConstraints s c)"
  by (simp add: warmStartManifold_def case_prod_beta warmStartContactPoints_fst)

lemma warmStartManifold_frame:
  "mNbContactManifolds (snd (warmStartManifold c i s)) = mNbContactManifolds s"
  "mNbContactPoints (snd (warmStartManifold c i s)) = mNbContactPoints s"
  "mAllContactManifolds (snd (warmStartManifold c i s)) = mAllContactManifolds s"
  "mAllContactPoints (snd (warmStartManifold c i s)) = mAllContactPoints s"
  by (simp_all add: warmStartManifold_def case_prod_beta warmStartFriction_frame
        warmStartNewManifold_frame warmStartContactPoints_frame)

lemma warmStartManifold_points:
  "mContactPoints (snd (warmStartManifold c i s)) =
     mContactPoints (snd (snd (warmStartContactPoints c (nbContacts (mContactConstraints s c)) i False s)))"
  by (simp add: warmStartManifold_def case_prod_beta warmStartFriction_frame
        warmStartNewManifold_frame)

lemma warmStartManifold_constraints:
  "mContactConstraints (snd (warmStartManifold c i s)) =
     (mContactConstraints s)(c := warmStartedManifold
        (\<exists>p\<in>{i..<i + nbContacts (mContactConstraints s c)}. isRestingContact (mContactPoints s p))
        (mContactConstraints s c))"
  by (simp add: warmStartManifold_def case_prod_beta warmStartFriction_constraints
        warmStartNewManifold_def warmStartContactPoints_frame warmStartContactPoints_flag
        warmStartedManifold_def)

subsection \<open>The loop over the manifolds\<close>

lemma warmStartManifolds_nbContacts:
  "nbContacts (mContactConstraints (warmStartManifolds n c i s) k) = nbContacts (mContactConstraints s k)"
  by (induction n arbitrary: c i s)
     (simp_all add: case_prod_beta warmStartManifold_constraints warmStartedManifold_nbContacts)

lemma warmStartManifolds_before:
  "k < c \<Longrightarrow> mContactConstraints (warmStartManifolds n c i s) k = mContactConstraints s k"
  by (induction n arbitrary: c i s) (simp_all add: case_prod_beta warmStartManifold_constraints)

lemma warmStartManifolds_points_before:
  "p < i \<Longrightarrow> mContactPoints (warmStartManifolds n c i s) p = mContactPoints s p"
  by (induction n arbitrary: c i s)
     (simp_all add: case_prod_beta warmStartManifold_fst warmStartManifold_points
        warmStartContactPoints_other)

lemma warmStartManifolds_constraints:
  "c \<le> k \<Longrightarrow> k < c + n \<Longrightarrow>
   mContactConstraints (warmStartManifolds n c i s) k =
     warmStartedManifold
       (\<exists>p\<in>{i + (\<Sum>j = c..<k. nbContacts (mContactConstraints s j))..<
               i + (\<Sum>j = c..<k. nbContacts (mContactConstraints s j)) +
               nbContacts (mContactConstraints s k)}. isRestingContact (mContactPoints s p))
       (mContactConstraints s k)"
proof (induction n arbitrary: c i s)
  case 0
  then show ?case by simp
next
  case (Suc n)
  let ?s1 = "snd (warmStartManifold c i s)"
  let ?i1 = "i + nbContacts (mContactConstraints s c)"
  let ?s' = "warmStartManifolds n (Suc c) ?i1 ?s1"
  have unfold: "warmStartManifolds (Suc n) c i s = ?s'"
    by (simp add: case_prod_beta warmStartManifold_fst)
  show ?case
  proof (cases "k = c")
    case True
    have "mContactConstraints ?s' c = mContactConstraints ?s1 c"
      by (simp add: warmStartManifolds_before)
    then show ?thesis
      by (simp only: unfold True) (simp add: warmStartManifold_constraints)
  next
    case False
    then have k: "Suc c \<le> k" "k < Suc c + n" using Suc.prems by auto
    have nb: "\<And>j. nbContacts (mContactConstraints ?s1 j) = nbContacts (mContactConstraints s j)"
      by (simp add: warmStartManifold_constraints warmStartedManifold_nbContacts)
    have rec: "mContactConstraints ?s1 k = mContactConstraints s k"
      using False by (simp add: warmStartManifold_constraints)
    have rest: "\<And>p. isRestingContact (mContactPoints ?s1 p) = isRestingContact (mContactPoints s p)"
      by (simp add: warmStartManifold_points warmStartContactPoints_resting)
    have start: "?i1 + (\<Sum>j = Suc c..<k. nbContacts (mContactConstraints s j)) =
                 i + (\<Sum>j = c..<k. nbContacts (mContactConstraints s j))"
      using k(1) by (simp add: sum.atLeast_Suc_lessThan)
    show ?thesis
      using Suc.IH [where c = "Suc c" and i = ?i1 and s = ?s1, OF k]
      by (simp only: unfold nb rec rest start)
  qed
qed

lemma warmStartManifolds_impulse:
  "i \<le> p \<Longrightarrow> p < i + (\<Sum>k = c..<c + n. nbContacts (mContactConstraints s k)) \<Longrightarrow>
     penetrationImpulse (mContactPoints (warmStartManifolds n c i s) p) =
       (if isRestingContact (mContactPoints s p) then penetrationImpulse (mContactPoints s p) else 0)"
proof (induction n arbitrary: c i s)
  case 0
  then show ?case by simp
next
  case (Suc n)
  let ?s1 = "snd (warmStartManifold c i s)"
  let ?i1 = "i + nbContacts (mContactConstraints s c)"
  have unfold: "warmStartManifolds (Suc n) c i s = warmStartManifolds n (Suc c) ?i1 ?s1"
    by (simp add: case_prod_beta warmStartManifold_fst)
  have nb: "\<And>j. nbContacts (mContactConstraints ?s1 j) = nbContacts (mContactConstraints s j)"
    by (simp add: warmStartManifold_constraints warmStartedManifold_nbContacts)
  have split: "(\<Sum>k = c..<c + Suc n. nbContacts (mContactConstraints s k)) =
      nbContacts (mContactConstraints s c) +
      (\<Sum>k = Suc c..<Suc c + n. nbContacts (mContactConstraints ?s1 k))"
    by (simp add: sum.atLeast_Suc_lessThan nb)
  show ?case
  proof (cases "p < ?i1")
    case True
    then show ?thesis using Suc.prems(1)
      by (simp only: unfold warmStartManifolds_points_before)
         (simp add: warmStartManifold_points warmStartContactPoints_impulse)
  next
    case False
    then have ge: "?i1 \<le> p" by simp
    have lt: "p < ?i1 + (\<Sum>k = Suc c..<Suc c + n. nbContacts (mContactConstraints ?s1 k))"
      using Suc.prems(2) split by simp
    have same: "mContactPoints ?s1 p = mContactPoints s p"
      using ge by (simp add: warmStartManifold_points warmStartContactPoints_other)
    show ?thesis
      using Suc.IH [where c = "Suc c" and i = ?i1 and s = ?s1, OF ge lt]
      by (simp only: unfold same)
  qed
qed

lemma warmStartManifolds_frame:
  "mNbContactManifolds (warmStartManifolds n c i s) = mNbContactManifolds s"
  "mNbContactPoints (warmStartManifolds n c i s) = mNbContactPoints s"
  "mAllContactManifolds (warmStartManifolds n c i s) = mAllContactManifolds s"
  "mAllContactPoints (warmStartManifolds n c i s) = mAllContactPoints s"
  by (induction n arbitrary: c i s; simp add: case_prod_beta warmStartManifold_frame)+

lemma warmStart_frame:
  "mNbContactManifolds (warmStart s) = mNbContactManifolds s"
  "mNbContactPoints (warmStart s) = mNbContactPoints s"
  "mAllContactManifolds (warmStart s) = mAllContactManifolds s"
  "mAllContactPoints (warmStart s) = mAllContactPoints s"
  by (simp_all add: warmStart_def warmStartManifolds_frame)

lemma warmStartedManifold_basis:
  "manifoldNormal (warmStartedManifold f cm) = manifoldNormal cm"
  "frictionVector1 (warmStartedManifold f cm) = frictionVector1 cm"
  "frictionVector2 (warmStartedManifold f cm) = frictionVector2 cm"
  by (simp_all add: warmStartedManifold_def projectOldFrictionImpulse_def Let_def)

lemma warmStartContactPoint_restitutionBias:
  "restitutionBias (mContactPoints (warmStartContactPoint c i s) p) =
   restitutionBias (mContactPoints s p)"
  by (simp add: warmStartContactPoint_points)

lemma warmStartContactPoints_restitutionBias:
  "restitutionBias (mContactPoints (snd (snd (warmStartContactPoints c n i f s))) p) =
   restitutionBias (mContactPoints s p)"
  by (induction n arbitrary: i f s) (simp_all add: warmStartContactPoint_restitutionBias)

lemma warmStartManifolds_restitutionBias:
  "restitutionBias (mContactPoints (warmStartManifolds n c i s) p) =
   restitutionBias (mContactPoints s p)"
  by (induction n arbitrary: c i s)
     (simp_all add: case_prod_beta warmStartManifold_points warmStartContactPoints_restitutionBias)

lemma warmStart_restitutionBias:
  "restitutionBias (mContactPoints (warmStart s) p) = restitutionBias (mContactPoints s p)"
  by (simp add: warmStart_def warmStartManifolds_restitutionBias)

lemma warmStart_basis:
  assumes "c < mNbContactManifolds s"
  shows "manifoldNormal (mContactConstraints (warmStart s) c) = manifoldNormal (mContactConstraints s c)"
    and "frictionVector1 (mContactConstraints (warmStart s) c) = frictionVector1 (mContactConstraints s c)"
    and "frictionVector2 (mContactConstraints (warmStart s) c) = frictionVector2 (mContactConstraints s c)"
  using warmStartManifolds_constraints [where c = 0 and k = c and n = "mNbContactManifolds s" and s = s and i = 0] assms
  by (simp_all add: warmStart_def warmStartedManifold_basis)

lemma warmStartContactPoint_geometry:
  "r1 (mContactPoints (warmStartContactPoint c i s) p) = r1 (mContactPoints s p)"
  "r2 (mContactPoints (warmStartContactPoint c i s) p) = r2 (mContactPoints s p)"
  "normal (mContactPoints (warmStartContactPoint c i s) p) = normal (mContactPoints s p)"
  by (simp_all add: warmStartContactPoint_points)

lemma warmStartContactPoints_geometry:
  "r1 (mContactPoints (snd (snd (warmStartContactPoints c n i f s))) p) = r1 (mContactPoints s p)"
  "r2 (mContactPoints (snd (snd (warmStartContactPoints c n i f s))) p) = r2 (mContactPoints s p)"
  "normal (mContactPoints (snd (snd (warmStartContactPoints c n i f s))) p) = normal (mContactPoints s p)"
  by (induction n arbitrary: i f s; simp add: warmStartContactPoint_geometry)+

lemma warmStartManifolds_geometry:
  "r1 (mContactPoints (warmStartManifolds n c i s) p) = r1 (mContactPoints s p)"
  "r2 (mContactPoints (warmStartManifolds n c i s) p) = r2 (mContactPoints s p)"
  "normal (mContactPoints (warmStartManifolds n c i s) p) = normal (mContactPoints s p)"
  by (induction n arbitrary: c i s;
      simp add: case_prod_beta warmStartManifold_points warmStartContactPoints_geometry)+

lemma warmStart_geometry:
  "r1 (mContactPoints (warmStart s) p) = r1 (mContactPoints s p)"
  "r2 (mContactPoints (warmStart s) p) = r2 (mContactPoints s p)"
  "normal (mContactPoints (warmStart s) p) = normal (mContactPoints s p)"
  by (simp_all add: warmStart_def warmStartManifolds_geometry)


section \<open>Properties of init\<close>

subsection \<open>The manifold record that init builds\<close>



subsection \<open>The loops of init\<close>

lemma initContactPoint_frame:
  "mContactConstraints (snd (initContactPoint env ext c st)) = mContactConstraints (snd st)"
  "mNbContactManifolds (snd (initContactPoint env ext c st)) = mNbContactManifolds (snd st)"
  "mRigidBodyComponents (snd (initContactPoint env ext c st)) = mRigidBodyComponents (snd st)"
  "mAllContactManifolds (snd (initContactPoint env ext c st)) = mAllContactManifolds (snd st)"
  by (simp_all add: initContactPoint_def Let_def)

lemma initContactPoints_frame:
  "mContactConstraints (snd (initContactPoints env ext n c st)) = mContactConstraints (snd st)"
  "mNbContactManifolds (snd (initContactPoints env ext n c st)) = mNbContactManifolds (snd st)"
  "mRigidBodyComponents (snd (initContactPoints env ext n c st)) = mRigidBodyComponents (snd st)"
  "mAllContactManifolds (snd (initContactPoints env ext n c st)) = mAllContactManifolds (snd st)"
  by (induction n arbitrary: c st; simp add: initContactPoint_frame)+



subsection \<open>init with one island, one manifold and one contact point\<close>

lemma initManifold_frame:
  "mNbContactManifolds (initManifold env m s) = mNbContactManifolds s + 1"
  "mRigidBodyComponents (initManifold env m s) = mRigidBodyComponents s"
  "mAllContactManifolds (initManifold env m s) = mAllContactManifolds s"
  by (simp_all add: initManifold_def Let_def initContactPoints_frame)

lemma initManifold_points:
  "mContactPoints (initManifold env m s) =
     mContactPoints (snd (initContactPoints env (mAllContactManifolds s ! m)
        (nbContactPoints (mAllContactManifolds s ! m))
        (contactPointsIndex (mAllContactManifolds s ! m))
        (initContactManifoldSolver env m s, s)))"
  by (simp add: initManifold_def Let_def)


lemma initContactPoint_built:
  "mContactPoints (snd (initContactPoint env ext c (cm, s))) (mNbContactPoints s) =
     initContactPointSolver env ext cm c s"
  "manifoldNormal (fst (initContactPoint env ext c (cm, s))) =
     manifoldNormal cm + mNormal (mAllContactPoints s ! c)"
  by (simp_all add: initContactPoint_def Let_def initContactPointSolver_def)

lemma init_single:
  assumes "getNbIslands env = 1" and "nbContactManifolds env 0 = 1"
    and "contactManifoldsIndices env 0 = 0" and "ms \<noteq> []" and "ps \<noteq> []"
  shows "init env ms ps dt s =
           warmStart (initManifold env 0
             (s\<lparr>mAllContactManifolds := ms, mAllContactPoints := ps, mTimeStep := dt,
                mNbContactManifolds := 0, mNbContactPoints := 0\<rparr>))"
  using assms by (simp add: init_def Let_def initializeForIsland_def)


subsection \<open>Counts and friction coefficients after init\<close>

lemma initContactPoint_counts:
  "nbContacts (fst (initContactPoint env ext c st)) = nbContacts (fst st)"
  "frictionCoefficient (fst (initContactPoint env ext c st)) = frictionCoefficient (fst st)"
  "mNbContactPoints (snd (initContactPoint env ext c st)) = mNbContactPoints (snd st) + 1"
  by (simp_all add: initContactPoint_def Let_def)

lemma initContactPoints_counts:
  "nbContacts (fst (initContactPoints env ext n c st)) = nbContacts (fst st)"
  "frictionCoefficient (fst (initContactPoints env ext n c st)) = frictionCoefficient (fst st)"
  "mNbContactPoints (snd (initContactPoints env ext n c st)) = mNbContactPoints (snd st) + n"
  by (induction n arbitrary: c st; simp add: initContactPoint_counts)+

lemma finishManifold_counts:
  "nbContacts (finishManifold env ext s cm) = nbContacts cm"
  "frictionCoefficient (finishManifold env ext s cm) = frictionCoefficient cm"
  by (simp_all add: finishManifold_def computeFrictionMasses_def computeFrictionVectors_def Let_def)

lemma initContactManifoldSolver_counts:
  "nbContacts (initContactManifoldSolver env m s) = nbContactPoints (mAllContactManifolds s ! m)"
  "frictionCoefficient (initContactManifoldSolver env m s) =
     computeMixedFrictionCoefficient env (colliderEntity1 (mAllContactManifolds s ! m))
       (colliderEntity2 (mAllContactManifolds s ! m))"
  by (simp_all add: initContactManifoldSolver_def Let_def)

lemma initManifold_counts:
  "mNbContactPoints (initManifold env m s) =
     mNbContactPoints s + nbContactPoints (mAllContactManifolds s ! m)"
  "nbContacts (mContactConstraints (initManifold env m s) (mNbContactManifolds s)) =
     nbContactPoints (mAllContactManifolds s ! m)"
  "frictionCoefficient (mContactConstraints (initManifold env m s) (mNbContactManifolds s)) =
     computeMixedFrictionCoefficient env (colliderEntity1 (mAllContactManifolds s ! m))
       (colliderEntity2 (mAllContactManifolds s ! m))"
  "k \<noteq> mNbContactManifolds s \<Longrightarrow>
     mContactConstraints (initManifold env m s) k = mContactConstraints s k"
  by (simp_all add: initManifold_def Let_def initContactPoints_frame initContactPoints_counts
        finishManifold_counts initContactManifoldSolver_counts)

lemma computeMixedFrictionCoefficient_nonneg:
  "0 \<le> getFrictionCoefficient env a \<Longrightarrow> 0 \<le> getFrictionCoefficient env b \<Longrightarrow>
     0 \<le> computeMixedFrictionCoefficient env a b"
  by (simp add: computeMixedFrictionCoefficient_def)

lemma initManifold_built:
  assumes "\<forall>e. 0 \<le> getFrictionCoefficient env e"
    and "built s"
  shows "built (initManifold env m s)"
proof -
  have first: "firstContactPoint (initManifold env m s) (mNbContactManifolds s) =
               firstContactPoint s (mNbContactManifolds s)"
    by (simp add: firstContactPoint_def initManifold_counts)
  have "mNbContactPoints (initManifold env m s) =
        firstContactPoint (initManifold env m s) (mNbContactManifolds (initManifold env m s))"
    using assms(2) first
    by (simp add: built_def initManifold_frame initManifold_counts firstContactPoint_def)
  moreover have "\<forall>c < mNbContactManifolds (initManifold env m s).
      0 \<le> frictionCoefficient (mContactConstraints (initManifold env m s) c)"
    using assms
    by (auto simp: built_def initManifold_frame initManifold_counts less_Suc_eq
          computeMixedFrictionCoefficient_nonneg)
  ultimately show ?thesis by (simp add: built_def)
qed

lemma initManifolds_built:
  assumes "\<forall>e. 0 \<le> getFrictionCoefficient env e"
  shows "built s \<Longrightarrow> built (initManifolds env n m s)"
  by (induction n arbitrary: m s) (simp_all add: initManifold_built [OF assms])

lemma initIslands_built:
  assumes "\<forall>e. 0 \<le> getFrictionCoefficient env e"
  shows "built s \<Longrightarrow> built (initIslands env n i s)"
  by (induction n arbitrary: i s)
     (simp_all add: initializeForIsland_def initManifolds_built [OF assms])

lemma warmStartedManifold_frictionCoefficient:
  "frictionCoefficient (warmStartedManifold f cm) = frictionCoefficient cm"
  by (simp add: warmStartedManifold_def projectOldFrictionImpulse_def Let_def)

lemma warmStart_built:
  assumes "built s"
  shows "built (warmStart s)"
proof -
  have nb: "\<And>k. nbContacts (mContactConstraints (warmStart s) k) = nbContacts (mContactConstraints s k)"
    by (simp add: warmStart_def warmStartManifolds_nbContacts)
  have mu: "\<And>c. c < mNbContactManifolds s \<Longrightarrow>
      frictionCoefficient (mContactConstraints (warmStart s) c) =
      frictionCoefficient (mContactConstraints s c)"
    using warmStartManifolds_constraints [where c = 0 and n = "mNbContactManifolds s" and s = s and i = 0]
    by (simp add: warmStart_def warmStartedManifold_frictionCoefficient)
  show ?thesis
    using assms by (simp add: built_def warmStart_frame firstContactPoint_def nb mu)
qed

lemma init_built:
  assumes "\<forall>e. 0 \<le> getFrictionCoefficient env e"
  shows "built (init env ms ps dt s)"
proof -
  let ?s0 = "s\<lparr>mAllContactManifolds := ms, mAllContactPoints := ps, mTimeStep := dt,
               mNbContactManifolds := 0, mNbContactPoints := 0\<rparr>"
  have s0: "built ?s0" by (simp add: built_def firstContactPoint_def)
  then have "built (warmStart (initIslands env (getNbIslands env) 0 ?s0))"
    by (intro warmStart_built initIslands_built [OF assms])
  then show ?thesis using s0 by (simp add: init_def Let_def)
qed

lemma solve_built: "built s \<Longrightarrow> built (solve s)"
proof -
  have "mNbContactManifolds (solve s) = mNbContactManifolds s"
    "mNbContactPoints (solve s) = mNbContactPoints s"
    "\<And>c. frictionCoefficient (mContactConstraints (solve s) c) =
           frictionCoefficient (mContactConstraints s c)"
    by (simp_all add: solve_def solveManifolds_frame solveManifolds_keeps)
  then show "built s \<Longrightarrow> built (solve s)"
    by (simp add: built_def firstContactPoint_solve)
qed

subsection \<open>The restitution bias that init stores\<close>

lemma deltaVInit_relativePointVelocity:
  "deltaVInit v1 w1 v2 w2 ra rb =
     relativePointVelocity v1 w1 v2 w2 ra rb -
       scaleV 2 (Vector3 (vz w1 * vy ra) (vx w1 * vz ra) (vy w1 * vx ra))"
  by (simp add: deltaVInit_def relativePointVelocity_def plus_Vector3_def minus_Vector3_def
        cross_def scaleV_def)

lemma initContactPointSolver_restitutionBias:
  "restitutionBias (initContactPointSolver env ext cm c s) =
     computeRestitutionBias
       (deltaVInit
          (mLinearVelocities (mRigidBodyComponents s) (rigidBodyComponentIndexBody1 cm))
          (mAngularVelocities (mRigidBodyComponents s) (rigidBodyComponentIndexBody1 cm))
          (mLinearVelocities (mRigidBodyComponents s) (rigidBodyComponentIndexBody2 cm))
          (mAngularVelocities (mRigidBodyComponents s) (rigidBodyComponentIndexBody2 cm))
          (r1 (initContactPointSolver env ext cm c s))
          (r2 (initContactPointSolver env ext cm c s)))
       (normal (initContactPointSolver env ext cm c s))
       (computeMixedRestitutionFactor env (colliderEntity1 ext) (colliderEntity2 ext))
       (mRestitutionVelocityThreshold s)"
  by (simp add: initContactPointSolver_def Let_def)

lemma computeRestitutionBias_dot:
  "computeRestitutionBias deltaV n e threshold =
     (if dot deltaV n < - threshold then e * dot deltaV n else 0)"
  by (simp add: computeRestitutionBias_def Let_def dot_def)

subsection \<open>The rolling ball after init and after solve\<close>




section \<open>Properties of the rounded arithmetic\<close>

subsection \<open>Rounding to the nearest number of the format\<close>

lemma roundToEven_near:
  assumes "\<bar>x - of_int m\<bar> < 1 / 2"
  shows "roundToEven x = m"
proof -
  have lo: "of_int m - 1 / 2 < x" and hi: "x < of_int m + 1 / 2"
    using assms by linarith+
  show ?thesis
  proof (cases "of_int m \<le> x")
    case True
    then have f: "\<lfloor>x\<rfloor> = m" using hi by (simp add: floor_eq_iff)
    have "x - of_int m < 1 / 2" using hi by linarith
    then show ?thesis by (simp add: roundToEven_def Let_def f)
  next
    case False
    then have f: "\<lfloor>x\<rfloor> = m - 1" using lo by (simp add: floor_eq_iff)
    have "1 / 2 < x - of_int (m - 1)" using lo by simp
    then show ?thesis by (simp add: roundToEven_def Let_def f)
  qed
qed

lemma roundToEven_tie:
  assumes "x = of_int m + 1 / 2 \<or> x = of_int m - 1 / 2" and "even m"
  shows "roundToEven x = m"
proof -
  from assms(1) show ?thesis
  proof
    assume x: "x = of_int m + 1 / 2"
    have f: "\<lfloor>of_int m + 1 / 2 :: real\<rfloor> = m" by (simp add: floor_eq_iff)
    show ?thesis unfolding x roundToEven_def Let_def f using assms(2) by simp
  next
    assume x: "x = of_int m - 1 / 2"
    have f: "\<lfloor>of_int m - 1 / 2 :: real\<rfloor> = m - 1" by (simp add: floor_eq_iff)
    show ?thesis unfolding x roundToEven_def Let_def f using assms(2) by simp
  qed
qed

lemma floor_log2:
  assumes "2 powi k \<le> x" and "x < 2 powi (k + 1)"
  shows "\<lfloor>log 2 x\<rfloor> = k"
proof -
  have p: "\<And>n. (2::real) powi n = 2 powr of_int n"
    by (simp add: powr_real_of_int')
  have "(0::real) < 2 powi k" by simp
  then have pos: "0 < x" using assms(1) by (rule less_le_trans)
  have "of_int k \<le> log 2 x" using assms(1) pos by (simp add: le_log_iff p)
  moreover have "log 2 x < of_int (k + 1)" using assms(2) pos by (simp add: log_less_iff p)
  ultimately show ?thesis by (simp add: floor_eq_iff)
qed

lemma roundDecimal_eq:
  assumes "2 powi k \<le> \<bar>x\<bar>" and "\<bar>x\<bar> < 2 powi (k + 1)"
    and "u = 2 powi (k + 1 - int p)"
    and "\<bar>x / u - of_int m\<bar> < 1 / 2"
  shows "roundDecimal p x = of_int m * u"
proof -
  have "(0::real) < 2 powi k" by simp
  then have "0 < \<bar>x\<bar>" using assms(1) by (rule less_le_trans)
  then have "x \<noteq> 0" by simp
  moreover have "\<lfloor>log 2 \<bar>x\<bar>\<rfloor> = k" using assms(1,2) by (rule floor_log2)
  ultimately show ?thesis
    using roundToEven_near [OF assms(4)] by (simp add: roundDecimal_def Let_def assms(3))
qed

lemma roundDecimal_tie:
  assumes "2 powi k \<le> \<bar>x\<bar>" and "\<bar>x\<bar> < 2 powi (k + 1)"
    and "u = 2 powi (k + 1 - int p)"
    and "x / u = of_int m + 1 / 2 \<or> x / u = of_int m - 1 / 2" and "even m"
  shows "roundDecimal p x = of_int m * u"
proof -
  have "(0::real) < 2 powi k" by simp
  then have "0 < \<bar>x\<bar>" using assms(1) by (rule less_le_trans)
  then have "x \<noteq> 0" by simp
  moreover have "\<lfloor>log 2 \<bar>x\<bar>\<rfloor> = k" using assms(1,2) by (rule floor_log2)
  ultimately show ?thesis
    using roundToEven_tie [OF assms(4,5)] by (simp add: roundDecimal_def Let_def assms(3))
qed

lemma roundDecimal_zero: "roundDecimal p 0 = 0"
  by (simp add: roundDecimal_def)

subsection \<open>The friction vectors in rounded arithmetic\<close>

lemma computeFrictionVectorsRounded_exact:
  "computeFrictionVectorsRounded (\<lambda>x. x) env d cm = computeFrictionVectors env d cm"
  by (simp only: computeFrictionVectorsRounded_def computeFrictionVectors_def dotFl_def
        lengthVFl_def scaleVFl_def divVFl_def crossFl_def getUnitFl_def dot_def lengthV_def
        scaleV_def divV_def cross_def getUnit_def Vector3.sel)

lemma computeFrictionVectorsRounded_normal:
  "manifoldNormal (computeFrictionVectorsRounded fl env d cm) = manifoldNormal cm"
  by (simp add: computeFrictionVectorsRounded_def Let_def)

lemma computeFrictionVectorsRounded_tangent:
  fixes fl :: "real \<Rightarrow> decimal" and env :: Collaborators and d :: Vector3
    and cm :: ContactManifoldSolver
  defines "nv \<equiv> scaleVFl fl (dotFl fl d (manifoldNormal cm)) (manifoldNormal cm)"
  defines "t \<equiv> Vector3 (fl (vx d - vx nv)) (fl (vy d - vy nv)) (fl (vz d - vz nv))"
  assumes "lengthVFl fl t > MACHINE_EPSILON env"
  shows "frictionVector1 (computeFrictionVectorsRounded fl env d cm) = divVFl fl t (lengthVFl fl t)"
    and "frictionVector2 (computeFrictionVectorsRounded fl env d cm) =
           getUnitFl fl (crossFl fl (manifoldNormal cm) (divVFl fl t (lengthVFl fl t)))"
  using assms(3) by (simp_all add: computeFrictionVectorsRounded_def Let_def nv_def t_def)

subsection \<open>The head-on contact in the arithmetic of \<open>float\<close>\<close>

lemma round24_0: "roundDecimal 24 (1 / 3) = 11184811 / 33554432"
  using roundDecimal_eq [where p = 24 and k = "- 2" and m = "11184811" and u = "1 / 33554432" and x = "1 / 3"]
  by simp

lemma round24_1: "roundDecimal 24 (2 / 3) = 11184811 / 16777216"
  using roundDecimal_eq [where p = 24 and k = "- 1" and m = "11184811" and u = "1 / 16777216" and x = "2 / 3"]
  by simp

lemma round24_2: "roundDecimal 24 (125099997105721 / 1125899906842624) = 7456541 / 67108864"
  using roundDecimal_eq [where p = 24 and k = "- 4" and m = "14913082" and u = "1 / 134217728" and x = "125099997105721 / 1125899906842624"]
  by simp

lemma round24_3: "roundDecimal 24 (125099997105721 / 281474976710656) = 7456541 / 16777216"
  using roundDecimal_eq [where p = 24 and k = "- 2" and m = "14913082" and u = "1 / 33554432" and x = "125099997105721 / 281474976710656"]
  by simp

lemma round24_4: "roundDecimal 24 (37282705 / 67108864) = 2330169 / 4194304"
  using roundDecimal_eq [where p = 24 and k = "- 1" and m = "9320676" and u = "1 / 16777216" and x = "37282705 / 67108864"]
  by simp

lemma round24_5: "roundDecimal 24 (16777217 / 16777216) = 1"
  using roundDecimal_tie [where p = 24 and k = "0" and m = "8388608" and u = "1 / 8388608" and x = "16777217 / 16777216"]
  by simp

lemma round24_6: "roundDecimal 24 (1) = 1"
  using roundDecimal_eq [where p = 24 and k = "0" and m = "8388608" and u = "1 / 8388608" and x = "1"]
  by simp

lemma round24_7: "roundDecimal 24 (- (55924055 / 33554432)) = - (6990507 / 4194304)"
  using roundDecimal_eq [where p = 24 and k = "0" and m = "- 13981014" and u = "1 / 8388608" and x = "- (55924055 / 33554432)"]
  by simp

lemma round24_8: "roundDecimal 24 (- (55924055 / 8388608)) = - (6990507 / 1048576)"
  using roundDecimal_eq [where p = 24 and k = "2" and m = "- 13981014" and u = "1 / 2097152" and x = "- (55924055 / 8388608)"]
  by simp

lemma round24_9: "roundDecimal 24 (- (34952535 / 4194304)) = - (4369067 / 524288)"
  using roundDecimal_eq [where p = 24 and k = "3" and m = "- 8738134" and u = "1 / 1048576" and x = "- (34952535 / 4194304)"]
  by simp

lemma round24_10: "roundDecimal 24 (- (15728641 / 1048576)) = - (15728641 / 1048576)"
  using roundDecimal_eq [where p = 24 and k = "3" and m = "- 15728641" and u = "1 / 1048576" and x = "- (15728641 / 1048576)"]
  by simp

lemma round24_11: "roundDecimal 24 (- (175921876871851 / 35184372088832)) = - (10485761 / 2097152)"
  using roundDecimal_eq [where p = 24 and k = "2" and m = "- 10485761" and u = "1 / 2097152" and x = "- (175921876871851 / 35184372088832)"]
  by simp

lemma round24_12: "roundDecimal 24 (- (175921876871851 / 17592186044416)) = - (10485761 / 1048576)"
  using roundDecimal_eq [where p = 24 and k = "3" and m = "- 10485761" and u = "1 / 1048576" and x = "- (175921876871851 / 17592186044416)"]
  by simp

lemma round24_13: "roundDecimal 24 (1 / 2097152) = 1 / 2097152"
  using roundDecimal_eq [where p = 24 and k = "- 21" and m = "8388608" and u = "1 / 17592186044416" and x = "1 / 2097152"]
  by simp

lemma round24_14: "roundDecimal 24 (1 / 1048576) = 1 / 1048576"
  using roundDecimal_eq [where p = 24 and k = "- 20" and m = "8388608" and u = "1 / 8796093022208" and x = "1 / 1048576"]
  by simp

lemma round24_15: "roundDecimal 24 (1 / 4398046511104) = 1 / 4398046511104"
  using roundDecimal_eq [where p = 24 and k = "- 42" and m = "8388608" and u = "1 / 36893488147419103232" and x = "1 / 4398046511104"]
  by simp

lemma round24_16: "roundDecimal 24 (1 / 1099511627776) = 1 / 1099511627776"
  using roundDecimal_eq [where p = 24 and k = "- 40" and m = "8388608" and u = "1 / 9223372036854775808" and x = "1 / 1099511627776"]
  by simp

lemma round24_17: "roundDecimal 24 (5 / 4398046511104) = 5 / 4398046511104"
  using roundDecimal_eq [where p = 24 and k = "- 40" and m = "10485760" and u = "1 / 9223372036854775808" and x = "5 / 4398046511104"]
  by simp

lemma round24_18: "roundDecimal 24 (9 / 4398046511104) = 9 / 4398046511104"
  using roundDecimal_eq [where p = 24 and k = "- 39" and m = "9437184" and u = "1 / 4611686018427387904" and x = "9 / 4398046511104"]
  by simp

lemma sqrt24_19: "sqrt (9 / 4398046511104) = 3 / 2097152"
  by (rule real_sqrt_unique) (simp_all add: power2_eq_square)

lemma round24_20: "roundDecimal 24 (3 / 2097152) = 3 / 2097152"
  using roundDecimal_eq [where p = 24 and k = "- 20" and m = "12582912" and u = "1 / 8796093022208" and x = "3 / 2097152"]
  by simp

lemmas round24 = round24_0 round24_1 round24_2 round24_3 round24_4 round24_5 round24_6 round24_7 round24_8 round24_9 round24_10 round24_11 round24_12 round24_13 round24_14 round24_15 round24_16 round24_17 round24_18 sqrt24_19 round24_20

lemma headOn24:
  "headOnNormal 24 = Vector3 (11184811 / 33554432) (11184811 / 16777216) (11184811 / 16777216)"
  "lengthVFl (roundDecimal 24) (headOnNormal 24) = 1"
  "frictionVector1 (computeFrictionVectorsRounded (roundDecimal 24) (headOnCollaborators 24)
      headOnVelocity (headOnManifold 24)) = headOnNormal 24"
  "frictionVector2 (computeFrictionVectorsRounded (roundDecimal 24) (headOnCollaborators 24)
      headOnVelocity (headOnManifold 24)) = 0"
proof -
  let ?fl = "roundDecimal 24"
  let ?n = "Vector3 (11184811 / 33554432) (11184811 / 16777216) (11184811 / 16777216)"
  let ?t = "Vector3 (1 / 2097152) (1 / 1048576) (1 / 1048576)"
  show n: "headOnNormal 24 = ?n"
    by (simp add: headOnNormal_def round24)
  show "lengthVFl ?fl (headOnNormal 24) = 1"
    by (simp add: n lengthVFl_def dotFl_def round24)
  have mn: "manifoldNormal (headOnManifold 24) = ?n"
    by (simp add: headOnManifold_def n)
  have eps: "MACHINE_EPSILON (headOnCollaborators 24) = 1 / 8388608"
    by (simp add: headOnCollaborators_def)
  have t: "Vector3
      (?fl (vx headOnVelocity - vx (scaleVFl ?fl (dotFl ?fl headOnVelocity ?n) ?n)))
      (?fl (vy headOnVelocity - vy (scaleVFl ?fl (dotFl ?fl headOnVelocity ?n) ?n)))
      (?fl (vz headOnVelocity - vz (scaleVFl ?fl (dotFl ?fl headOnVelocity ?n) ?n))) = ?t"
    by (simp add: headOnVelocity_def scaleVFl_def dotFl_def round24)
  have lt: "lengthVFl ?fl ?t = 3 / 2097152"
    by (simp add: lengthVFl_def dotFl_def round24)
  have t1: "divVFl ?fl ?t (3 / 2097152) = ?n"
    by (simp add: divVFl_def uminus_Vector3_def round24)
  have t2: "getUnitFl ?fl (crossFl ?fl ?n (?n)) = 0"
    by (simp add: getUnitFl_def divVFl_def lengthVFl_def dotFl_def crossFl_def uminus_Vector3_def
          zero_Vector3_def roundDecimal_zero)
  have guard: "MACHINE_EPSILON (headOnCollaborators 24) <
      lengthVFl ?fl (Vector3
        (?fl (vx headOnVelocity -
           vx (scaleVFl ?fl (dotFl ?fl headOnVelocity (manifoldNormal (headOnManifold 24)))
                 (manifoldNormal (headOnManifold 24)))))
        (?fl (vy headOnVelocity -
           vy (scaleVFl ?fl (dotFl ?fl headOnVelocity (manifoldNormal (headOnManifold 24)))
                 (manifoldNormal (headOnManifold 24)))))
        (?fl (vz headOnVelocity -
           vz (scaleVFl ?fl (dotFl ?fl headOnVelocity (manifoldNormal (headOnManifold 24)))
                 (manifoldNormal (headOnManifold 24))))))"
    unfolding mn t lt eps by simp
  show "frictionVector1 (computeFrictionVectorsRounded ?fl (headOnCollaborators 24)
      headOnVelocity (headOnManifold 24)) = headOnNormal 24"
    unfolding computeFrictionVectorsRounded_tangent(1) [OF guard] mn t lt t1 n ..
  show "frictionVector2 (computeFrictionVectorsRounded ?fl (headOnCollaborators 24)
      headOnVelocity (headOnManifold 24)) = 0"
    unfolding computeFrictionVectorsRounded_tangent(2) [OF guard] mn t lt t1 t2 ..
qed

subsection \<open>The head-on contact in the arithmetic of \<open>double\<close>\<close>

lemma round53_0: "roundDecimal 53 (1 / 3) = 6004799503160661 / 18014398509481984"
  using roundDecimal_eq [where p = 53 and k = "- 2" and m = "6004799503160661" and u = "1 / 18014398509481984" and x = "1 / 3"]
  by simp

lemma round53_1: "roundDecimal 53 (2 / 3) = 6004799503160661 / 9007199254740992"
  using roundDecimal_eq [where p = 53 and k = "- 1" and m = "6004799503160661" and u = "1 / 9007199254740992" and x = "2 / 3"]
  by simp

lemma round53_2: "roundDecimal 53 (36057617073158521194928777956921 / 324518553658426726783156020576256) = 2001599834386887 / 18014398509481984"
  using roundDecimal_eq [where p = 53 and k = "- 4" and m = "8006399337547548" and u = "1 / 72057594037927936" and x = "36057617073158521194928777956921 / 324518553658426726783156020576256"]
  by simp

lemma round53_3: "roundDecimal 53 (36057617073158521194928777956921 / 81129638414606681695789005144064) = 2001599834386887 / 4503599627370496"
  using roundDecimal_eq [where p = 53 and k = "- 2" and m = "8006399337547548" and u = "1 / 18014398509481984" and x = "36057617073158521194928777956921 / 81129638414606681695789005144064"]
  by simp

lemma round53_4: "roundDecimal 53 (10007999171934435 / 18014398509481984) = 2501999792983609 / 4503599627370496"
  using roundDecimal_tie [where p = 53 and k = "- 1" and m = "5003999585967218" and u = "1 / 9007199254740992" and x = "10007999171934435 / 18014398509481984"]
  by simp

lemma round53_5: "roundDecimal 53 (1) = 1"
  using roundDecimal_eq [where p = 53 and k = "0" and m = "4503599627370496" and u = "1 / 4503599627370496" and x = "1"]
  by simp

lemma round53_6: "roundDecimal 53 (- (30023997515803305 / 18014398509481984)) = - (3752999689475413 / 2251799813685248)"
  using roundDecimal_eq [where p = 53 and k = "0" and m = "- 7505999378950826" and u = "1 / 4503599627370496" and x = "- (30023997515803305 / 18014398509481984)"]
  by simp

lemma round53_7: "roundDecimal 53 (- (30023997515803305 / 4503599627370496)) = - (3752999689475413 / 562949953421312)"
  using roundDecimal_eq [where p = 53 and k = "2" and m = "- 7505999378950826" and u = "1 / 1125899906842624" and x = "- (30023997515803305 / 4503599627370496)"]
  by simp

lemma round53_8: "roundDecimal 53 (- (18764998447377065 / 2251799813685248)) = - (2345624805922133 / 281474976710656)"
  using roundDecimal_eq [where p = 53 and k = "3" and m = "- 4691249611844266" and u = "1 / 562949953421312" and x = "- (18764998447377065 / 2251799813685248)"]
  by simp

lemma round53_9: "roundDecimal 53 (- (8444249301319679 / 562949953421312)) = - (8444249301319679 / 562949953421312)"
  using roundDecimal_eq [where p = 53 and k = "3" and m = "- 8444249301319679" and u = "1 / 562949953421312" and x = "- (8444249301319679 / 562949953421312)"]
  by simp

lemma round53_10: "roundDecimal 53 (- (50706024009129167240318857947819 / 10141204801825835211973625643008)) = - (5629499534213119 / 1125899906842624)"
  using roundDecimal_eq [where p = 53 and k = "2" and m = "- 5629499534213119" and u = "1 / 1125899906842624" and x = "- (50706024009129167240318857947819 / 10141204801825835211973625643008)"]
  by simp

lemma round53_11: "roundDecimal 53 (- (50706024009129167240318857947819 / 5070602400912917605986812821504)) = - (5629499534213119 / 562949953421312)"
  using roundDecimal_eq [where p = 53 and k = "3" and m = "- 5629499534213119" and u = "1 / 562949953421312" and x = "- (50706024009129167240318857947819 / 5070602400912917605986812821504)"]
  by simp

lemma round53_12: "roundDecimal 53 (- (1 / 1125899906842624)) = - (1 / 1125899906842624)"
  using roundDecimal_eq [where p = 53 and k = "- 50" and m = "- 4503599627370496" and u = "1 / 5070602400912917605986812821504" and x = "- (1 / 1125899906842624)"]
  by simp

lemma round53_13: "roundDecimal 53 (- (1 / 562949953421312)) = - (1 / 562949953421312)"
  using roundDecimal_eq [where p = 53 and k = "- 49" and m = "- 4503599627370496" and u = "1 / 2535301200456458802993406410752" and x = "- (1 / 562949953421312)"]
  by simp

lemma round53_14: "roundDecimal 53 (1 / 1267650600228229401496703205376) = 1 / 1267650600228229401496703205376"
  using roundDecimal_eq [where p = 53 and k = "- 100" and m = "4503599627370496" and u = "1 / 5708990770823839524233143877797980545530986496" and x = "1 / 1267650600228229401496703205376"]
  by simp

lemma round53_15: "roundDecimal 53 (1 / 316912650057057350374175801344) = 1 / 316912650057057350374175801344"
  using roundDecimal_eq [where p = 53 and k = "- 98" and m = "4503599627370496" and u = "1 / 1427247692705959881058285969449495136382746624" and x = "1 / 316912650057057350374175801344"]
  by simp

lemma round53_16: "roundDecimal 53 (5 / 1267650600228229401496703205376) = 5 / 1267650600228229401496703205376"
  using roundDecimal_eq [where p = 53 and k = "- 98" and m = "5629499534213120" and u = "1 / 1427247692705959881058285969449495136382746624" and x = "5 / 1267650600228229401496703205376"]
  by simp

lemma round53_17: "roundDecimal 53 (9 / 1267650600228229401496703205376) = 9 / 1267650600228229401496703205376"
  using roundDecimal_eq [where p = 53 and k = "- 97" and m = "5066549580791808" and u = "1 / 713623846352979940529142984724747568191373312" and x = "9 / 1267650600228229401496703205376"]
  by simp

lemma sqrt53_18: "sqrt (9 / 1267650600228229401496703205376) = 3 / 1125899906842624"
  by (rule real_sqrt_unique) (simp_all add: power2_eq_square)

lemma round53_19: "roundDecimal 53 (3 / 1125899906842624) = 3 / 1125899906842624"
  using roundDecimal_eq [where p = 53 and k = "- 49" and m = "6755399441055744" and u = "1 / 2535301200456458802993406410752" and x = "3 / 1125899906842624"]
  by simp

lemma round53_20: "roundDecimal 53 (- (1 / 3)) = - (6004799503160661 / 18014398509481984)"
  using roundDecimal_eq [where p = 53 and k = "- 2" and m = "- 6004799503160661" and u = "1 / 18014398509481984" and x = "- (1 / 3)"]
  by simp

lemma round53_21: "roundDecimal 53 (- (2 / 3)) = - (6004799503160661 / 9007199254740992)"
  using roundDecimal_eq [where p = 53 and k = "- 1" and m = "- 6004799503160661" and u = "1 / 9007199254740992" and x = "- (2 / 3)"]
  by simp

lemmas round53 = round53_0 round53_1 round53_2 round53_3 round53_4 round53_5 round53_6 round53_7 round53_8 round53_9 round53_10 round53_11 round53_12 round53_13 round53_14 round53_15 round53_16 round53_17 sqrt53_18 round53_19 round53_20 round53_21

lemma headOn53:
  "headOnNormal 53 = Vector3 (6004799503160661 / 18014398509481984) (6004799503160661 / 9007199254740992) (6004799503160661 / 9007199254740992)"
  "lengthVFl (roundDecimal 53) (headOnNormal 53) = 1"
  "frictionVector1 (computeFrictionVectorsRounded (roundDecimal 53) (headOnCollaborators 53)
      headOnVelocity (headOnManifold 53)) = - headOnNormal 53"
  "frictionVector2 (computeFrictionVectorsRounded (roundDecimal 53) (headOnCollaborators 53)
      headOnVelocity (headOnManifold 53)) = 0"
proof -
  let ?fl = "roundDecimal 53"
  let ?n = "Vector3 (6004799503160661 / 18014398509481984) (6004799503160661 / 9007199254740992) (6004799503160661 / 9007199254740992)"
  let ?t = "Vector3 (- (1 / 1125899906842624)) (- (1 / 562949953421312)) (- (1 / 562949953421312))"
  show n: "headOnNormal 53 = ?n"
    by (simp add: headOnNormal_def round53)
  show "lengthVFl ?fl (headOnNormal 53) = 1"
    by (simp add: n lengthVFl_def dotFl_def round53)
  have mn: "manifoldNormal (headOnManifold 53) = ?n"
    by (simp add: headOnManifold_def n)
  have eps: "MACHINE_EPSILON (headOnCollaborators 53) = 1 / 4503599627370496"
    by (simp add: headOnCollaborators_def)
  have t: "Vector3
      (?fl (vx headOnVelocity - vx (scaleVFl ?fl (dotFl ?fl headOnVelocity ?n) ?n)))
      (?fl (vy headOnVelocity - vy (scaleVFl ?fl (dotFl ?fl headOnVelocity ?n) ?n)))
      (?fl (vz headOnVelocity - vz (scaleVFl ?fl (dotFl ?fl headOnVelocity ?n) ?n))) = ?t"
    by (simp add: headOnVelocity_def scaleVFl_def dotFl_def round53)
  have lt: "lengthVFl ?fl ?t = 3 / 1125899906842624"
    by (simp add: lengthVFl_def dotFl_def round53)
  have t1: "divVFl ?fl ?t (3 / 1125899906842624) = - ?n"
    by (simp add: divVFl_def uminus_Vector3_def round53)
  have t2: "getUnitFl ?fl (crossFl ?fl ?n (- ?n)) = 0"
    by (simp add: getUnitFl_def divVFl_def lengthVFl_def dotFl_def crossFl_def uminus_Vector3_def
          zero_Vector3_def roundDecimal_zero)
  have guard: "MACHINE_EPSILON (headOnCollaborators 53) <
      lengthVFl ?fl (Vector3
        (?fl (vx headOnVelocity -
           vx (scaleVFl ?fl (dotFl ?fl headOnVelocity (manifoldNormal (headOnManifold 53)))
                 (manifoldNormal (headOnManifold 53)))))
        (?fl (vy headOnVelocity -
           vy (scaleVFl ?fl (dotFl ?fl headOnVelocity (manifoldNormal (headOnManifold 53)))
                 (manifoldNormal (headOnManifold 53)))))
        (?fl (vz headOnVelocity -
           vz (scaleVFl ?fl (dotFl ?fl headOnVelocity (manifoldNormal (headOnManifold 53)))
                 (manifoldNormal (headOnManifold 53))))))"
    unfolding mn t lt eps by simp
  show "frictionVector1 (computeFrictionVectorsRounded ?fl (headOnCollaborators 53)
      headOnVelocity (headOnManifold 53)) = - headOnNormal 53"
    unfolding computeFrictionVectorsRounded_tangent(1) [OF guard] mn t lt t1 n ..
  show "frictionVector2 (computeFrictionVectorsRounded ?fl (headOnCollaborators 53)
      headOnVelocity (headOnManifold 53)) = 0"
    unfolding computeFrictionVectorsRounded_tangent(2) [OF guard] mn t lt t1 t2 ..
qed


section \<open>The claims about solve\<close>

text \<open>
  C3. For every contact point, after any call to \<open>solve\<close> the accumulated
  \<open>penetrationImpulse\<close> is at least 0, and when the split impulse is active the
  accumulated \<open>penetrationSplitImpulse\<close> is at least 0: each normal update projects
  with \<open>max(\<lambda> + \<Delta>\<lambda>, 0)\<close>.  The contact points are the cells of \<open>mContactPoints\<close>
  that belong to the manifolds in use, that is, the cells below
  \<open>firstContactPoint s (mNbContactManifolds s)\<close>, which is \<open>mNbContactPoints s\<close> after
  \<open>init\<close> and after every later \<open>solve\<close> (\<open>init_built\<close>, \<open>solve_built\<close>); \<open>s\<close> is any
  state of the solver.
\<close>

theorem solve_penetrationImpulse_nonneg:
  assumes "p < firstContactPoint s (mNbContactManifolds s)"
  shows "0 \<le> penetrationImpulse (mContactPoints (solve s) p) \<and>
         (mIsSplitImpulseActive s \<longrightarrow>
            0 \<le> penetrationSplitImpulse (mContactPoints (solve s) p))"
proof -
  have range: "p < 0 + (\<Sum>k = 0..<0 + mNbContactManifolds s. nbContacts (mContactConstraints s k))"
    using assms by (simp add: firstContactPoint_sum)
  have "0 \<le> penetrationImpulse (mContactPoints (solveManifolds (mNbContactManifolds s) 0 0 s) p)"
    using range by (intro solveManifolds_nonneg) simp_all
  moreover have "mIsSplitImpulseActive s \<Longrightarrow>
      0 \<le> penetrationSplitImpulse (mContactPoints (solveManifolds (mNbContactManifolds s) 0 0 s) p)"
    using range by (intro solveManifolds_split_nonneg) simp_all
  ultimately show ?thesis by (simp add: solve_def)
qed

theorem solve_penetrationImpulse_nonneg_witness:
  "0 \<le> penetrationImpulse (mContactPoints (solve exampleSolver) 0) \<and>
   0 \<le> penetrationSplitImpulse (mContactPoints (solve exampleSolver) 0)"
  using solve_penetrationImpulse_nonneg [of 0 exampleSolver]
  by (simp add: firstContactPoint_def exampleSolver_def exampleManifoldSolver_def
        newContactManifoldSolver_def)

text \<open>
  C4. For every manifold in use, after a call to \<open>solve\<close> the magnitudes of
  \<open>friction1Impulse\<close>, \<open>friction2Impulse\<close> and \<open>frictionTwistImpulse\<close> are at most
  \<open>\<mu> \<cdot> \<Sigma>\<lambda>\<close>, where \<open>\<mu>\<close> is the mixed friction coefficient of the manifold and
  \<open>\<Sigma>\<lambda>\<close> the sum of the penetration impulses of its contact points, which is the value
  of the variable \<open>sumPenetrationImpulse\<close> in the pass of this call over the manifold
  (\<open>solve_sumPenetrationImpulse\<close>).  A friction coefficient is not negative:
  \<open>computeMixedFrictionCoefficient\<close> returns a square root, so the hypothesis holds
  after \<open>init\<close> and after every later \<open>solve\<close> when no material has a negative
  friction coefficient (\<open>init_built\<close>, \<open>solve_built\<close>).
\<close>

theorem solve_friction_impulses_bounded:
  assumes "c < mNbContactManifolds s"
    and "0 \<le> frictionCoefficient (mContactConstraints s c)"
  shows "\<bar>friction1Impulse (mContactConstraints (solve s) c)\<bar>
           \<le> frictionCoefficient (mContactConstraints (solve s) c) * sumPenetrationImpulse (solve s) c \<and>
         \<bar>friction2Impulse (mContactConstraints (solve s) c)\<bar>
           \<le> frictionCoefficient (mContactConstraints (solve s) c) * sumPenetrationImpulse (solve s) c \<and>
         \<bar>frictionTwistImpulse (mContactConstraints (solve s) c)\<bar>
           \<le> frictionCoefficient (mContactConstraints (solve s) c) * sumPenetrationImpulse (solve s) c"
proof -
  have mu: "frictionCoefficient (mContactConstraints (solve s) c) =
            frictionCoefficient (mContactConstraints s c)"
    by (simp add: solve_def solveManifolds_keeps)
  have sm: "sumPenetrationImpulse (solve s) c =
      (\<Sum>p = 0 + (\<Sum>j = 0..<c. nbContacts (mContactConstraints s j))..<
            0 + (\<Sum>j = 0..<c. nbContacts (mContactConstraints s j)) + nbContacts (mContactConstraints s c).
         penetrationImpulse (mContactPoints (solveManifolds (mNbContactManifolds s) 0 0 s) p))"
    unfolding sumPenetrationImpulse_def firstContactPoint_solve
    by (simp add: firstContactPoint_sum solve_def solveManifolds_keeps)
  show ?thesis
    unfolding mu sm
    using solveManifolds_friction_bound [of 0 c "mNbContactManifolds s" s 0] assms
    by (simp only: solve_def)
qed

theorem solve_friction_impulses_bounded_witness:
  "\<bar>friction1Impulse (mContactConstraints (solve exampleSolver) 0)\<bar>
     \<le> frictionCoefficient (mContactConstraints (solve exampleSolver) 0) *
        sumPenetrationImpulse (solve exampleSolver) 0 \<and>
   \<bar>friction2Impulse (mContactConstraints (solve exampleSolver) 0)\<bar>
     \<le> frictionCoefficient (mContactConstraints (solve exampleSolver) 0) *
        sumPenetrationImpulse (solve exampleSolver) 0 \<and>
   \<bar>frictionTwistImpulse (mContactConstraints (solve exampleSolver) 0)\<bar>
     \<le> frictionCoefficient (mContactConstraints (solve exampleSolver) 0) *
        sumPenetrationImpulse (solve exampleSolver) 0"
proof -
  have "0 < mNbContactManifolds exampleSolver"
    by (simp add: exampleSolver_def)
  moreover have "0 \<le> frictionCoefficient (mContactConstraints exampleSolver 0)"
    by (simp add: exampleSolver_def exampleManifoldSolver_def)
  ultimately show ?thesis
    by (rule solve_friction_impulses_bounded)
qed




text \<open>
  C2 claims that \<open>solve\<close> leaves the columns \<open>mLinearVelocities\<close> and
  \<open>mAngularVelocities\<close> of the body store unchanged.  The second factor loop of body 1
  in the penetration constraint (lines 571-574) multiplies both by the per-axis
  factors: in the state \<open>factorExampleSolver\<close> one call of \<open>solve\<close> turns the linear
  velocity \<open>(4, 0, 0)\<close> of body 0 into \<open>(2, 0, 0)\<close> and its angular velocity
  \<open>(3, 0, 0)\<close> into \<open>(0, 0, 0)\<close>.
\<close>

theorem solve_changes_velocities_example:
  "mLinearVelocities (mRigidBodyComponents factorExampleSolver) 0 = Vector3 4 0 0 \<and>
   mLinearVelocities (mRigidBodyComponents (solve factorExampleSolver)) 0 = Vector3 2 0 0 \<and>
   mAngularVelocities (mRigidBodyComponents factorExampleSolver) 0 = Vector3 3 0 0 \<and>
   mAngularVelocities (mRigidBodyComponents (solve factorExampleSolver)) 0 = Vector3 0 0 0"
proof -
  have one: "mNbContactManifolds factorExampleSolver = 1"
    "nbContacts (mContactConstraints factorExampleSolver 0) = 1"
    by (simp_all add: factorExampleSolver_def)
  show ?thesis
    unfolding solve_one_point [OF one] solveContactPoint_velocities
    by (simp add: factorExampleSolver_def factorExampleBodies_def mulAt_def mulComponents_def)
qed

text \<open>
  C8 claims that the penetration constraint of a contact point multiplies every
  constrained velocity component of both bodies exactly once by its per-axis factor.
  The factor loop of body 2 (lines 585-592) multiplies the constrained velocities of
  body 1 a second time (\<open>solvePenetration_body1\<close>): in the state \<open>factorExampleSolver\<close>,
  where the contact point applies no impulse, the constrained linear velocity
  \<open>(4, 0, 0)\<close> of body 0 with the factor \<open>(1/2, 1, 1)\<close> becomes \<open>(1, 0, 0)\<close>, not
  \<open>(2, 0, 0)\<close>.
\<close>

theorem solvePenetration_factor_twice_example:
  "mConstrainedLinearVelocities (mRigidBodyComponents factorExampleSolver) 0 = Vector3 4 0 0 \<and>
   mLinearVelocitiesFactors (mRigidBodyComponents factorExampleSolver) 0 = Vector3 (1 / 2) 1 1 \<and>
   penetrationImpulse (mContactPoints (solvePenetration 0 0 factorExampleSolver) 0) =
     penetrationImpulse (mContactPoints factorExampleSolver 0) \<and>
   mConstrainedLinearVelocities (mRigidBodyComponents (solvePenetration 0 0 factorExampleSolver)) 0 =
     Vector3 1 0 0"
proof -
  have ne: "rigidBodyComponentIndexBody1 (mContactConstraints factorExampleSolver 0) \<noteq>
            rigidBodyComponentIndexBody2 (mContactConstraints factorExampleSolver 0)"
    by (simp add: factorExampleSolver_def)
  have i1: "rigidBodyComponentIndexBody1 (mContactConstraints factorExampleSolver 0) = 0"
    by (simp add: factorExampleSolver_def)
  have "mConstrainedLinearVelocities (mRigidBodyComponents (solvePenetration 0 0 factorExampleSolver)) 0 =
     Vector3 1 0 0"
    using solvePenetration_body1(1) [OF ne, of 0]
    unfolding i1 factorExample_deltaLambda
    by (simp add: factorExampleSolver_def factorExampleBodies_def newContactPointSolver_def vec_simps)
  then show ?thesis
    by (simp add: solvePenetration_points factorExample_deltaLambda)
       (simp add: factorExampleSolver_def factorExampleBodies_def newContactPointSolver_def)
qed



section \<open>The claim about warmStart\<close>

text \<open>
  C6. In \<open>warmStart\<close>, for every manifold in use: if at least one of its contact points
  is resting, the old friction impulses are projected onto the new tangent basis, with
  \<open>F_old = friction1Impulse \<cdot> oldFrictionVector1 + friction2Impulse \<cdot> oldFrictionVector2\<close>,
  \<open>friction1Impulse = F_old \<cdot> frictionVector1\<close> and
  \<open>friction2Impulse = F_old \<cdot> frictionVector2\<close>; otherwise \<open>friction1Impulse\<close>,
  \<open>friction2Impulse\<close>, \<open>frictionTwistImpulse\<close> and \<open>rollingResistanceImpulse\<close> are set to
  zero.  For every contact point that is not resting, \<open>penetrationImpulse\<close> is set to
  zero.
\<close>

theorem warmStart_impulses:
  fixes s :: ContactSolverSystem and c p :: nat
  defines "cm \<equiv> mContactConstraints s c"
  defines "first \<equiv> firstContactPoint s c"
  defines "F_old \<equiv> scaleV (friction1Impulse cm) (oldFrictionVector1 cm) +
                     scaleV (friction2Impulse cm) (oldFrictionVector2 cm)"
  defines "cm' \<equiv> mContactConstraints (warmStart s) c"
  shows "(c < mNbContactManifolds s \<longrightarrow>
           (if \<exists>q\<in>{first..<first + nbContacts cm}. isRestingContact (mContactPoints s q)
            then friction1Impulse cm' = dot F_old (frictionVector1 cm) \<and>
                 friction2Impulse cm' = dot F_old (frictionVector2 cm)
            else friction1Impulse cm' = 0 \<and> friction2Impulse cm' = 0 \<and>
                 frictionTwistImpulse cm' = 0 \<and> rollingResistanceImpulse cm' = 0)) \<and>
         (p < firstContactPoint s (mNbContactManifolds s) \<and>
          \<not> isRestingContact (mContactPoints s p) \<longrightarrow>
            penetrationImpulse (mContactPoints (warmStart s) p) = 0)"
proof -
  have proj: "friction1Impulse (projectOldFrictionImpulse cm) = dot F_old (frictionVector1 cm) \<and>
              friction2Impulse (projectOldFrictionImpulse cm) = dot F_old (frictionVector2 cm)"
    by (simp add: projectOldFrictionImpulse_def Let_def F_old_def dot_def scaleV_def plus_Vector3_def)
  have rec: "c < mNbContactManifolds s \<Longrightarrow>
      cm' = warmStartedManifold
              (\<exists>q\<in>{first..<first + nbContacts cm}. isRestingContact (mContactPoints s q)) cm"
    using warmStartManifolds_constraints [where c = 0 and k = c and n = "mNbContactManifolds s" and s = s and i = 0]
    by (simp add: cm'_def warmStart_def first_def cm_def firstContactPoint_sum)
  have pts: "p < firstContactPoint s (mNbContactManifolds s) \<Longrightarrow>
      \<not> isRestingContact (mContactPoints s p) \<Longrightarrow>
      penetrationImpulse (mContactPoints (warmStart s) p) = 0"
    using warmStartManifolds_impulse [where i = 0 and p = p and c = 0 and n = "mNbContactManifolds s" and s = s]
    by (simp add: warmStart_def firstContactPoint_sum)
  show ?thesis
    using rec proj pts by (simp add: warmStartedManifold_def)
qed

theorem warmStart_impulses_witness:
  "friction1Impulse (mContactConstraints (warmStart warmExampleSolver) 0) = 3 \<and>
   friction2Impulse (mContactConstraints (warmStart warmExampleSolver) 0) = - 2 \<and>
   penetrationImpulse (mContactPoints (warmStart warmExampleSolver) 1) = 0"
proof -
  have first: "firstContactPoint warmExampleSolver 0 = 0"
    "firstContactPoint warmExampleSolver (mNbContactManifolds warmExampleSolver) = 2"
    by (simp_all add: firstContactPoint_def warmExampleSolver_def exampleSolver_def)
  have resting: "\<exists>q\<in>{0..<0 + nbContacts (mContactConstraints warmExampleSolver 0)}.
      isRestingContact (mContactPoints warmExampleSolver q)"
    by (rule bexI [of _ 0])
       (simp_all add: warmExampleSolver_def examplePointSolver_def newContactPointSolver_def)
  have new: "\<not> isRestingContact (mContactPoints warmExampleSolver 1)"
    by (simp add: warmExampleSolver_def)
  have m: "0 < mNbContactManifolds warmExampleSolver"
    by (simp add: warmExampleSolver_def exampleSolver_def)
  show ?thesis
    using warmStart_impulses [where c = 0 and s = warmExampleSolver and p = 1] resting new m
    unfolding first
    by (simp add: warmExampleSolver_def exampleManifoldSolver_def newContactManifoldSolver_def
          scaleV_def plus_Vector3_def dot_def)
qed

section \<open>The claims about init\<close>

text \<open>
  C1 claims that \<open>init\<close> computes the relative velocity of a contact point as
  \<open>\<Delta>v = v2 + w2 \<times> r2 - v1 - w1 \<times> r1\<close> and sets the restitution bias to \<open>e \<cdot> \<Delta>vN\<close>
  exactly when \<open>\<Delta>vN = \<Delta>v \<cdot> n < -restitutionVelocityThreshold\<close>, and to 0 otherwise.  The
  components that lines 204-209 write out subtract \<open>w1.z * r1.y\<close>, \<open>w1.x * r1.z\<close> and
  \<open>w1.y * r1.x\<close> where the cross product adds them
  (\<open>deltaVInit_relativePointVelocity\<close>; the comment above the lines and \<open>solve\<close> have the
  formula of the claim), and the bias is thresholded on this velocity
  (\<open>initContactPointSolver_restitutionBias\<close>).  For the contact with a spinning
  body, whose relative velocity along the normal is \<open>+2\<close>, \<open>init\<close> stores the
  restitution bias \<open>-1\<close>; the formula of the claim on the same velocities, levers,
  normal, restitution factor and threshold gives 0.
\<close>

theorem init_restitutionBias_sign_example:
  "restitutionBias (mContactPoints
      (init exampleCollaborators [exampleContactManifold] [signExampleContactPoint] (1 / 60)
         signExampleSolver) 0) = - 1 \<and>
   computeRestitutionBias
     (relativePointVelocity
        (mLinearVelocities signExampleBodies 0) (mAngularVelocities signExampleBodies 0)
        (mLinearVelocities signExampleBodies 1) (mAngularVelocities signExampleBodies 1)
        (r1 (mContactPoints
          (init exampleCollaborators [exampleContactManifold] [signExampleContactPoint] (1 / 60)
             signExampleSolver) 0))
        (r2 (mContactPoints
          (init exampleCollaborators [exampleContactManifold] [signExampleContactPoint] (1 / 60)
             signExampleSolver) 0)))
     (normal (mContactPoints
          (init exampleCollaborators [exampleContactManifold] [signExampleContactPoint] (1 / 60)
             signExampleSolver) 0))
     (computeMixedRestitutionFactor exampleCollaborators 0 1)
     (mRestitutionVelocityThreshold signExampleSolver) = 0"
proof -
  let ?s0 = "signExampleSolver\<lparr>mAllContactManifolds := [exampleContactManifold],
                mAllContactPoints := [signExampleContactPoint], mTimeStep := 1 / 60,
                mNbContactManifolds := 0, mNbContactPoints := 0\<rparr>"
  let ?cp = "initContactPointSolver exampleCollaborators exampleContactManifold
        (initContactManifoldSolver exampleCollaborators 0 ?s0) 0 ?s0"
  have init: "init exampleCollaborators [exampleContactManifold] [signExampleContactPoint] (1 / 60)
         signExampleSolver = warmStart (initManifold exampleCollaborators 0 ?s0)"
    by (rule init_single) (simp_all add: exampleCollaborators_def)
  have pts: "mContactPoints (initManifold exampleCollaborators 0 ?s0) 0 = ?cp"
    using initContactPoint_built(1) [of exampleCollaborators exampleContactManifold 0
        "initContactManifoldSolver exampleCollaborators 0 ?s0" ?s0]
    by (simp add: initManifold_points exampleContactManifold_def)
  have cm: "rigidBodyComponentIndexBody1 (initContactManifoldSolver exampleCollaborators 0 ?s0) = 0"
    "rigidBodyComponentIndexBody2 (initContactManifoldSolver exampleCollaborators 0 ?s0) = 1"
    by (simp_all add: initContactManifoldSolver_def Let_def exampleCollaborators_def
          exampleContactManifold_def)
  have cp: "restitutionBias ?cp = - 1" "r1 ?cp = Vector3 0 1 0" "r2 ?cp = Vector3 (- 2) 0 0"
    "normal ?cp = Vector3 1 0 0"
    unfolding initContactPointSolver_def Let_def cm
    by (simp_all add: signExampleSolver_def exampleSolver_def signExampleBodies_def
          signExampleContactPoint_def exampleCollaborators_def exampleContactManifold_def
          computeRestitutionBias_def computeMixedRestitutionFactor_def deltaVInit_def
          zero_Vector3_def)
  have spec: "computeRestitutionBias
     (relativePointVelocity
        (mLinearVelocities signExampleBodies 0) (mAngularVelocities signExampleBodies 0)
        (mLinearVelocities signExampleBodies 1) (mAngularVelocities signExampleBodies 1)
        (Vector3 0 1 0) (Vector3 (- 2) 0 0))
     (Vector3 1 0 0)
     (computeMixedRestitutionFactor exampleCollaborators 0 1)
     (mRestitutionVelocityThreshold signExampleSolver) = 0"
    by (simp add: computeRestitutionBias_def relativePointVelocity_def cross_def
          zero_Vector3_def plus_Vector3_def minus_Vector3_def signExampleBodies_def
          signExampleSolver_def exampleSolver_def)
  show ?thesis
    unfolding init warmStart_restitutionBias warmStart_geometry pts cp
    using spec by simp
qed

section \<open>The claim about computeFrictionVectors\<close>

text \<open>
  C5 claims that after \<open>init\<close> every manifold with a non-zero normal has a tangent basis:
  \<open>frictionVector1\<close> orthogonal to the unit normal, \<open>frictionVector2\<close> orthogonal to
  both and \<open>frictionVector1 \<times> frictionVector2\<close> equal to the normal, in both branches of
  \<open>computeFrictionVectors\<close>; the comment above the function requires the same.  The
  guard of the function compares the length of
  \<open>deltaVelocity - (deltaVelocity \<cdot> n) n\<close> with \<open>MACHINE_EPSILON\<close>.  For a contact whose
  relative velocity is along the normal this difference is zero over the real numbers,
  where the normal has the length 1, and the fallback branch is taken.  In the
  arithmetic of \<open>decimal\<close> the components of the normal and the result of every
  operation are rounded, and the difference is rounding noise that grows with the
  velocity.  For the head-on contact, whose normal
  has the length 1 in this arithmetic, the noise is longer than \<open>MACHINE_EPSILON\<close> in
  \<open>float\<close> and in \<open>double\<close>, the tangential branch normalises it, and the function stores
  the normal itself (\<open>float\<close>) or its opposite (\<open>double\<close>) in \<open>frictionVector1\<close> and the
  zero vector in \<open>frictionVector2\<close>: \<open>frictionVector1 \<cdot> normal\<close> is near 1 or -1 and not
  0, and \<open>frictionVector1 \<times> frictionVector2\<close> is not the normal.
\<close>

theorem computeFrictionVectors_head_on_example:
  "lengthVFl (roundDecimal 24) (headOnNormal 24) = 1 \<and>
   manifoldNormal (computeFrictionVectorsRounded (roundDecimal 24) (headOnCollaborators 24)
      headOnVelocity (headOnManifold 24)) = headOnNormal 24 \<and>
   frictionVector1 (computeFrictionVectorsRounded (roundDecimal 24) (headOnCollaborators 24)
      headOnVelocity (headOnManifold 24)) = headOnNormal 24 \<and>
   frictionVector2 (computeFrictionVectorsRounded (roundDecimal 24) (headOnCollaborators 24)
      headOnVelocity (headOnManifold 24)) = 0 \<and>
   dot (frictionVector1 (computeFrictionVectorsRounded (roundDecimal 24) (headOnCollaborators 24)
          headOnVelocity (headOnManifold 24)))
       (manifoldNormal (computeFrictionVectorsRounded (roundDecimal 24) (headOnCollaborators 24)
          headOnVelocity (headOnManifold 24))) > 9 / 10 \<and>
   cross (frictionVector1 (computeFrictionVectorsRounded (roundDecimal 24) (headOnCollaborators 24)
          headOnVelocity (headOnManifold 24)))
       (frictionVector2 (computeFrictionVectorsRounded (roundDecimal 24) (headOnCollaborators 24)
          headOnVelocity (headOnManifold 24))) \<noteq>
     manifoldNormal (computeFrictionVectorsRounded (roundDecimal 24) (headOnCollaborators 24)
          headOnVelocity (headOnManifold 24)) \<and>
   lengthVFl (roundDecimal 53) (headOnNormal 53) = 1 \<and>
   manifoldNormal (computeFrictionVectorsRounded (roundDecimal 53) (headOnCollaborators 53)
      headOnVelocity (headOnManifold 53)) = headOnNormal 53 \<and>
   frictionVector1 (computeFrictionVectorsRounded (roundDecimal 53) (headOnCollaborators 53)
      headOnVelocity (headOnManifold 53)) = - headOnNormal 53 \<and>
   frictionVector2 (computeFrictionVectorsRounded (roundDecimal 53) (headOnCollaborators 53)
      headOnVelocity (headOnManifold 53)) = 0 \<and>
   dot (frictionVector1 (computeFrictionVectorsRounded (roundDecimal 53) (headOnCollaborators 53)
          headOnVelocity (headOnManifold 53)))
       (manifoldNormal (computeFrictionVectorsRounded (roundDecimal 53) (headOnCollaborators 53)
          headOnVelocity (headOnManifold 53))) < - (9 / 10) \<and>
   cross (frictionVector1 (computeFrictionVectorsRounded (roundDecimal 53) (headOnCollaborators 53)
          headOnVelocity (headOnManifold 53)))
       (frictionVector2 (computeFrictionVectorsRounded (roundDecimal 53) (headOnCollaborators 53)
          headOnVelocity (headOnManifold 53))) \<noteq>
     manifoldNormal (computeFrictionVectorsRounded (roundDecimal 53) (headOnCollaborators 53)
          headOnVelocity (headOnManifold 53))"
proof -
  have n24: "manifoldNormal (headOnManifold 24) = headOnNormal 24"
    and n53: "manifoldNormal (headOnManifold 53) = headOnNormal 53"
    by (simp_all add: headOnManifold_def)
  have d24: "dot (headOnNormal 24) (headOnNormal 24) > 9 / 10"
    and c24: "cross (headOnNormal 24) 0 \<noteq> headOnNormal 24"
    unfolding headOn24(1) by (simp_all add: dot_def cross_def zero_Vector3_def)
  have d53: "dot (- headOnNormal 53) (headOnNormal 53) < - (9 / 10)"
    and c53: "cross (- headOnNormal 53) 0 \<noteq> headOnNormal 53"
    unfolding headOn53(1) by (simp_all add: dot_def cross_def zero_Vector3_def uminus_Vector3_def)
  show ?thesis
    unfolding computeFrictionVectorsRounded_normal headOn24(3,4) headOn53(3,4) n24 n53
    using headOn24(2) headOn53(2) d24 c24 d53 c53 by simp
qed

section \<open>The claim about init without contacts\<close>

text \<open>
  C10. If \<open>init\<close> is called with an empty manifold list or an empty contact point list,
  it returns before it builds a solver record: both counts are 0 and the cells of both
  arenas, the body store and the external lists are as they were passed.  On the state
  it returns, \<open>warmStart\<close>, \<open>solve\<close> and \<open>storeImpulses\<close> change nothing, however often
  they are called.
\<close>

theorem init_empty:
  fixes env :: Collaborators and s :: ContactSolverSystem and timeStep :: decimal
  assumes "contactManifolds = [] \<or> contactPoints = []"
  defines "s' \<equiv> init env contactManifolds contactPoints timeStep s"
  shows "mNbContactManifolds s' = 0 \<and> mNbContactPoints s' = 0 \<and>
         mContactConstraints s' = mContactConstraints s \<and>
         mContactPoints s' = mContactPoints s \<and>
         mRigidBodyComponents s' = mRigidBodyComponents s \<and>
         mAllContactManifolds s' = contactManifolds \<and>
         mAllContactPoints s' = contactPoints \<and>
         warmStart s' = s' \<and> solve s' = s' \<and> storeImpulses s' = s'"
  using assms(1)
  by (auto simp: s'_def init_def Let_def warmStart_def solve_def storeImpulses_def)

theorem init_empty_witness:
  "mNbContactManifolds (init exampleCollaborators [] [exampleContactPoint] (1 / 60) exampleSolver) = 0 \<and>
   mRigidBodyComponents (init exampleCollaborators [] [exampleContactPoint] (1 / 60) exampleSolver) =
     mRigidBodyComponents exampleSolver \<and>
   solve (init exampleCollaborators [] [exampleContactPoint] (1 / 60) exampleSolver) =
     init exampleCollaborators [] [exampleContactPoint] (1 / 60) exampleSolver \<and>
   storeImpulses (init exampleCollaborators [] [exampleContactPoint] (1 / 60) exampleSolver) =
     init exampleCollaborators [] [exampleContactPoint] (1 / 60) exampleSolver"
  using init_empty [where contactManifolds = "[]" and contactPoints = "[exampleContactPoint]"
      and env = exampleCollaborators and timeStep = "1 / 60" and s = exampleSolver]
  by simp

end
